(* ===== verification/JS_Prelude.thy ===== *)
theory JS_Prelude
  imports Main "HOL-Library.Word" "HOL-Library.Sublist"
begin

text \<open>
  Shared vocabulary of the development.

  \<^item> JavaScript strings are sequences of 16-bit UTF-16 code units, so a string of
    the program is a \<open>16 word list\<close> (\<open>jsstring\<close>).  Every string operation the
    program calls (\<open>startsWith\<close>, \<open>substring\<close>, \<open>includes\<close>, \<open>join\<close>, \<open>trim\<close>,
    \<open>length\<close>) works on code units, which is why the list of code units is the
    right carrier.  The string literals of \<^verbatim>\<open>src/index.js\<close> are all ASCII; \<open>ascii\<close>
    embeds an Isabelle string literal into \<open>jsstring\<close>.
  \<^item> JavaScript truthiness of values that are a string or \<^verbatim>\<open>undefined\<close>
    (environment variables, constructor arguments): \<open>truthy\<close>, and the
    \<^verbatim>\<open>a || b\<close> idiom on such values: \<open>or_else\<close>.
  \<^item> A transition system that is given by a successor function is run by
    \<open>iterate\<close>, which makes a number of transitions when there are that many;
    \<open>relpowp_iterate\<close> relates it to the powers of the transition relation.
    The transition systems of the program instantiate it.
  \<^item> The collections of facts the component theories add to:
    \<open>js_eval\<close> (defining equations that evaluate closed terms in witnesses),
    \<open>frame\<close> (which parts of the state an operation leaves alone) and
    \<open>js_string\<close> (characterisations of the string primitives by list functions).
\<close>

section \<open>Fact collections\<close>

named_theorems js_eval \<open>defining equations unfolded to evaluate closed terms\<close>
named_theorems frame \<open>fields of the state an operation leaves unchanged\<close>
named_theorems js_string \<open>string primitives characterised by list functions\<close>

section \<open>Strings as lists of UTF-16 code units\<close>

type_synonym code_unit = "16 word"
type_synonym jsstring = "code_unit list"

definition ascii :: "string \<Rightarrow> jsstring" where
  "ascii s = map of_char s"

lemma ascii_Nil [simp]: "ascii [] = []"
  by (simp add: ascii_def)

lemma ascii_Cons [simp]: "ascii (c # cs) = of_char c # ascii cs"
  by (simp add: ascii_def)

lemma ascii_append [simp]: "ascii (s @ t) = ascii s @ ascii t"
  by (simp add: ascii_def)

lemma length_ascii [simp]: "length (ascii s) = length s"
  by (simp add: ascii_def)

lemma ascii_eq_Nil_iff [simp]: "ascii s = [] \<longleftrightarrow> s = []"
  by (simp add: ascii_def)

lemma unat_of_char: "unat (of_char c :: code_unit) = of_char c"
proof -
  have small: "(of_char c :: nat) < 2 ^ 16"
    by (rule less_trans [of _ 256]) simp_all
  have "unat (of_char c :: code_unit) = unat (of_nat (of_char c) :: code_unit)"
    by (simp only: of_nat_of_char)
  also have "\<dots> = of_char c"
    using small by (simp add: unat_of_nat take_bit_nat_eq_self)
  finally show ?thesis .
qed

lemma of_char_code_unit_eq_iff [simp]:
  "(of_char c :: code_unit) = of_char d \<longleftrightarrow> c = d"
proof
  assume "(of_char c :: code_unit) = of_char d"
  then have "unat (of_char c :: code_unit) = unat (of_char d :: code_unit)"
    by simp
  then have "(of_char c :: nat) = of_char d"
    by (simp only: unat_of_char)
  then show "c = d" by simp
qed simp

lemma inj_ascii: "inj ascii"
  unfolding ascii_def by (rule inj_mapI) (simp add: inj_def)

lemma ascii_eq_iff [simp]: "ascii s = ascii t \<longleftrightarrow> s = t"
  by (rule inj_eq [OF inj_ascii])

lemma code_unit_less_ascii: "c \<in> set (ascii s) \<Longrightarrow> unat c < 256"
  by (auto simp: ascii_def unat_of_char)

section \<open>Truthiness\<close>

text \<open>
  A value that is either \<^verbatim>\<open>undefined\<close> or a string is an \<open>option\<close>; it is
  truthy when it is a non-empty string.  \<^verbatim>\<open>a || b\<close> evaluates to \<^verbatim>\<open>a\<close> when
  \<^verbatim>\<open>a\<close> is truthy and to \<^verbatim>\<open>b\<close> otherwise.
\<close>

definition truthy :: "jsstring option \<Rightarrow> bool" where
  "truthy v = (case v of None \<Rightarrow> False | Some s \<Rightarrow> s \<noteq> [])"

definition or_else :: "jsstring option \<Rightarrow> jsstring \<Rightarrow> jsstring" where
  "or_else v d = (case v of None \<Rightarrow> d | Some s \<Rightarrow> if s = [] then d else s)"

lemma truthy_simps [simp]:
  "truthy None = False"
  "truthy (Some s) = (s \<noteq> [])"
  by (simp_all add: truthy_def)

lemma truthy_iff: "truthy v \<longleftrightarrow> (\<exists>s. v = Some s \<and> s \<noteq> [])"
  by (cases v) simp_all

lemma or_else_simps [simp]:
  "or_else None d = d"
  "or_else (Some []) d = d"
  "s \<noteq> [] \<Longrightarrow> or_else (Some s) d = s"
  by (simp_all add: or_else_def)

lemma or_else_nonempty: "d \<noteq> [] \<Longrightarrow> or_else v d \<noteq> []"
  by (cases v) (auto simp: or_else_def)

section \<open>Lists\<close>

lemma take_length_eq_iff_prefix: "take (length p) s = p \<longleftrightarrow> prefix p s"
  by (metis append_eq_conv_conj prefix_def)

section \<open>Iterating a successor function\<close>

fun iterate :: "('s \<Rightarrow> 's option) \<Rightarrow> nat \<Rightarrow> 's \<Rightarrow> 's option" where
  "iterate f 0 s = Some s"
| "iterate f (Suc n) s = (case f s of None \<Rightarrow> None | Some t \<Rightarrow> iterate f n t)"

lemma iterate_numeral:
  "iterate f (numeral k) s =
     (case f s of None \<Rightarrow> None | Some t \<Rightarrow> iterate f (pred_numeral k) t)"
  by (simp add: numeral_eq_Suc)

lemma iterate_add:
  "iterate f (m + n) s = (case iterate f m s of None \<Rightarrow> None | Some t \<Rightarrow> iterate f n t)"
  by (induction m arbitrary: s) (simp_all split: option.splits)

lemma relpowp_iterate:
  assumes "\<And>s t. R s t \<longleftrightarrow> f s = Some t"
  shows "(R ^^ n) s t \<longleftrightarrow> iterate f n s = Some t"
proof (induction n arbitrary: s)
  case (Suc n)
  show ?case
  proof
    assume "(R ^^ Suc n) s t"
    then obtain u where "R s u" "(R ^^ n) u t"
      by (blast dest: relpowp_Suc_D2)
    with Suc [of u] assms [of s u] show "iterate f (Suc n) s = Some t"
      by simp
  next
    assume "iterate f (Suc n) s = Some t"
    then obtain u where "f s = Some u" "iterate f n u = Some t"
      by (auto split: option.splits)
    with Suc [of u] assms [of s u] show "(R ^^ Suc n) s t"
      by (blast intro: relpowp_Suc_I2)
  qed
qed auto

lemma rtranclp_iterate:
  assumes "\<And>s t. R s t \<longleftrightarrow> f s = Some t"
  shows "R\<^sup>*\<^sup>* s t \<longleftrightarrow> (\<exists>n. iterate f n s = Some t)"
  by (simp add: rtranclp_power relpowp_iterate [of R f, OF assms])

end
