(* ===== verification/JS_String.thy ===== *)
theory JS_String
  imports JS_Prelude
begin

text \<open>
  The string and array primitives of the JavaScript library that
  \<^verbatim>\<open>src/index.js\<close> calls, each written after the algorithm of the ECMAScript
  specification for the arguments the program passes (search position 0, no
  end index), and each characterised by a function of the list library:
  \<open>startsWith\<close> by \<open>prefix\<close>, \<open>substring\<close> by \<open>drop\<close>, \<open>includes\<close> (here \<open>includes_str\<close>) by \<open>sublist\<close>,
  \<open>join\<close> by concatenation with separators, \<open>trim\<close> by \<open>dropWhile\<close> on both ends,
  and the decimal rendering of a number by its digits.
\<close>

section \<open>startsWith and substring\<close>

definition startsWith :: "jsstring \<Rightarrow> jsstring \<Rightarrow> bool" where
  "startsWith s searchString =
     (let len = length s; searchLength = length searchString in
      if len < searchLength then False
      else take searchLength s = searchString)"

definition substring :: "jsstring \<Rightarrow> nat \<Rightarrow> jsstring" where
  "substring s start =
     (let len = length s; finalStart = min start len in
      take (len - finalStart) (drop finalStart s))"

lemma startsWith_iff_prefix [js_string]: "startsWith s p \<longleftrightarrow> prefix p s"
  by (auto simp: startsWith_def Let_def take_length_eq_iff_prefix dest: prefix_length_le)

lemma substring_eq_drop [js_string]: "substring s n = drop n s"
  by (simp add: substring_def Let_def min_def)

lemma startsWith_append [simp]: "startsWith (p @ s) p"
  by (simp add: startsWith_iff_prefix)

lemma startsWith_Nil [simp]: "startsWith [] p \<longleftrightarrow> p = []"
  by (simp add: startsWith_iff_prefix)

lemma startsWith_decompose:
  "startsWith s p \<longleftrightarrow> (\<exists>r. s = p @ r)"
  by (simp add: startsWith_iff_prefix prefix_def)

lemma substring_append_length [simp]: "substring (p @ s) (length p) = s"
  by (simp add: substring_eq_drop)

lemma length_substring [simp]: "length (substring s n) = length s - n"
  by (simp add: substring_eq_drop)

section \<open>indexOf and includes\<close>

text \<open>
  \<^verbatim>\<open>String.prototype.includes\<close> searches from position 0 for the first index at
  which the search string matches; the search gives up once the rest of the
  string is shorter than the search string.
\<close>

function indexOf_from :: "jsstring \<Rightarrow> jsstring \<Rightarrow> nat \<Rightarrow> nat option" where
  "indexOf_from s searchString i =
     (if length s < i + length searchString then None
      else if take (length searchString) (drop i s) = searchString then Some i
      else indexOf_from s searchString (Suc i))"
  by pat_completeness auto
termination
  by (relation "measure (\<lambda>(s, t, i). Suc (length s) - i)") auto

declare indexOf_from.simps [simp del]

definition includes_str :: "jsstring \<Rightarrow> jsstring \<Rightarrow> bool" where
  "includes_str s searchString \<longleftrightarrow> indexOf_from s searchString 0 \<noteq> None"

lemma indexOf_from_Some:
  "indexOf_from s t i = Some k \<Longrightarrow>
     i \<le> k \<and> k + length t \<le> length s \<and> take (length t) (drop k s) = t"
proof (induction s t i rule: indexOf_from.induct)
  case (1 s t i)
  then show ?case
    by (subst (asm) (2) indexOf_from.simps) (auto split: if_splits)
qed

lemma indexOf_from_None:
  "indexOf_from s t i = None \<Longrightarrow> i \<le> k \<Longrightarrow> take (length t) (drop k s) = t \<Longrightarrow>
     length s < k + length t"
proof (induction s t i rule: indexOf_from.induct)
  case (1 s t i)
  show ?case
  proof (cases "k = i")
    case True
    with "1.prems" show ?thesis
      by (subst (asm) indexOf_from.simps) (auto split: if_splits)
  next
    case False
    with "1.prems" have "Suc i \<le> k" by simp
    with "1.prems" "1.IH" show ?thesis
      by (subst (asm) indexOf_from.simps) (auto split: if_splits)
  qed
qed

lemma indexOf_from_least:
  "indexOf_from s t i = Some k \<Longrightarrow> i \<le> j \<Longrightarrow> j < k \<Longrightarrow>
     take (length t) (drop j s) \<noteq> t"
proof (induction s t i rule: indexOf_from.induct)
  case (1 s t i)
  show ?case
  proof (cases "j = i")
    case True
    with "1.prems" show ?thesis
      by (subst (asm) indexOf_from.simps) (auto split: if_splits)
  next
    case False
    with "1.prems" have "Suc i \<le> j" by simp
    with "1.prems" "1.IH" show ?thesis
      by (subst (asm) indexOf_from.simps) (auto split: if_splits)
  qed
qed

lemma sublist_iff_match:
  "sublist t s \<longleftrightarrow> (\<exists>k. k + length t \<le> length s \<and> take (length t) (drop k s) = t)"
proof
  assume "sublist t s"
  then obtain ps ss where "s = ps @ t @ ss"
    by (auto simp: sublist_def)
  then have "length ps + length t \<le> length s \<and> take (length t) (drop (length ps) s) = t"
    by simp
  then show "\<exists>k. k + length t \<le> length s \<and> take (length t) (drop k s) = t" ..
next
  assume "\<exists>k. k + length t \<le> length s \<and> take (length t) (drop k s) = t"
  then obtain k where k: "take (length t) (drop k s) = t" by blast
  have "s = take k s @ take (length t) (drop k s) @ drop (length t) (drop k s)"
    by (simp only: append_take_drop_id)
  with k have "s = take k s @ t @ drop (length t) (drop k s)" by simp
  then show "sublist t s" unfolding sublist_def by blast
qed

lemma includes_str_iff_sublist [js_string]: "includes_str s t \<longleftrightarrow> sublist t s"
proof
  assume "includes_str s t"
  then obtain k where "indexOf_from s t 0 = Some k"
    by (auto simp: includes_str_def)
  from indexOf_from_Some [OF this] show "sublist t s"
    by (auto simp: sublist_iff_match)
next
  assume "sublist t s"
  then obtain k where k: "k + length t \<le> length s" "take (length t) (drop k s) = t"
    by (auto simp: sublist_iff_match)
  show "includes_str s t"
  proof (rule ccontr)
    assume "\<not> includes_str s t"
    then have "indexOf_from s t 0 = None" by (simp add: includes_str_def)
    from indexOf_from_None [OF this _ k(2)] k(1) show False by simp
  qed
qed

section \<open>Array slice and splice\<close>

text \<open>
  \<^verbatim>\<open>Array.prototype.slice(start)\<close> copies the elements from index \<open>start\<close> to the
  end; \<^verbatim>\<open>Array.prototype.splice(start, deleteCount)\<close> removes \<open>deleteCount\<close>
  elements at index \<open>start\<close> from the array (both clamped to its length).
\<close>

definition array_slice :: "'a list \<Rightarrow> nat \<Rightarrow> 'a list" where
  "array_slice xs start =
     (let len = length xs; k = min start len in take (len - k) (drop k xs))"

definition array_splice :: "'a list \<Rightarrow> nat \<Rightarrow> nat \<Rightarrow> 'a list" where
  "array_splice xs start deleteCount =
     (let len = length xs; actualStart = min start len;
          actualDeleteCount = min deleteCount (len - actualStart)
      in take actualStart xs @ drop (actualStart + actualDeleteCount) xs)"

lemma array_slice_eq_drop [js_string]: "array_slice xs n = drop n xs"
  by (simp add: array_slice_def Let_def min_def)

lemma array_splice_all [simp]: "array_splice xs 0 (length xs) = []"
  by (simp add: array_splice_def)

lemma length_array_splice:
  "length (array_splice xs start n) = length xs - min n (length xs - start)"
  by (auto simp: array_splice_def Let_def min_def)

section \<open>Array join\<close>

text \<open>
  \<^verbatim>\<open>Array.prototype.join\<close> runs over the indices \<open>k\<close> of the array with the
  result \<open>R\<close> so far: from the second element on it first appends the separator,
  then the element.
\<close>

fun join_loop :: "jsstring list \<Rightarrow> jsstring \<Rightarrow> nat \<Rightarrow> jsstring \<Rightarrow> jsstring" where
  "join_loop [] sep k R = R"
| "join_loop (x # xs) sep k R =
     join_loop xs sep (Suc k) ((if 0 < k then R @ sep else R) @ x)"

definition join :: "jsstring list \<Rightarrow> jsstring \<Rightarrow> jsstring" where
  "join xs sep = join_loop xs sep 0 []"

lemma join_loop_Suc:
  "join_loop xs sep (Suc k) R = R @ concat (map (\<lambda>x. sep @ x) xs)"
  by (induction xs arbitrary: k R) simp_all

lemma join_Nil [simp]: "join [] sep = []"
  by (simp add: join_def)

lemma join_Cons: "join (x # xs) sep = x @ concat (map (\<lambda>y. sep @ y) xs)"
  by (simp add: join_def join_loop_Suc)

lemma join_single [simp]: "join [x] sep = x"
  by (simp add: join_Cons)

lemma join_Cons_Cons [simp]: "join (x # y # ys) sep = x @ sep @ join (y # ys) sep"
  by (simp add: join_Cons)

lemma join_append:
  "xs \<noteq> [] \<Longrightarrow> ys \<noteq> [] \<Longrightarrow> join (xs @ ys) sep = join xs sep @ sep @ join ys sep"
proof (induction xs rule: list_nonempty_induct)
  case (single x)
  then show ?case by (cases ys) simp_all
next
  case (cons x xs)
  then show ?case by (cases xs) simp_all
qed

lemma join_snoc: "xs \<noteq> [] \<Longrightarrow> join (xs @ [x]) sep = join xs sep @ sep @ x"
  by (simp add: join_append)

lemma length_join_Cons:
  "length (join (x # xs) sep) = length x + (\<Sum>y\<leftarrow>xs. length sep + length y)"
  by (simp add: join_Cons length_concat comp_def)

section \<open>trim\<close>

text \<open>
  \<^verbatim>\<open>String.prototype.trim\<close> removes the white space and line terminator code
  units of ECMAScript from both ends: TAB, VT, FF, SP, NBSP, ZWNBSP, the other
  space separators of Unicode (all in the basic plane), LF, CR, LS and PS.
\<close>

definition isWhiteSpace :: "code_unit \<Rightarrow> bool" where
  "isWhiteSpace c \<longleftrightarrow>
     c \<in> set [0x09, 0x0B, 0x0C, 0x20, 0xA0, 0xFEFF, 0x1680, 0x202F, 0x205F, 0x3000,
              0x0A, 0x0D, 0x2028, 0x2029]
     \<or> (0x2000 \<le> c \<and> c \<le> 0x200A)"

definition trimStart :: "jsstring \<Rightarrow> jsstring" where
  "trimStart s = dropWhile isWhiteSpace s"

definition trimEnd :: "jsstring \<Rightarrow> jsstring" where
  "trimEnd s = rev (dropWhile isWhiteSpace (rev s))"

definition trim :: "jsstring \<Rightarrow> jsstring" where
  "trim s = trimEnd (trimStart s)"

lemma trim_Nil [simp]: "trim [] = []"
  by (simp add: trim_def trimStart_def trimEnd_def)

lemma trimStart_hd: "trimStart s \<noteq> [] \<Longrightarrow> \<not> isWhiteSpace (hd (trimStart s))"
  unfolding trimStart_def by (rule hd_dropWhile)

lemma trimEnd_last: "trimEnd s \<noteq> [] \<Longrightarrow> \<not> isWhiteSpace (last (trimEnd s))"
  unfolding trimEnd_def by (simp add: last_rev hd_dropWhile)

lemma trimEnd_eq_self: "s \<noteq> [] \<Longrightarrow> \<not> isWhiteSpace (last s) \<Longrightarrow> trimEnd s = s"
  by (cases s rule: rev_cases) (simp_all add: trimEnd_def)

lemma trimStart_eq_self: "s \<noteq> [] \<Longrightarrow> \<not> isWhiteSpace (hd s) \<Longrightarrow> trimStart s = s"
  by (cases s) (simp_all add: trimStart_def)

lemma trimEnd_keeps_hd:
  "s \<noteq> [] \<Longrightarrow> \<not> isWhiteSpace (hd s) \<Longrightarrow> trimEnd s \<noteq> [] \<and> hd (trimEnd s) = hd s"
proof (induction s rule: rev_induct)
  case Nil
  then show ?case by simp
next
  case (snoc x xs)
  show ?case
  proof (cases "isWhiteSpace x")
    case False
    then show ?thesis by (simp add: trimEnd_def)
  next
    case True
    with snoc.prems have "xs \<noteq> []" by (cases xs) auto
    with snoc True show ?thesis by (simp add: trimEnd_def)
  qed
qed

lemma trim_eq_Nil_iff: "trim s = [] \<longleftrightarrow> (\<forall>c \<in> set s. isWhiteSpace c)"
proof
  assume empty: "trim s = []"
  show "\<forall>c \<in> set s. isWhiteSpace c"
  proof (rule ccontr)
    assume "\<not> (\<forall>c \<in> set s. isWhiteSpace c)"
    then have ne: "trimStart s \<noteq> []"
      by (auto simp: trimStart_def dropWhile_eq_Nil_conv)
    from trimEnd_keeps_hd [OF ne trimStart_hd [OF ne]] empty show False
      by (simp add: trim_def)
  qed
next
  assume "\<forall>c \<in> set s. isWhiteSpace c"
  then have "trimStart s = []"
    by (simp add: trimStart_def dropWhile_eq_Nil_conv)
  then show "trim s = []" by (simp add: trim_def trimEnd_def)
qed

lemma trim_ends:
  assumes "trim s \<noteq> []"
  shows "\<not> isWhiteSpace (hd (trim s))" and "\<not> isWhiteSpace (last (trim s))"
proof -
  from assms have ne: "trimStart s \<noteq> []"
    by (auto simp: trim_def trimEnd_def)
  from trimEnd_keeps_hd [OF ne trimStart_hd [OF ne]]
  show "\<not> isWhiteSpace (hd (trim s))"
    using trimStart_hd [OF ne] by (simp add: trim_def)
  from assms show "\<not> isWhiteSpace (last (trim s))"
    unfolding trim_def by (rule trimEnd_last)
qed

lemma trim_decompose:
  "s = takeWhile isWhiteSpace s @ trim s @ rev (takeWhile isWhiteSpace (rev (trimStart s)))"
proof -
  have "trimStart s = trim s @ rev (takeWhile isWhiteSpace (rev (trimStart s)))"
    unfolding trim_def trimEnd_def
    by (metis rev_append rev_rev_ident takeWhile_dropWhile_id)
  then show ?thesis
    unfolding trimStart_def by (metis takeWhile_dropWhile_id)
qed

lemma trim_idem: "trim (trim s) = trim s"
proof (cases "trim s = []")
  case True
  then show ?thesis by simp
next
  case False
  from trim_ends [OF False] False show ?thesis
    by (simp add: trim_def [of "trim s"] trimStart_eq_self trimEnd_eq_self)
qed

section \<open>Decimal rendering of a natural number\<close>

text \<open>
  A template literal applies \<^verbatim>\<open>ToString\<close> to the number it interpolates; for a
  non-negative integer below \<open>10\<^sup>2\<^sup>1\<close> that is its decimal digits, most
  significant first.
\<close>

definition digit :: "nat \<Rightarrow> code_unit" where
  "digit d = of_nat (48 + d)"

fun toString :: "nat \<Rightarrow> jsstring" where
  "toString n = (if n < 10 then [digit n] else toString (n div 10) @ [digit (n mod 10)])"

declare toString.simps [simp del]

definition isDigit :: "code_unit \<Rightarrow> bool" where
  "isDigit c \<longleftrightarrow> 48 \<le> c \<and> c \<le> 57"

definition digit_value :: "code_unit \<Rightarrow> nat" where
  "digit_value c = unat c - 48"

definition parse_nat :: "jsstring \<Rightarrow> nat" where
  "parse_nat s = foldl (\<lambda>acc c. 10 * acc + digit_value c) 0 s"

lemma unat_digit: "d < 10 \<Longrightarrow> unat (digit d) = 48 + d"
  unfolding digit_def unat_of_nat by simp

lemma digit_value_digit [simp]: "d < 10 \<Longrightarrow> digit_value (digit d) = d"
  by (simp add: digit_value_def unat_digit)

lemma isDigit_digit [simp]: "d < 10 \<Longrightarrow> isDigit (digit d)"
  by (simp add: isDigit_def word_le_nat_alt unat_digit)

lemma toString_nonempty [simp]: "toString n \<noteq> []"
  by (subst toString.simps) simp

lemma toString_digits: "c \<in> set (toString n) \<Longrightarrow> isDigit c"
proof (induction n rule: toString.induct)
  case (1 n)
  then show ?case
    by (subst (asm) (2) toString.simps) (auto split: if_splits)
qed

lemma parse_nat_snoc [simp]: "parse_nat (s @ [c]) = 10 * parse_nat s + digit_value c"
  by (simp add: parse_nat_def)

lemma parse_nat_toString: "parse_nat (toString n) = n"
proof (induction n rule: toString.induct)
  case (1 n)
  show ?case
  proof (cases "n < 10")
    case True
    then show ?thesis by (subst toString.simps) (simp add: parse_nat_def)
  next
    case False
    with "1.IH" show ?thesis by (subst toString.simps) simp
  qed
qed

lemma toString_inj: "toString m = toString n \<Longrightarrow> m = n"
  by (metis parse_nat_toString)

lemma isDigit_not_space: "isDigit c \<Longrightarrow> c \<noteq> 0x20"
  by (auto simp: isDigit_def)

section \<open>Evaluation\<close>

text \<open>
  The defining equations that evaluate the primitives on closed strings.  The
  equations of the two recursive functions rewrite their own right-hand sides
  and are for closed arguments only.
\<close>

lemmas js_string_defs [js_eval] =
  startsWith_def substring_def array_slice_def array_splice_def join_def
  trim_def trimStart_def trimEnd_def isWhiteSpace_def includes_str_def digit_def Let_def

lemmas js_string_rec = indexOf_from.simps toString.simps

section \<open>Correctness of the primitives\<close>


text \<open>The search behind \<^verbatim>\<open>includes\<close> returns the first position at or after
  its start index where the search string matches: the match is inside the
  string, and no position between the start index and the result matches.\<close>

lemma indexOf_from_first_match:
  assumes "indexOf_from s t i = Some k"
  shows "i \<le> k \<and> k + length t \<le> length s \<and> take (length t) (drop k s) = t
    \<and> (\<forall>j. i \<le> j \<and> j < k \<longrightarrow> take (length t) (drop j s) \<noteq> t)"
  using indexOf_from_Some [OF assms] indexOf_from_least [OF assms] by blast

lemma indexOf_from_first_match_example:
  "indexOf_from (ascii ''banana'') (ascii ''na'') 0 = Some 2
   \<and> take 2 (drop 2 (ascii ''banana'')) = ascii ''na''
   \<and> take 2 (drop 1 (ascii ''banana'')) \<noteq> ascii ''na''"
  using indexOf_from_first_match [of "ascii ''banana''" "ascii ''na''" 0 2]
  by (simp add: js_string_rec)

text \<open>\<^verbatim>\<open>join\<close>: the loop with an index and an accumulator computes the
  elements in order with the separator between neighbours, and nothing before
  the first or after the last element; the empty array gives the empty
  string.\<close>

lemma join_concat:
  "join xs sep = (case xs of [] \<Rightarrow> [] | x # ys \<Rightarrow> x @ concat (map (\<lambda>y. sep @ y) ys))"
  by (cases xs) (simp_all add: join_Cons)

text \<open>\<^verbatim>\<open>trim\<close> removes white space at both ends and nothing else: the
  string is the result between two runs of white space, a non-empty result
  neither starts nor ends with white space, and trimming twice is trimming
  once.\<close>

lemma trim_correct:
  "(\<exists>l r. s = l @ trim s @ r \<and> list_all isWhiteSpace l \<and> list_all isWhiteSpace r)
   \<and> (trim s \<noteq> [] \<longrightarrow> \<not> isWhiteSpace (hd (trim s)) \<and> \<not> isWhiteSpace (last (trim s)))
   \<and> trim (trim s) = trim s"
proof -
  have "list_all isWhiteSpace (takeWhile isWhiteSpace s)"
    and "list_all isWhiteSpace (rev (takeWhile isWhiteSpace (rev (trimStart s))))"
    by (auto simp: list_all_iff dest: set_takeWhileD)
  with trim_decompose [of s] show ?thesis
    using trim_ends [of s] trim_idem [of s] by blast
qed

lemma trim_correct_example:
  "trim (ascii ''  what is 2+2 '') = ascii ''what is 2+2''
   \<and> \<not> isWhiteSpace (hd (trim (ascii ''  what is 2+2 '')))
   \<and> \<not> isWhiteSpace (last (trim (ascii ''  what is 2+2 '')))"
  using trim_correct [of "ascii ''  what is 2+2 ''"] by (simp add: js_string_defs)

text \<open>The decimal representation of a status code consists of decimal
  digits only and denotes the number: reading it back gives the number.\<close>

lemma toString_roundtrip:
  "parse_nat (toString n) = n \<and> list_all isDigit (toString n)"
  by (simp add: parse_nat_toString list_all_iff toString_digits)

end
