(* ===== verification/Transcript.thy ===== *)
theory Transcript
  imports JS_String
begin

text \<open>
  The messages of a conversation and their rendering as a transcript
  (\<^verbatim>\<open>OpenAiChat._transcript\<close>, \<^verbatim>\<open>src/index.js\<close> lines 39--46).  A message is the
  object \<^verbatim>\<open>{ role, content }\<close>; the transcript maps every message to its block
  (an indicator, an extra line break when the content spans several lines, the
  content) and joins the blocks with the line separator \<^verbatim>\<open>os.EOL\<close> of the
  platform, which is an argument here.  The last sections read a transcript
  back, to state what it keeps of the history: first for a separator of one
  code unit, then for the separators of both platforms.
\<close>

section \<open>Messages\<close>

record message =
  role :: jsstring
  content :: jsstring

definition userMessage :: "jsstring \<Rightarrow> message" where
  "userMessage prompt = \<lparr>role = ascii ''user'', content = prompt\<rparr>"

lemma userMessage_sel [simp]:
  "role (userMessage p) = ascii ''user''"
  "content (userMessage p) = p"
  by (simp_all add: userMessage_def)

lemma userMessage_inj [simp]: "userMessage p = userMessage q \<longleftrightarrow> p = q"
  by (simp add: userMessage_def)

section \<open>The transcript\<close>

definition msgSourceIndicator :: "message \<Rightarrow> jsstring" where
  "msgSourceIndicator msg =
     (if role msg = ascii ''user'' then ascii ''>> '' else ascii ''<< '')"

definition transcript_block :: "jsstring \<Rightarrow> message \<Rightarrow> jsstring" where
  "transcript_block eol msg =
     msgSourceIndicator msg
       @ (if includes_str (content msg) eol then eol else [])
       @ content msg"

definition transcript :: "jsstring \<Rightarrow> message list \<Rightarrow> jsstring" where
  "transcript eol msgs = join (map (transcript_block eol) msgs) eol"

lemmas transcript_defs [js_eval] =
  transcript_def transcript_block_def msgSourceIndicator_def

subsection \<open>Blocks\<close>

lemma length_msgSourceIndicator [simp]: "length (msgSourceIndicator msg) = 3"
  by (simp add: msgSourceIndicator_def)

lemma msgSourceIndicator_user [simp]:
  "msgSourceIndicator (userMessage p) = ascii ''>> ''"
  by (simp add: msgSourceIndicator_def)

lemma msgSourceIndicator_cases:
  "msgSourceIndicator msg = ascii ''>> '' \<longleftrightarrow> role msg = ascii ''user''"
  by (simp add: msgSourceIndicator_def)

lemma transcript_block_single_line:
  "\<not> sublist eol (content msg) \<Longrightarrow>
     transcript_block eol msg = msgSourceIndicator msg @ content msg"
  by (simp add: transcript_block_def includes_str_iff_sublist)

lemma transcript_block_multi_line:
  "sublist eol (content msg) \<Longrightarrow>
     transcript_block eol msg = msgSourceIndicator msg @ eol @ content msg"
  by (simp add: transcript_block_def includes_str_iff_sublist)

lemma transcript_block_prefix:
  "prefix (msgSourceIndicator msg) (transcript_block eol msg)"
  by (simp add: transcript_block_def)

lemma transcript_block_suffix:
  "suffix (content msg) (transcript_block eol msg)"
  by (simp add: transcript_block_def suffix_def)

lemma length_transcript_block:
  "length (transcript_block eol msg) =
     3 + (if sublist eol (content msg) then length eol else 0) + length (content msg)"
  by (simp add: transcript_block_def includes_str_iff_sublist)

subsection \<open>Whole transcripts\<close>

lemma transcript_Nil [simp]: "transcript eol [] = []"
  by (simp add: transcript_def)

lemma transcript_single [simp]: "transcript eol [m] = transcript_block eol m"
  by (simp add: transcript_def)

lemma transcript_Cons_Cons:
  "transcript eol (m # n # ms) = transcript_block eol m @ eol @ transcript eol (n # ms)"
  by (simp add: transcript_def)

lemma transcript_append:
  "ms \<noteq> [] \<Longrightarrow> ns \<noteq> [] \<Longrightarrow>
     transcript eol (ms @ ns) = transcript eol ms @ eol @ transcript eol ns"
  by (simp add: transcript_def join_append)

lemma transcript_snoc:
  "ms \<noteq> [] \<Longrightarrow> transcript eol (ms @ [m]) = transcript eol ms @ eol @ transcript_block eol m"
  by (simp add: transcript_append)

lemma transcript_eq_Nil_iff [simp]: "transcript eol ms = [] \<longleftrightarrow> ms = []"
proof (cases ms)
  case (Cons m ms')
  have "transcript_block eol m \<noteq> []"
    using length_transcript_block [of eol m] by auto
  with Cons show ?thesis by (simp add: transcript_def join_Cons)
qed simp

section \<open>The shape of a transcript\<close>

text \<open>The block of a message is its indicator (\<^verbatim>\<open>>> \<close> for the role
  \<^verbatim>\<open>user\<close>, \<^verbatim>\<open><< \<close> for any other role) followed by the content; the line
  separator is put between the two exactly when it occurs in the content.\<close>

lemma transcript_block_shape:
  "transcript_block eol msg =
     (if role msg = ascii ''user'' then ascii ''>> '' else ascii ''<< '')
       @ (if sublist eol (content msg) then eol @ content msg else content msg)"
  by (simp add: transcript_block_def msgSourceIndicator_def includes_str_iff_sublist)


section \<open>Reading a transcript back\<close>

text \<open>
  The program never reads a transcript.  The reader below states what a
  transcript keeps of a history: \<open>split_at\<close> cuts a text at every occurrence of
  a one-unit line separator, \<open>parse_block\<close> takes the indicator off a line, and
  \<open>parse_transcript\<close> does both.  A message is \<open>single_line\<close> when its role is
  one of the two the indicators stand for and its content has no line
  separator.
\<close>

fun split_at :: "code_unit \<Rightarrow> jsstring \<Rightarrow> jsstring list" where
  "split_at nl [] = [[]]"
| "split_at nl (c # cs) =
     (if c = nl then [] # split_at nl cs
      else (case split_at nl cs of [] \<Rightarrow> [[c]] | l # ls \<Rightarrow> (c # l) # ls))"

definition parse_block :: "jsstring \<Rightarrow> message option" where
  "parse_block l =
     (if startsWith l (ascii ''>> '') then Some \<lparr>role = ascii ''user'', content = substring l 3\<rparr>
      else if startsWith l (ascii ''<< '')
      then Some \<lparr>role = ascii ''assistant'', content = substring l 3\<rparr>
      else None)"

definition parse_transcript :: "code_unit \<Rightarrow> jsstring \<Rightarrow> message list option" where
  "parse_transcript nl t = (if t = [] then Some [] else those (map parse_block (split_at nl t)))"

definition single_line :: "code_unit \<Rightarrow> message \<Rightarrow> bool" where
  "single_line nl m \<longleftrightarrow>
     (role m = ascii ''user'' \<or> role m = ascii ''assistant'') \<and> nl \<notin> set (content m)"

lemma split_at_line: "nl \<notin> set b \<Longrightarrow> split_at nl b = [b]"
  by (induction b) auto

lemma split_at_append: "nl \<notin> set b \<Longrightarrow> split_at nl (b @ nl # rest) = b # split_at nl rest"
  by (induction b) auto

lemma split_at_join:
  "bs \<noteq> [] \<Longrightarrow> \<forall>b \<in> set bs. nl \<notin> set b \<Longrightarrow> split_at nl (join bs [nl]) = bs"
proof (induction bs rule: list_nonempty_induct)
  case (single b)
  then show ?case by (simp add: split_at_line)
next
  case (cons b bs)
  then obtain b' bs' where "bs = b' # bs'"
    by (cases bs) auto
  with cons show ?case by (simp add: split_at_append)
qed

lemma sublist_single: "sublist [x] ys \<longleftrightarrow> x \<in> set ys"
  by (auto simp: sublist_def in_set_conv_decomp)

lemma transcript_block_of_single_line:
  "single_line nl m \<Longrightarrow> transcript_block [nl] m = msgSourceIndicator m @ content m"
  by (simp add: transcript_block_def includes_str_iff_sublist sublist_single single_line_def)

lemma parse_block_transcript_block:
  "single_line nl m \<Longrightarrow> parse_block (transcript_block [nl] m) = Some m"
  by (auto simp: transcript_block_of_single_line parse_block_def msgSourceIndicator_def
      single_line_def startsWith_iff_prefix substring_eq_drop)

lemma those_map_Some:
  "\<forall>x \<in> set xs. f (g x) = Some x \<Longrightarrow> those (map f (map g xs)) = Some xs"
  by (induction xs) simp_all

text \<open>Transcript round trip: when every message has the role \<^verbatim>\<open>user\<close> or
  \<^verbatim>\<open>assistant\<close> and a content without line separator, the transcript has one
  line per message, in order, and reading the lines back gives the history.
  The line separator is one code unit that is not a character of the
  indicators.\<close>

lemma transcript_roundtrip:
  assumes "list_all (single_line nl) msgs" and "nl \<notin> set (ascii ''>< '')"
  shows "split_at nl (transcript [nl] msgs) =
      (if msgs = [] then [[]] else map (transcript_block [nl]) msgs)
    \<and> parse_transcript nl (transcript [nl] msgs) = Some msgs"
proof (cases "msgs = []")
  case True
  then show ?thesis by (simp add: parse_transcript_def)
next
  case False
  have free: "\<forall>b \<in> set (map (transcript_block [nl]) msgs). nl \<notin> set b"
    using assms
    by (auto simp: list_all_iff transcript_block_of_single_line msgSourceIndicator_def
        single_line_def)
  from False have "transcript [nl] msgs \<noteq> []"
    by simp
  moreover from False free
  have "split_at nl (transcript [nl] msgs) = map (transcript_block [nl]) msgs"
    unfolding transcript_def by (intro split_at_join) simp_all
  moreover have "those (map parse_block (map (transcript_block [nl]) msgs)) = Some msgs"
    using assms(1) by (intro those_map_Some) (simp add: list_all_iff parse_block_transcript_block)
  ultimately show ?thesis
    using False by (simp add: parse_transcript_def)
qed

lemma transcript_roundtrip_witness:
  "parse_transcript 0x0A (transcript [0x0A]
     [userMessage (ascii ''hello''), \<lparr>role = ascii ''assistant'', content = ascii ''hi''\<rparr>])
     = Some [userMessage (ascii ''hello''), \<lparr>role = ascii ''assistant'', content = ascii ''hi''\<rparr>]"
  using transcript_roundtrip [of "0x0A"
      "[userMessage (ascii ''hello''), \<lparr>role = ascii ''assistant'', content = ascii ''hi''\<rparr>]"]
  by (simp add: single_line_def)

section \<open>Any line separator of a platform\<close>

text \<open>
  \<^verbatim>\<open>os.EOL\<close> is one code unit (line feed) or two (carriage return, line feed).
  \<open>split_on\<close> cuts a text at the occurrences of a separator of any length,
  taking the leftmost occurrence first; for one unit it is \<open>split_at\<close>.  What
  the round trip needs of the separator is \<open>distinct_head\<close>: its first unit
  does not occur in it again, so that no occurrence starts before a
  separator and ends inside it.  Both separators have this property.
\<close>

function split_on :: "jsstring \<Rightarrow> jsstring \<Rightarrow> jsstring list" where
  "split_on sep [] = [[]]"
| "split_on sep (c # cs) =
     (if sep \<noteq> [] \<and> prefix sep (c # cs) then [] # split_on sep (drop (length sep) (c # cs))
      else (case split_on sep cs of [] \<Rightarrow> [[c]] | l # ls \<Rightarrow> (c # l) # ls))"
  by pat_completeness auto

termination split_on
  by (relation "measure (\<lambda>(sep, s). length s)") (auto simp: Suc_le_eq)

declare split_on.simps(2) [simp del]

definition distinct_head :: "jsstring \<Rightarrow> bool" where
  "distinct_head sep \<longleftrightarrow> sep \<noteq> [] \<and> hd sep \<notin> set (tl sep)"

definition parse_transcript_eol :: "jsstring \<Rightarrow> jsstring \<Rightarrow> message list option" where
  "parse_transcript_eol eol t =
     (if t = [] then Some [] else those (map parse_block (split_on eol t)))"

definition single_line_eol :: "jsstring \<Rightarrow> message \<Rightarrow> bool" where
  "single_line_eol eol m \<longleftrightarrow>
     (role m = ascii ''user'' \<or> role m = ascii ''assistant'') \<and> \<not> sublist eol (content m)"

lemma split_on_Cons_other:
  "\<not> prefix sep (c # cs) \<Longrightarrow>
     split_on sep (c # cs) = (case split_on sep cs of [] \<Rightarrow> [[c]] | l # ls \<Rightarrow> (c # l) # ls)"
  by (simp add: split_on.simps(2))

lemma split_on_sep: "sep \<noteq> [] \<Longrightarrow> split_on sep (sep @ rest) = [] # split_on sep rest"
  by (cases sep) (simp_all add: split_on.simps(2))

lemma split_on_line: "\<not> sublist sep b \<Longrightarrow> split_on sep b = [b]"
proof (induction b)
  case Nil
  then show ?case by simp
next
  case (Cons c b)
  then have "\<not> prefix sep (c # b)" and "\<not> sublist sep b"
    by (auto simp: sublist_Cons_right)
  with Cons show ?case by (simp add: split_on_Cons_other)
qed

lemma no_match_across:
  assumes "distinct_head sep" and "\<not> sublist sep (c # b)"
  shows "\<not> prefix sep (c # b @ sep @ rest)"
proof
  assume "prefix sep (c # b @ sep @ rest)"
  then have "prefix sep ((c # b) @ sep @ rest)"
    by simp
  then consider "prefix sep (c # b)" | us where "sep = (c # b) @ us" "prefix us (sep @ rest)"
    unfolding prefix_append by blast
  then show False
  proof cases
    case 1
    with assms(2) show False by (auto dest: prefix_imp_sublist)
  next
    case 2
    show False
    proof (cases us)
      case Nil
      with 2(1) assms(2) show False by simp
    next
      case (Cons u us')
      with 2(2) assms(1) have "u = hd sep"
        by (cases sep) (auto simp: distinct_head_def)
      moreover from 2(1) Cons have "u \<in> set (tl sep)"
        by simp
      ultimately show False
        using assms(1) by (simp add: distinct_head_def)
    qed
  qed
qed

lemma split_on_block:
  "distinct_head sep \<Longrightarrow> \<not> sublist sep b \<Longrightarrow>
     split_on sep (b @ sep @ rest) = b # split_on sep rest"
proof (induction b)
  case Nil
  then show ?case by (simp add: split_on_sep distinct_head_def)
next
  case (Cons c b)
  from Cons.prems have "\<not> prefix sep (c # b @ sep @ rest)"
    by (rule no_match_across)
  moreover from Cons.prems(2) have "\<not> sublist sep b"
    by (simp add: sublist_Cons_right)
  ultimately show ?case
    using Cons.IH Cons.prems(1) by (simp add: split_on_Cons_other)
qed

lemma split_on_join:
  "bs \<noteq> [] \<Longrightarrow> distinct_head sep \<Longrightarrow> \<forall>b \<in> set bs. \<not> sublist sep b \<Longrightarrow>
     split_on sep (join bs sep) = bs"
proof (induction bs rule: list_nonempty_induct)
  case (single b)
  then show ?case by (simp add: split_on_line)
next
  case (cons b bs)
  then obtain b' bs' where "bs = b' # bs'"
    by (cases bs) auto
  with cons show ?case by (simp add: split_on_block)
qed

lemma sublist_append_head:
  "xs \<noteq> [] \<Longrightarrow> hd xs \<notin> set a \<Longrightarrow> sublist xs (a @ b) \<longleftrightarrow> sublist xs b"
proof (induction a)
  case Nil
  show ?case by simp
next
  case (Cons c a)
  then have "\<not> prefix xs (c # a @ b)"
    by (cases xs) auto
  with Cons show ?case by (simp add: sublist_Cons_right)
qed

lemma transcript_block_free:
  assumes "single_line_eol eol m" and "eol \<noteq> []" and "hd eol \<notin> set (ascii ''>< '')"
  shows "transcript_block eol m = msgSourceIndicator m @ content m"
    and "\<not> sublist eol (transcript_block eol m)"
proof -
  from assms(1) show block: "transcript_block eol m = msgSourceIndicator m @ content m"
    by (simp add: transcript_block_def includes_str_iff_sublist single_line_eol_def)
  from assms(3) have "hd eol \<notin> set (msgSourceIndicator m)"
    by (auto simp: msgSourceIndicator_def)
  with assms(1,2) show "\<not> sublist eol (transcript_block eol m)"
    by (simp add: block sublist_append_head single_line_eol_def)
qed

lemma parse_block_of_block:
  "single_line_eol eol m \<Longrightarrow> parse_block (transcript_block eol m) = Some m"
  by (auto simp: transcript_block_def includes_str_iff_sublist parse_block_def
      msgSourceIndicator_def single_line_eol_def startsWith_iff_prefix substring_eq_drop)

lemma split_on_single: "split_on [nl] s = split_at nl s"
  by (induction s) (simp_all add: split_on.simps(2))

text \<open>C36. Transcript round trip for the line separator of either platform:
  when every message has the role \<^verbatim>\<open>user\<close> or \<^verbatim>\<open>assistant\<close> and a content in
  which the separator does not occur, reading the transcript back gives the
  history.  With the two-unit separator a content may contain single line
  feeds and carriage returns.\<close>

theorem transcript_roundtrip_eol:
  assumes "distinct_head eol" and "hd eol \<notin> set (ascii ''>< '')"
    and "list_all (single_line_eol eol) msgs"
  shows "parse_transcript_eol eol (transcript eol msgs) = Some msgs"
proof (cases "msgs = []")
  case True
  then show ?thesis by (simp add: parse_transcript_eol_def)
next
  case False
  have "\<not> sublist eol (transcript_block eol m)" if "m \<in> set msgs" for m
    using that assms transcript_block_free(2) [of eol m]
    by (simp add: list_all_iff distinct_head_def)
  then have free: "\<forall>b \<in> set (map (transcript_block eol) msgs). \<not> sublist eol b"
    by auto
  with False assms(1)
  have "split_on eol (transcript eol msgs) = map (transcript_block eol) msgs"
    unfolding transcript_def by (intro split_on_join) simp_all
  moreover have "those (map parse_block (map (transcript_block eol) msgs)) = Some msgs"
    using assms(3) by (intro those_map_Some) (simp add: list_all_iff parse_block_of_block)
  ultimately show ?thesis
    using False by (simp add: parse_transcript_eol_def)
qed

theorem transcript_roundtrip_eol_witness:
  "parse_transcript_eol [0x0D, 0x0A] (transcript [0x0D, 0x0A]
     [userMessage (ascii ''hello''),
      \<lparr>role = ascii ''assistant'', content = ascii ''hi'' @ [0x0A] @ ascii ''there''\<rparr>])
     = Some [userMessage (ascii ''hello''),
      \<lparr>role = ascii ''assistant'', content = ascii ''hi'' @ [0x0A] @ ascii ''there''\<rparr>]"
  using transcript_roundtrip_eol [of "[0x0D, 0x0A]"
      "[userMessage (ascii ''hello''),
        \<lparr>role = ascii ''assistant'', content = ascii ''hi'' @ [0x0A] @ ascii ''there''\<rparr>]"]
  by (simp add: single_line_eol_def distinct_head_def sublist_code)

end
