(* ===== verification/JSON.thy ===== *)
theory JSON
  imports Transcript
begin

text \<open>
  \<^verbatim>\<open>JSON.stringify\<close> on a message object, which the program calls when the
  \<^verbatim>\<open>DEBUG\<close> environment variable is set (\<^verbatim>\<open>src/index.js\<close> lines 86 and 95).
  The serialisation of a string is \<open>QuoteJSONString\<close> of ECMAScript, which works
  on the code points of the string (\<open>StringToCodePoints\<close>: a leading surrogate
  followed by a trailing one is one code point, every other code unit is a
  code point of its own): the two-character
  escapes for backspace, tab, line feed, form feed, carriage return, the quote
  and the backslash; \<^verbatim>\<open>\uXXXX\<close> for the other control characters and for
  surrogate code units that are not part of a pair; every other code unit as
  it is.  The object has the two properties \<^verbatim>\<open>role\<close> and \<^verbatim>\<open>content\<close>, in this
  order.

  The lemmas show that the text has no control character and, with a reader
  of JSON strings and message objects, that it keeps the message.
\<close>

section \<open>String quoting\<close>

definition hexDigit :: "nat \<Rightarrow> code_unit" where
  "hexDigit d = (if d < 10 then of_nat (48 + d) else of_nat (87 + d))"

definition UnicodeEscape :: "code_unit \<Rightarrow> jsstring" where
  "UnicodeEscape c =
     (let n = unat c in
      [0x5C, 0x75, hexDigit (n div 4096), hexDigit (n div 256 mod 16),
       hexDigit (n div 16 mod 16), hexDigit (n mod 16)])"

definition isLeadingSurrogate :: "code_unit \<Rightarrow> bool" where
  "isLeadingSurrogate c \<longleftrightarrow> 0xD800 \<le> c \<and> c \<le> 0xDBFF"

definition isTrailingSurrogate :: "code_unit \<Rightarrow> bool" where
  "isTrailingSurrogate c \<longleftrightarrow> 0xDC00 \<le> c \<and> c \<le> 0xDFFF"

datatype code_point = BMP code_unit | Supplementary code_unit code_unit

fun StringToCodePoints :: "jsstring \<Rightarrow> code_point list" where
  "StringToCodePoints [] = []"
| "StringToCodePoints [c] = [BMP c]"
| "StringToCodePoints (c # d # ds) =
     (if isLeadingSurrogate c \<and> isTrailingSurrogate d
      then Supplementary c d # StringToCodePoints ds
      else BMP c # StringToCodePoints (d # ds))"

fun UTF16EncodeCodePoint :: "code_point \<Rightarrow> jsstring" where
  "UTF16EncodeCodePoint (BMP c) = [c]"
| "UTF16EncodeCodePoint (Supplementary c d) = [c, d]"

fun quote_code_point :: "code_point \<Rightarrow> jsstring" where
  "quote_code_point (BMP c) =
     (if c = 0x08 then [0x5C, 0x62]
      else if c = 0x09 then [0x5C, 0x74]
      else if c = 0x0A then [0x5C, 0x6E]
      else if c = 0x0C then [0x5C, 0x66]
      else if c = 0x0D then [0x5C, 0x72]
      else if c = 0x22 then [0x5C, 0x22]
      else if c = 0x5C then [0x5C, 0x5C]
      else if c < 0x20 \<or> isLeadingSurrogate c \<or> isTrailingSurrogate c then UnicodeEscape c
      else UTF16EncodeCodePoint (BMP c))"
| "quote_code_point (Supplementary c d) = UTF16EncodeCodePoint (Supplementary c d)"

definition QuoteJSONString :: "jsstring \<Rightarrow> jsstring" where
  "QuoteJSONString s =
     [0x22] @ concat (map quote_code_point (StringToCodePoints s)) @ [0x22]"

section \<open>Message objects\<close>

definition JSON_stringify :: "message \<Rightarrow> jsstring" where
  "JSON_stringify msg =
     ascii ''{'' @ QuoteJSONString (ascii ''role'') @ ascii '':'' @ QuoteJSONString (role msg)
       @ ascii '','' @ QuoteJSONString (ascii ''content'') @ ascii '':''
       @ QuoteJSONString (content msg) @ ascii ''}''"

lemmas JSON_defs [js_eval] =
  JSON_stringify_def QuoteJSONString_def UnicodeEscape_def hexDigit_def
  isLeadingSurrogate_def isTrailingSurrogate_def

section \<open>Code points\<close>

lemma StringToCodePoints_inverse:
  "concat (map UTF16EncodeCodePoint (StringToCodePoints s)) = s"
  by (induction s rule: StringToCodePoints.induct) simp_all

lemma length_UnicodeEscape [simp]: "length (UnicodeEscape c) = 6"
  by (simp add: UnicodeEscape_def Let_def)

lemma length_quote_code_point:
  "length (UTF16EncodeCodePoint cp) \<le> length (quote_code_point cp)"
  by (cases cp) simp_all

lemma length_QuoteJSONString: "length s + 2 \<le> length (QuoteJSONString s)"
proof -
  have "length (concat (map UTF16EncodeCodePoint cps))
      \<le> length (concat (map quote_code_point cps))" for cps
    by (induction cps) (simp_all add: add_mono length_quote_code_point)
  from this [of "StringToCodePoints s"] show ?thesis
    by (simp add: QuoteJSONString_def StringToCodePoints_inverse)
qed

section \<open>Strings that need no escape\<close>

definition plain_unit :: "code_unit \<Rightarrow> bool" where
  "plain_unit c \<longleftrightarrow> 0x20 \<le> c \<and> c \<noteq> 0x22 \<and> c \<noteq> 0x5C \<and> c < 0xD800"

lemma plain_unit_facts:
  assumes "plain_unit c"
  shows "c \<noteq> 0x08" "c \<noteq> 0x09" "c \<noteq> 0x0A" "c \<noteq> 0x0C" "c \<noteq> 0x0D" "c \<noteq> 0x22" "c \<noteq> 0x5C"
    "\<not> c < 0x20" "\<not> isLeadingSurrogate c" "\<not> isTrailingSurrogate c"
  using assms
  by (auto simp: plain_unit_def isLeadingSurrogate_def isTrailingSurrogate_def
      word_le_nat_alt word_less_nat_alt)

lemma quote_code_point_plain: "plain_unit c \<Longrightarrow> quote_code_point (BMP c) = [c]"
  by (simp add: plain_unit_facts)

lemma StringToCodePoints_plain:
  "list_all plain_unit s \<Longrightarrow> StringToCodePoints s = map BMP s"
  by (induction s rule: StringToCodePoints.induct) (simp_all add: plain_unit_facts)

lemma QuoteJSONString_plain:
  "list_all plain_unit s \<Longrightarrow> QuoteJSONString s = [0x22] @ s @ [0x22]"
proof -
  assume plain: "list_all plain_unit s"
  then have "concat (map quote_code_point (map BMP s)) = s"
    by (induction s) (simp_all add: quote_code_point_plain del: quote_code_point.simps)
  with plain show ?thesis
    by (simp add: QuoteJSONString_def StringToCodePoints_plain)
qed

section \<open>No control character in the output\<close>

text \<open>
  \<open>control_unit\<close> holds of the code units below U+0020, the control characters
  that JSON does not allow inside a string; line feed and carriage return are
  among them.
\<close>

definition control_unit :: "code_unit \<Rightarrow> bool" where
  "control_unit c \<longleftrightarrow> c < 0x20"

lemma hexDigit_not_control: "d < 16 \<Longrightarrow> \<not> control_unit (hexDigit d)"
proof -
  assume "d < 16"
  then have "unat (of_nat (48 + d) :: code_unit) = 48 + d"
    and "unat (of_nat (87 + d) :: code_unit) = 87 + d"
    unfolding unat_of_nat by simp_all
  then show ?thesis
    by (simp add: hexDigit_def control_unit_def word_less_nat_alt del: of_nat_add)
qed

lemma UnicodeEscape_not_control: "u \<in> set (UnicodeEscape c) \<Longrightarrow> \<not> control_unit u"
proof -
  have "unat c < 65536"
    using unsigned_less [of c] by simp
  then have "unat c div 4096 < 16"
    by simp
  then show "u \<in> set (UnicodeEscape c) \<Longrightarrow> \<not> control_unit u"
    by (auto simp: UnicodeEscape_def Let_def hexDigit_not_control)
       (simp_all add: control_unit_def)
qed

lemma surrogate_not_control:
  "isLeadingSurrogate c \<Longrightarrow> \<not> control_unit c"
  "isTrailingSurrogate c \<Longrightarrow> \<not> control_unit c"
  by (simp_all add: isLeadingSurrogate_def isTrailingSurrogate_def control_unit_def
      word_le_nat_alt word_less_nat_alt)

lemma StringToCodePoints_Supplementary:
  "Supplementary c d \<in> set (StringToCodePoints s) \<Longrightarrow>
     isLeadingSurrogate c \<and> isTrailingSurrogate d"
  by (induction s rule: StringToCodePoints.induct) (auto split: if_splits)

lemma quote_BMP_not_control: "u \<in> set (quote_code_point (BMP c)) \<Longrightarrow> \<not> control_unit u"
  by (auto simp: UnicodeEscape_not_control split: if_splits)
     (simp_all add: control_unit_def)

lemma QuoteJSONString_not_control: "u \<in> set (QuoteJSONString s) \<Longrightarrow> \<not> control_unit u"
proof -
  assume "u \<in> set (QuoteJSONString s)"
  then consider "u = 0x22"
    | cp where "cp \<in> set (StringToCodePoints s)" "u \<in> set (quote_code_point cp)"
    by (auto simp: QuoteJSONString_def)
  then show ?thesis
  proof cases
    case 1
    then show ?thesis by (simp add: control_unit_def)
  next
    case (2 cp)
    show ?thesis
    proof (cases cp)
      case (BMP c)
      with 2 show ?thesis
        by (auto dest: quote_BMP_not_control simp del: quote_code_point.simps)
    next
      case (Supplementary c d)
      with 2 StringToCodePoints_Supplementary [of c d s] show ?thesis
        by (auto dest: surrogate_not_control)
    qed
  qed
qed

section \<open>Reading the JSON text back\<close>

text \<open>
  The program only writes JSON.  The reader below follows the grammar of JSON
  strings (an opening quote, then escapes and unescaped code units up to the
  closing quote) and states that the text keeps the message: \<open>unquote_body\<close>
  reads up to the closing quote and returns the string and the rest of the
  text, \<open>string_token\<close> reads one quoted string, \<open>parse_message\<close> an object with
  the properties \<^verbatim>\<open>role\<close> and \<^verbatim>\<open>content\<close>.
\<close>

definition hexValue :: "code_unit \<Rightarrow> nat option" where
  "hexValue c =
     (if 0x30 \<le> c \<and> c \<le> 0x39 then Some (unat c - 48)
      else if 0x61 \<le> c \<and> c \<le> 0x66 then Some (unat c - 87)
      else if 0x41 \<le> c \<and> c \<le> 0x46 then Some (unat c - 55)
      else None)"

definition hex4 :: "jsstring \<Rightarrow> code_unit option" where
  "hex4 hs =
     (case map hexValue hs of
        [Some a, Some b, Some c, Some d] \<Rightarrow> Some (of_nat (4096 * a + 256 * b + 16 * c + d))
      | _ \<Rightarrow> None)"

definition unescape :: "code_unit \<Rightarrow> code_unit option" where
  "unescape e =
     (if e = 0x62 then Some 0x08 else if e = 0x74 then Some 0x09
      else if e = 0x6E then Some 0x0A else if e = 0x66 then Some 0x0C
      else if e = 0x72 then Some 0x0D else if e = 0x22 then Some 0x22
      else if e = 0x5C then Some 0x5C else if e = 0x2F then Some 0x2F
      else None)"

fun prepend :: "jsstring \<Rightarrow> (jsstring \<times> jsstring) option \<Rightarrow> (jsstring \<times> jsstring) option" where
  "prepend a None = None"
| "prepend a (Some (s, r)) = Some (a @ s, r)"

function unquote_body :: "jsstring \<Rightarrow> (jsstring \<times> jsstring) option" where
  "unquote_body [] = None"
| "unquote_body (c # cs) =
     (if c = 0x22 then Some ([], cs)
      else if c = 0x5C then
        (case cs of
           [] \<Rightarrow> None
         | e # rest \<Rightarrow>
             if e = 0x75 then
               (case hex4 (take 4 rest) of
                  None \<Rightarrow> None
                | Some u \<Rightarrow> prepend [u] (unquote_body (drop 4 rest)))
             else
               (case unescape e of
                  None \<Rightarrow> None
                | Some u \<Rightarrow> prepend [u] (unquote_body rest)))
      else if c < 0x20 then None
      else prepend [c] (unquote_body cs))"
  by pat_completeness auto

termination unquote_body
  by (relation "measure length") auto

declare unquote_body.simps(2) [simp del]

definition string_token :: "jsstring \<Rightarrow> (jsstring \<times> jsstring) option" where
  "string_token t =
     (case t of [] \<Rightarrow> None | q # body \<Rightarrow> if q = 0x22 then unquote_body body else None)"

definition unquote :: "jsstring \<Rightarrow> jsstring option" where
  "unquote t = (case string_token t of Some (s, []) \<Rightarrow> Some s | _ \<Rightarrow> None)"

definition expect :: "jsstring \<Rightarrow> jsstring \<Rightarrow> jsstring option" where
  "expect lit t = (if startsWith t lit then Some (substring t (length lit)) else None)"

definition role_key :: jsstring where
  "role_key = ascii ''{'' @ QuoteJSONString (ascii ''role'') @ ascii '':''"

definition content_key :: jsstring where
  "content_key = ascii '','' @ QuoteJSONString (ascii ''content'') @ ascii '':''"

definition parse_message :: "jsstring \<Rightarrow> message option" where
  "parse_message t =
     (case expect role_key t of
        None \<Rightarrow> None
      | Some t1 \<Rightarrow>
          (case string_token t1 of
             None \<Rightarrow> None
           | Some (r, t2) \<Rightarrow>
               (case expect content_key t2 of
                  None \<Rightarrow> None
                | Some t3 \<Rightarrow>
                    (case string_token t3 of
                       None \<Rightarrow> None
                     | Some (c, t4) \<Rightarrow>
                         if t4 = ascii ''}'' then Some \<lparr>role = r, content = c\<rparr> else None))))"

lemma unquote_body_quote [simp]: "unquote_body (0x22 # cs) = Some ([], cs)"
  by (simp add: unquote_body.simps(2))

lemma unquote_body_escape:
  "unescape e = Some u \<Longrightarrow> e \<noteq> 0x75 \<Longrightarrow>
     unquote_body (0x5C # e # rest) = prepend [u] (unquote_body rest)"
  by (simp add: unquote_body.simps(2))

lemma unquote_body_unicode:
  "hex4 [h1, h2, h3, h4] = Some u \<Longrightarrow>
     unquote_body (0x5C # 0x75 # h1 # h2 # h3 # h4 # rest) =
       prepend [u] (unquote_body rest)"
  by (simp add: unquote_body.simps(2))

lemma unquote_body_plain:
  "c \<noteq> 0x22 \<Longrightarrow> c \<noteq> 0x5C \<Longrightarrow> \<not> c < 0x20 \<Longrightarrow>
     unquote_body (c # cs) = prepend [c] (unquote_body cs)"
  by (simp add: unquote_body.simps(2))

lemma hexValue_hexDigit: "d < 16 \<Longrightarrow> hexValue (hexDigit d) = Some d"
proof -
  assume "d < 16"
  then have "unat (of_nat (48 + d) :: code_unit) = 48 + d"
    and "unat (of_nat (87 + d) :: code_unit) = 87 + d"
    unfolding unat_of_nat by simp_all
  with \<open>d < 16\<close> show ?thesis
    by (simp add: hexDigit_def hexValue_def word_le_nat_alt del: of_nat_add)
qed


lemma hex_digits_value:
  "4096 * (n div 4096) + 256 * (n div 256 mod 16) + 16 * (n div 16 mod 16) + n mod 16 = (n::nat)"
proof -
  have "n div 16 div 16 = n div 256" and "n div 256 div 16 = n div 4096"
    by (simp_all add: div_mult2_eq [symmetric])
  then have "n div 16 = 16 * (n div 256) + n div 16 mod 16"
    and "n div 256 = 16 * (n div 4096) + n div 256 mod 16"
    using mult_div_mod_eq [of 16 "n div 16"] mult_div_mod_eq [of 16 "n div 256"] by simp_all
  moreover have "n = 16 * (n div 16) + n mod 16"
    by simp
  ultimately show ?thesis
    by linarith
qed

lemma hex4_UnicodeEscape: "hex4 (drop 2 (UnicodeEscape c)) = Some c"
proof -
  have "unat c < 65536"
    using unsigned_less [of c] by simp
  then have "unat c div 4096 < 16"
    by simp
  then have "map hexValue (drop 2 (UnicodeEscape c)) =
      [Some (unat c div 4096), Some (unat c div 256 mod 16), Some (unat c div 16 mod 16),
       Some (unat c mod 16)]"
    by (simp add: UnicodeEscape_def Let_def hexValue_hexDigit)
  then have "hex4 (drop 2 (UnicodeEscape c)) =
      Some (of_nat (4096 * (unat c div 4096) + 256 * (unat c div 256 mod 16)
        + 16 * (unat c div 16 mod 16) + unat c mod 16))"
    by (simp add: hex4_def del: of_nat_add of_nat_mult)
  then show ?thesis
    by (simp only: hex_digits_value) simp
qed


fun paired :: "code_point \<Rightarrow> bool" where
  "paired (BMP c) = True"
| "paired (Supplementary c d) = (isLeadingSurrogate c \<and> isTrailingSurrogate d)"

lemma StringToCodePoints_paired: "list_all paired (StringToCodePoints s)"
  by (induction s rule: StringToCodePoints.induct) simp_all

lemma prepend_prepend [simp]: "prepend a (prepend b x) = prepend (a @ b) x"
  by (cases "(a, x)" rule: prepend.cases) simp_all

lemma prepend_Nil [simp]: "prepend [] x = x"
  by (cases "([] :: jsstring, x)" rule: prepend.cases) simp_all

lemma unquote_body_UnicodeEscape:
  "unquote_body (UnicodeEscape c @ rest) = prepend [c] (unquote_body rest)"
  using hex4_UnicodeEscape [of c]
  by (simp add: UnicodeEscape_def Let_def unquote_body_unicode)

lemma surrogate_unit:
  assumes "isLeadingSurrogate c \<or> isTrailingSurrogate c"
  shows "c \<noteq> 0x22" "c \<noteq> 0x5C" "\<not> c < 0x20"
  using assms
  by (auto simp: isLeadingSurrogate_def isTrailingSurrogate_def word_le_nat_alt word_less_nat_alt)

lemma unquote_body_BMP:
  "unquote_body (quote_code_point (BMP c) @ rest) =
     prepend [c] (unquote_body rest)"
proof -
  consider (short) "c \<in> {0x08, 0x09, 0x0A, 0x0C, 0x0D, 0x22, 0x5C}"
    | (long) "c \<notin> {0x08, 0x09, 0x0A, 0x0C, 0x0D, 0x22, 0x5C}"
        "c < 0x20 \<or> isLeadingSurrogate c \<or> isTrailingSurrogate c"
    | (plain) "c \<notin> {0x08, 0x09, 0x0A, 0x0C, 0x0D, 0x22, 0x5C}"
        "\<not> (c < 0x20 \<or> isLeadingSurrogate c \<or> isTrailingSurrogate c)"
    by blast
  then show ?thesis
  proof cases
    case short
    then show ?thesis
      by (auto simp: unquote_body_escape unescape_def)
  next
    case long
    then show ?thesis
      by (simp add: unquote_body_UnicodeEscape)
  next
    case plain
    then show ?thesis
      by (simp add: unquote_body_plain)
  qed
qed

lemma unquote_body_quote_code_point:
  "paired cp \<Longrightarrow>
     unquote_body (quote_code_point cp @ rest) =
       prepend (UTF16EncodeCodePoint cp) (unquote_body rest)"
proof (cases cp)
  case (BMP c)
  then show ?thesis
    by (simp only: unquote_body_BMP UTF16EncodeCodePoint.simps)
next
  case (Supplementary c d)
  assume "paired cp"
  with Supplementary show ?thesis
    by (simp add: unquote_body_plain surrogate_unit prepend_prepend)
qed

lemma unquote_body_concat:
  "list_all paired cps \<Longrightarrow>
     unquote_body (concat (map quote_code_point cps) @ rest) =
       prepend (concat (map UTF16EncodeCodePoint cps)) (unquote_body rest)"
proof (induction cps)
  case Nil
  show ?case by simp
next
  case (Cons cp cps)
  then show ?case
    by (simp add: unquote_body_quote_code_point prepend_prepend
        del: quote_code_point.simps UTF16EncodeCodePoint.simps)
qed

lemma string_token_QuoteJSONString:
  "string_token (QuoteJSONString s @ rest) = Some (s, rest)"
  using unquote_body_concat [OF StringToCodePoints_paired, of s "0x22 # rest"]
  by (simp add: string_token_def QuoteJSONString_def StringToCodePoints_inverse)

lemma expect_append [simp]: "expect lit (lit @ rest) = Some rest"
  by (simp add: expect_def)

lemma JSON_stringify_eq:
  "JSON_stringify msg =
     role_key @ QuoteJSONString (role msg) @ content_key @ QuoteJSONString (content msg)
       @ ascii ''}''"
  by (simp add: JSON_stringify_def role_key_def content_key_def)

section \<open>Properties of the serialisation\<close>

text \<open>Quoting a string loses nothing: reading the quoted text back as a
  JSON string gives the string, whatever code units it contains (quotes,
  backslashes, control characters, lone surrogates).\<close>

lemma unquote_QuoteJSONString: "unquote (QuoteJSONString s) = Some s"
  using string_token_QuoteJSONString [of s "[]"] by (simp add: unquote_def)


text \<open>The JSON text of a message contains no control character, whatever
  its role and content contain: every line break, tab and other control
  character is escaped, so the echo under \<^verbatim>\<open>DEBUG\<close> is one line per message.\<close>

lemma JSON_stringify_single_line: "\<not> list_ex control_unit (JSON_stringify msg)"
  by (auto simp: JSON_stringify_def list_ex_iff dest: QuoteJSONString_not_control)
     (simp_all add: control_unit_def)

end
