(* ===== verification/World.thy ===== *)
theory World
  imports JSON
begin

text \<open>
  Everything outside the \<^verbatim>\<open>OpenAiChat\<close> object that \<^verbatim>\<open>src/index.js\<close> reads or
  writes: the process environment (\<open>env\<close>: environment variables, arguments,
  line separator), and the mutable outside world (\<open>world\<close>: files, console, the
  lines waiting on standard input, the requests sent to the completion
  service and the service itself).  Exceptions are values of \<open>js_error\<close>; an
  operation that can throw returns \<open>js_error + 'a\<close> next to the world it leaves.

  The completion service is an oracle \<open>remote\<close>: it answers a request given all
  requests sent so far, so it may keep state, but it is otherwise unconstrained;
  \<open>write_error\<close> is the like oracle for failing file writes.  Neither is ever
  changed by the program.  The console is the list of everything written so
  far; \<open>queries\<close>, \<open>error_lines\<close> and \<open>logs_only\<close> observe it.

  Every interaction with the outside is an \<open>effect\<close>, and the world keeps the
  list of all effects in the order in which they happened (\<open>trace\<close>): the
  primitives below change the world through \<open>perform\<close> only, which applies an
  effect and records it.
\<close>

section \<open>Errors\<close>

text \<open>
  \<open>http_response\<close> is \<^verbatim>\<open>err.response\<close> of a failed request as far as line 107--109
  read it: \<^verbatim>\<open>status\<close>, \<^verbatim>\<open>statusText\<close> and \<^verbatim>\<open>data.error.message\<close>, which is
  \<open>None\<close> when one of \<^verbatim>\<open>data\<close>, \<^verbatim>\<open>data.error\<close>, \<^verbatim>\<open>data.error.message\<close> is missing.
\<close>

record http_response =
  status :: nat
  statusText :: jsstring
  data_error_message :: "jsstring option"

datatype js_error =
    Error jsstring
  | TypeError jsstring
  | SystemError jsstring jsstring
  | RequestError "http_response option"

fun response :: "js_error \<Rightarrow> http_response option" where
  "response (RequestError r) = r"
| "response _ = None"

section \<open>Process environment\<close>

record env =
  OPENAI_API_KEY :: "jsstring option"
  CHAT_OPENAI_MODEL :: "jsstring option"
  DEBUG :: "jsstring option"
  argv :: "jsstring list"
  EOL :: jsstring

section \<open>The outside world\<close>

datatype console_event =
    Log jsstring
  | ErrorText jsstring
  | ErrorValue js_error
  | Question jsstring

record request =
  req_model :: jsstring
  req_messages :: "message list"

datatype api_result = Completion "message list" | Failure js_error

type_synonym sent = "jsstring \<times> request"

text \<open>
  The effects of the program: a line written to the console (\<^verbatim>\<open>console.log\<close>,
  \<^verbatim>\<open>console.error\<close>, the query of \<^verbatim>\<open>rl.question\<close>), a line of standard input
  handed to a query, a request leaving for the service and its answer
  arriving, a file replaced and a write refused.
\<close>

datatype effect =
    Print console_event
  | Read jsstring
  | Send sent
  | Receive api_result
  | Write jsstring jsstring
  | Refuse jsstring js_error

record world =
  files :: "jsstring \<rightharpoonup> jsstring"
  write_error :: "jsstring \<Rightarrow> js_error option"
  console :: "console_event list"
  stdin :: "jsstring list"
  requests :: "sent list"
  remote :: "sent list \<Rightarrow> api_result"
  trace :: "effect list"

type_synonym 'a result = "(js_error + 'a) \<times> world"

subsection \<open>Effects\<close>

fun apply_effect :: "effect \<Rightarrow> world \<Rightarrow> world" where
  "apply_effect (Print out) w = w\<lparr>console := console w @ [out]\<rparr>"
| "apply_effect (Read line) w = w\<lparr>stdin := tl (stdin w)\<rparr>"
| "apply_effect (Send r) w = w\<lparr>requests := requests w @ [r]\<rparr>"
| "apply_effect (Receive a) w = w"
| "apply_effect (Write path data) w = w\<lparr>files := (files w)(path \<mapsto> data)\<rparr>"
| "apply_effect (Refuse path err) w = w"

definition perform :: "effect \<Rightarrow> world \<Rightarrow> world" where
  "perform ef w = (apply_effect ef w)\<lparr>trace := trace w @ [ef]\<rparr>"

lemma perform_trace [simp]: "trace (perform ef w) = trace w @ [ef]"
  by (simp add: perform_def)

lemma perform_oracles [simp, frame]:
  "remote (perform ef w) = remote w"
  "write_error (perform ef w) = write_error w"
  by (cases ef; simp add: perform_def)+

lemma perform_Print [simp, frame]:
  "console (perform (Print out) w) = console w @ [out]"
  "files (perform (Print out) w) = files w"
  "stdin (perform (Print out) w) = stdin w"
  "requests (perform (Print out) w) = requests w"
  by (simp_all add: perform_def)

lemma perform_Read [simp, frame]:
  "console (perform (Read line) w) = console w"
  "files (perform (Read line) w) = files w"
  "stdin (perform (Read line) w) = tl (stdin w)"
  "requests (perform (Read line) w) = requests w"
  by (simp_all add: perform_def)

lemma perform_Send [simp, frame]:
  "console (perform (Send r) w) = console w"
  "files (perform (Send r) w) = files w"
  "stdin (perform (Send r) w) = stdin w"
  "requests (perform (Send r) w) = requests w @ [r]"
  by (simp_all add: perform_def)

lemma perform_Receive [simp, frame]:
  "console (perform (Receive a) w) = console w"
  "files (perform (Receive a) w) = files w"
  "stdin (perform (Receive a) w) = stdin w"
  "requests (perform (Receive a) w) = requests w"
  by (simp_all add: perform_def)

lemma perform_Write [simp, frame]:
  "console (perform (Write path data) w) = console w"
  "files (perform (Write path data) w) = (files w)(path \<mapsto> data)"
  "stdin (perform (Write path data) w) = stdin w"
  "requests (perform (Write path data) w) = requests w"
  by (simp_all add: perform_def)

lemma perform_Refuse [simp, frame]:
  "console (perform (Refuse path err) w) = console w"
  "files (perform (Refuse path err) w) = files w"
  "stdin (perform (Refuse path err) w) = stdin w"
  "requests (perform (Refuse path err) w) = requests w"
  by (simp_all add: perform_def)

subsection \<open>Console\<close>

definition emit :: "console_event \<Rightarrow> world \<Rightarrow> world" where
  "emit out w = perform (Print out) w"

abbreviation console_log :: "jsstring \<Rightarrow> world \<Rightarrow> world" where
  "console_log s \<equiv> emit (Log s)"

abbreviation console_error :: "jsstring \<Rightarrow> world \<Rightarrow> world" where
  "console_error s \<equiv> emit (ErrorText s)"

abbreviation console_error_value :: "js_error \<Rightarrow> world \<Rightarrow> world" where
  "console_error_value e \<equiv> emit (ErrorValue e)"

lemma emit_sel [simp, frame]:
  "console (emit out w) = console w @ [out]"
  "files (emit out w) = files w"
  "write_error (emit out w) = write_error w"
  "stdin (emit out w) = stdin w"
  "requests (emit out w) = requests w"
  "remote (emit out w) = remote w"
  "trace (emit out w) = trace w @ [Print out]"
  by (simp_all add: emit_def)

subsection \<open>Observing the console\<close>

text \<open>
  What the properties of the program say about the console: how often it has
  asked for a line (\<open>queries\<close>), how many lines it has written to the error
  stream (\<open>error_lines\<close>), and that one world continues the console of another
  by lines on standard output only (\<open>logs_only\<close>).
\<close>

fun is_log :: "console_event \<Rightarrow> bool" where
  "is_log (Log s) = True"
| "is_log _ = False"

fun is_question :: "console_event \<Rightarrow> bool" where
  "is_question (Question q) = True"
| "is_question _ = False"

definition queries :: "world \<Rightarrow> nat" where
  "queries w = length (filter is_question (console w))"

definition error_lines :: "world \<Rightarrow> nat" where
  "error_lines w = length (filter (\<lambda>ev. \<not> is_log ev \<and> \<not> is_question ev) (console w))"

definition logs_only :: "world \<Rightarrow> world \<Rightarrow> bool" where
  "logs_only w w' \<longleftrightarrow>
     take (length (console w)) (console w') = console w
     \<and> list_all is_log (drop (length (console w)) (console w'))"

lemma logs_only_iff:
  "logs_only w w' \<longleftrightarrow> (\<exists>out. console w' = console w @ out \<and> list_all is_log out)"
  unfolding logs_only_def
  by (metis append_eq_conv_conj append_take_drop_id)

lemma logs_only_console: "console w' = console w \<Longrightarrow> logs_only w w'"
  by (simp add: logs_only_def)

lemma logs_only_emit: "logs_only w w' \<Longrightarrow> is_log ev \<Longrightarrow> logs_only w (emit ev w')"
  by (auto simp: logs_only_iff)

lemma logs_only_counts:
  assumes "logs_only w w'"
  shows "queries w' = queries w" and "error_lines w' = error_lines w"
proof -
  from assms obtain out where out: "console w' = console w @ out" "list_all is_log out"
    by (auto simp: logs_only_iff)
  have "is_log ev \<Longrightarrow> \<not> is_question ev" for ev
    by (cases ev) simp_all
  with out(2) have "filter is_question out = []"
    "filter (\<lambda>ev. \<not> is_log ev \<and> \<not> is_question ev) out = []"
    by (auto simp: filter_empty_conv list_all_iff)
  with out(1) show "queries w' = queries w" and "error_lines w' = error_lines w"
    by (simp_all add: queries_def error_lines_def)
qed

lemma queries_emit [simp]:
  "queries (emit ev w) = (if is_question ev then Suc (queries w) else queries w)"
  by (simp add: queries_def)

lemma error_lines_emit [simp]:
  "error_lines (emit ev w) =
     (if \<not> is_log ev \<and> \<not> is_question ev then Suc (error_lines w) else error_lines w)"
  by (simp add: error_lines_def)

lemma queries_stdin_update [simp]: "queries (w\<lparr>stdin := ls\<rparr>) = queries w"
  by (simp add: queries_def)

lemma perform_console:
  "console (perform ef w) = console w @ (case ef of Print out \<Rightarrow> [out] | _ \<Rightarrow> [])"
  by (cases ef) simp_all

lemma perform_silent [simp]:
  "\<forall>out. ef \<noteq> Print out \<Longrightarrow> queries (perform ef w) = queries w"
  "\<forall>out. ef \<noteq> Print out \<Longrightarrow> error_lines (perform ef w) = error_lines w"
  by (cases ef; simp add: queries_def error_lines_def)+

subsection \<open>Files\<close>

text \<open>
  \<^verbatim>\<open>fs.promises.writeFile(path, data)\<close> replaces the content of the file, or
  rejects and leaves the file system alone.  The empty path never names a file
  (\<^verbatim>\<open>ENOENT\<close>); for every other path the oracle \<open>write_error\<close> decides.
\<close>

definition ENOENT :: jsstring where
  "ENOENT = ascii ''ENOENT''"

definition writeFile :: "jsstring \<Rightarrow> jsstring \<Rightarrow> world \<Rightarrow> unit result" where
  "writeFile path data w =
     (case (if path = [] then Some (SystemError ENOENT path) else write_error w path) of
        Some e \<Rightarrow> (Inl e, perform (Refuse path e) w)
      | None \<Rightarrow> (Inr (), perform (Write path data) w))"

definition writable :: "world \<Rightarrow> jsstring \<Rightarrow> bool" where
  "writable w path \<longleftrightarrow> path \<noteq> [] \<and> write_error w path = None"

lemma writeFile_writable:
  "writable w path \<Longrightarrow> writeFile path data w = (Inr (), perform (Write path data) w)"
  by (simp add: writeFile_def writable_def)

lemma writeFile_not_writable:
  "\<not> writable w path \<Longrightarrow>
     \<exists>e. writeFile path data w = (Inl e, perform (Refuse path e) w)"
  by (auto simp: writeFile_def writable_def)

lemma writeFile_empty_path [simp]:
  "writeFile [] data w =
     (Inl (SystemError ENOENT []), perform (Refuse [] (SystemError ENOENT [])) w)"
  by (simp add: writeFile_def)

lemma writeFile_frame [frame]:
  "console (snd (writeFile path data w)) = console w"
  "stdin (snd (writeFile path data w)) = stdin w"
  "requests (snd (writeFile path data w)) = requests w"
  "remote (snd (writeFile path data w)) = remote w"
  "write_error (snd (writeFile path data w)) = write_error w"
  by (simp_all add: writeFile_def split: option.splits)

lemma writeFile_trace:
  "trace (snd (writeFile path data w)) =
     trace w @ [case fst (writeFile path data w) of
                  Inl err \<Rightarrow> Refuse path err
                | Inr u \<Rightarrow> Write path data]"
  by (simp add: writeFile_def split: option.splits)

lemma writeFile_files:
  "files (snd (writeFile path data w)) =
     (if writable w path then (files w)(path \<mapsto> data) else files w)"
  by (auto simp: writeFile_def writable_def split: option.splits)

subsection \<open>The completion service\<close>

text \<open>
  \<^verbatim>\<open>new OpenAIApi(new Configuration({ apiKey }))\<close> is a client that holds the key.
  \<^verbatim>\<open>createChatCompletion(req)\<close> sends the request with the key, which the world
  records, and resolves to \<^verbatim>\<open>data.choices\<close> (the messages of the choices) or
  rejects with the error the service produced.
\<close>

datatype Configuration = Configuration (apiKey: jsstring)

datatype OpenAIApi = OpenAIApi (configuration: Configuration)

definition createChatCompletion :: "OpenAIApi \<Rightarrow> request \<Rightarrow> world \<Rightarrow> message list result" where
  "createChatCompletion client req w =
     (let w' = perform (Send (apiKey (configuration client), req)) w;
          answer = remote w (requests w')
      in case answer of
           Completion choices \<Rightarrow> (Inr choices, perform (Receive answer) w')
         | Failure e \<Rightarrow> (Inl e, perform (Receive answer) w'))"

lemma createChatCompletion_requests [simp]:
  "requests (snd (createChatCompletion client req w)) =
     requests w @ [(apiKey (configuration client), req)]"
  by (simp add: createChatCompletion_def Let_def split: api_result.splits)

lemma createChatCompletion_frame [frame]:
  "console (snd (createChatCompletion client req w)) = console w"
  "stdin (snd (createChatCompletion client req w)) = stdin w"
  "files (snd (createChatCompletion client req w)) = files w"
  "remote (snd (createChatCompletion client req w)) = remote w"
  "write_error (snd (createChatCompletion client req w)) = write_error w"
  by (simp_all add: createChatCompletion_def Let_def split: api_result.splits)

lemma createChatCompletion_trace:
  "trace (snd (createChatCompletion client req w)) =
     trace w @ [Send (apiKey (configuration client), req),
                Receive (remote w (requests w @ [(apiKey (configuration client), req)]))]"
  by (simp add: createChatCompletion_def Let_def split: api_result.splits)

lemma createChatCompletion_result:
  "fst (createChatCompletion client req w) =
     (case remote w (requests w @ [(apiKey (configuration client), req)]) of
        Completion choices \<Rightarrow> Inr choices
      | Failure e \<Rightarrow> Inl e)"
  by (simp add: createChatCompletion_def Let_def split: api_result.splits)

lemmas world_defs [js_eval] =
  perform_def emit_def writeFile_def createChatCompletion_def ENOENT_def Let_def

section \<open>A sample environment\<close>

text \<open>
  Concrete values at which the theorems of the development are instantiated:
  a POSIX process started without arguments and without \<^verbatim>\<open>DEBUG\<close>, a service
  that answers every request with \<^verbatim>\<open>hi\<close>, a service that refuses every
  request with status 429, and one that refuses the first request only.
\<close>

definition demo_env :: env where
  "demo_env =
     \<lparr>OPENAI_API_KEY = Some (ascii ''sk-demo''), CHAT_OPENAI_MODEL = None, DEBUG = None,
      argv = [ascii ''node'', ascii ''index.js''], EOL = [0x0A]\<rparr>"

definition demo_answer :: message where
  "demo_answer = \<lparr>role = ascii ''assistant'', content = ascii ''hi''\<rparr>"

definition demo_world :: world where
  "demo_world =
     \<lparr>files = Map.empty, write_error = (\<lambda>_. None), console = [], stdin = [],
      requests = [], remote = (\<lambda>_. Completion [demo_answer]), trace = []\<rparr>"

definition rate_limited :: js_error where
  "rate_limited =
     RequestError (Some \<lparr>status = 429, statusText = ascii ''Too Many Requests'',
       data_error_message = Some (ascii ''rate limited'')\<rparr>)"

definition failing_world :: world where
  "failing_world = demo_world\<lparr>remote := (\<lambda>_. Failure rate_limited)\<rparr>"

definition flaky_world :: world where
  "flaky_world =
     demo_world\<lparr>remote :=
       (\<lambda>reqs. if length reqs = 1 then Failure rate_limited else Completion [demo_answer])\<rparr>"

lemmas demo_defs [js_eval] =
  demo_env_def demo_answer_def demo_world_def rate_limited_def failing_world_def
  flaky_world_def

end
