(* ===== verification/Prompt_Source.thy ===== *)
theory Prompt_Source
  imports World
begin

text \<open>
  The two prompt sources of \<^verbatim>\<open>src/index.js\<close> (lines 119--127), which are
  asynchronous generator functions.  A generator object is its control state
  (\<open>generator\<close>); \<open>next_prompt\<close> is one call of its \<^verbatim>\<open>next()\<close> as the
  \<^verbatim>\<open>for await\<close> loop of \<^verbatim>\<open>chat()\<close> makes it: the generator yields a prompt,
  completes, or waits for a line that never comes because standard input
  holds no further line.  A generator can also throw (\<open>Thrown\<close>), which ends
  the loop with that error; neither source of the script does.

  \<^item> \<^verbatim>\<open>promptFromArg\<close> yields the arguments after the script name, joined with
    single spaces and trimmed, and then completes.
  \<^item> \<^verbatim>\<open>promptFromReadline\<close> asks \<^verbatim>\<open>rl.question('> ', ...)\<close> in an endless
    loop: every call writes the query and takes the next line of standard input.
\<close>

section \<open>Generators\<close>

datatype prompt_source = promptFromArg | promptFromReadline

datatype generator = ArgStart | ArgDone | Readline

datatype 'g next_result =
    Yield jsstring 'g world
  | Done world
  | Pending world
  | Thrown js_error world

fun start :: "prompt_source \<Rightarrow> generator" where
  "start promptFromArg = ArgStart"
| "start promptFromReadline = Readline"

definition arg_prompt :: "env \<Rightarrow> jsstring" where
  "arg_prompt e = trim (join (array_slice (argv e) 2) (ascii '' ''))"

definition question :: "jsstring \<Rightarrow> world \<Rightarrow> jsstring option \<times> world" where
  "question query w =
     (let w' = emit (Question query) w in
      case stdin w' of
        [] \<Rightarrow> (None, w')
      | line # rest \<Rightarrow> (Some line, perform (Read line) w'))"

definition readline_query :: jsstring where
  "readline_query = ascii ''> ''"

fun next_prompt :: "env \<Rightarrow> generator \<Rightarrow> world \<Rightarrow> generator next_result" where
  "next_prompt e ArgStart w = Yield (arg_prompt e) ArgDone w"
| "next_prompt e ArgDone w = Done w"
| "next_prompt e Readline w =
     (case question readline_query w of
        (None, w') \<Rightarrow> Pending w'
      | (Some line, w') \<Rightarrow> Yield line Readline w')"

lemmas prompt_source_defs [js_eval] = arg_prompt_def question_def readline_query_def

section \<open>Reading a line\<close>

lemma question_Nil:
  "stdin w = [] \<Longrightarrow> question q w = (None, emit (Question q) w)"
  by (simp add: question_def)

lemma question_Cons:
  "stdin w = line # rest \<Longrightarrow>
     question q w = (Some line, perform (Read line) (emit (Question q) w))"
  by (simp add: question_def)

lemma question_frame [frame]:
  "files (snd (question q w)) = files w"
  "requests (snd (question q w)) = requests w"
  "remote (snd (question q w)) = remote w"
  "write_error (snd (question q w)) = write_error w"
  "console (snd (question q w)) = console w @ [Question q]"
  "stdin (snd (question q w)) = tl (stdin w)"
  by (simp_all add: question_def Let_def split: list.splits)

lemma question_trace:
  "trace (snd (question q w)) =
     trace w @ Print (Question q) # (case stdin w of [] \<Rightarrow> [] | line # rest \<Rightarrow> [Read line])"
  by (simp add: question_def Let_def split: list.splits)

lemma next_prompt_not_Thrown [simp]: "next_prompt e g w \<noteq> Thrown err w'"
  by (cases g) (simp_all add: question_def Let_def split: list.splits)

section \<open>The argument source\<close>

lemma arg_prompt_eq: "arg_prompt e = trim (join (drop 2 (argv e)) (ascii '' ''))"
  by (simp add: arg_prompt_def array_slice_eq_drop)

lemma arg_prompt_trimmed: "trim (arg_prompt e) = arg_prompt e"
  by (simp add: arg_prompt_def trim_idem)

lemma next_prompt_arg_twice:
  "next_prompt e (start promptFromArg) w = Yield p g w' \<Longrightarrow> next_prompt e g w' = Done w'"
  by auto

section \<open>The interactive source\<close>

lemma next_prompt_Readline_not_Done: "next_prompt e Readline w \<noteq> Done w'"
  by (simp split: prod.splits option.splits)

lemma next_prompt_Readline_Yield:
  "next_prompt e Readline w = Yield p g w' \<longleftrightarrow>
     g = Readline \<and> stdin w \<noteq> [] \<and> p = hd (stdin w) \<and>
     w' = perform (Read p) (emit (Question readline_query) w)"
  by (cases "stdin w") (auto simp: question_Nil question_Cons)

lemma next_prompt_Readline_Pending:
  "next_prompt e Readline w = Pending w' \<longleftrightarrow>
     stdin w = [] \<and> w' = emit (Question readline_query) w"
  by (cases "stdin w") (auto simp: question_Nil question_Cons)

declare next_prompt.simps(3) [simp del]

lemma next_prompt_Yield_stdin:
  "next_prompt e g w = Yield p g' w' \<Longrightarrow>
     (g = ArgStart \<and> g' = ArgDone \<and> stdin w' = stdin w)
   \<or> (g = Readline \<and> g' = Readline \<and> stdin w = p # stdin w')"
  by (cases g; cases "stdin w") (auto simp: next_prompt_Readline_Yield)

end
