(* ===== verification/Chat_Session.thy ===== *)
theory Chat_Session
  imports Prompt_Source
begin

text \<open>
  The class \<^verbatim>\<open>OpenAiChat\<close> of \<^verbatim>\<open>src/index.js\<close> (lines 18--97) without its
  main loop: the object as a record, the constructor, \<^verbatim>\<open>_initialize\<close>,
  \<^verbatim>\<open>_resetChat\<close>, \<^verbatim>\<open>_callOpenaiChatApi\<close> and \<^verbatim>\<open>handlePrompt\<close>.  A method takes
  the object and the world and returns both as it leaves them, next to its
  result or the error it throws; what a method changed before it throws stays
  changed.  The lemmas give, for every branch of \<^verbatim>\<open>handlePrompt\<close>, the object
  and the world it leaves, the parts that no branch touches, and what is
  written to the console.
\<close>

section \<open>The object\<close>

definition CHAT_COMMAND_SAVE_TO :: jsstring where
  "CHAT_COMMAND_SAVE_TO = ascii ''save to''"

definition CHAT_COMMAND_RESET_CHAT :: jsstring where
  "CHAT_COMMAND_RESET_CHAT = ascii ''reset''"

definition CHAT_DEFAULT_MODEL :: jsstring where
  "CHAT_DEFAULT_MODEL = ascii ''gpt-3.5-turbo''"

record OpenAiChat =
  messages :: "message list"
  model :: jsstring
  promptSource :: prompt_source
  openaiApiKey :: jsstring
  openai :: "OpenAIApi option"

type_synonym 'a outcome = "(js_error + 'a) \<times> OpenAiChat \<times> world"

definition constructor :: "jsstring option \<Rightarrow> prompt_source \<Rightarrow> jsstring \<Rightarrow> OpenAiChat" where
  "constructor model_arg promptSource_arg openaiApiKey_arg =
     \<lparr>messages = [],
      model = or_else model_arg CHAT_DEFAULT_MODEL,
      promptSource = promptSource_arg,
      openaiApiKey = openaiApiKey_arg,
      openai = None\<rparr>"

definition initialize :: "OpenAiChat \<Rightarrow> OpenAiChat" where
  "initialize c = c\<lparr>openai := Some (OpenAIApi (Configuration (openaiApiKey c)))\<rparr>"

section \<open>Methods\<close>

definition resetChat :: "OpenAiChat \<Rightarrow> world \<Rightarrow> OpenAiChat \<times> world" where
  "resetChat c w =
     (c\<lparr>messages := array_splice (messages c) 0 (length (messages c))\<rparr>,
      console_log (ascii ''Chat history has been reset.'') w)"

definition no_client :: js_error where
  "no_client = TypeError (ascii ''Cannot read properties of null (reading createChatCompletion)'')"

definition no_choice :: js_error where
  "no_choice = TypeError (ascii ''Cannot destructure property message of data.choices[0] as it is undefined.'')"

definition callOpenaiChatApi :: "OpenAiChat \<Rightarrow> world \<Rightarrow> message result" where
  "callOpenaiChatApi c w =
     (let req = \<lparr>req_model = model c, req_messages = messages c\<rparr> in
      case openai c of
        None \<Rightarrow> (Inl no_client, w)
      | Some client \<Rightarrow>
          (case createChatCompletion client req w of
             (Inl err, w') \<Rightarrow> (Inl err, w')
           | (Inr choices, w') \<Rightarrow>
               (case choices of
                  [] \<Rightarrow> (Inl no_choice, w')
                | message # _ \<Rightarrow> (Inr message, w'))))"

definition debug_log :: "env \<Rightarrow> message \<Rightarrow> world \<Rightarrow> world" where
  "debug_log e msg w = (if truthy (DEBUG e) then console_log (JSON_stringify msg) w else w)"

definition save_to :: "env \<Rightarrow> jsstring \<Rightarrow> OpenAiChat \<Rightarrow> world \<Rightarrow> unit outcome" where
  "save_to e prompt c w =
     (let filename = substring prompt (length CHAT_COMMAND_SAVE_TO + 1) in
      case writeFile filename (transcript (EOL e) (messages c)) w of
        (Inl err, w') \<Rightarrow> (Inl err, c, w')
      | (Inr _, w') \<Rightarrow> (Inr (), c, console_log (ascii ''Chat saved to '' @ filename) w'))"

definition send_message :: "env \<Rightarrow> jsstring \<Rightarrow> OpenAiChat \<Rightarrow> world \<Rightarrow> unit outcome" where
  "send_message e prompt c w =
     (let um = userMessage prompt;
          c1 = c\<lparr>messages := messages c @ [um]\<rparr>;
          w1 = debug_log e um w
      in case callOpenaiChatApi c1 w1 of
           (Inl err, w2) \<Rightarrow> (Inl err, c1, w2)
         | (Inr answer, w2) \<Rightarrow>
             (Inr (), c1\<lparr>messages := messages c1 @ [answer]\<rparr>,
              debug_log e answer (console_log (content answer) w2)))"

definition handlePrompt :: "env \<Rightarrow> jsstring \<Rightarrow> OpenAiChat \<Rightarrow> world \<Rightarrow> unit outcome" where
  "handlePrompt e prompt c w =
     (if prompt = [] then
        (Inl (Error (ascii ''Invalid prompt '' @ prompt @ ascii ''.'')), c, w)
      else if startsWith prompt CHAT_COMMAND_SAVE_TO then save_to e prompt c w
      else if startsWith prompt CHAT_COMMAND_RESET_CHAT then
        (case resetChat c w of (c', w') \<Rightarrow> (Inr (), c', w'))
      else send_message e prompt c w)"

lemmas chat_consts [js_eval] =
  CHAT_COMMAND_SAVE_TO_def CHAT_COMMAND_RESET_CHAT_def CHAT_DEFAULT_MODEL_def

lemmas chat_defs [js_eval] =
  constructor_def initialize_def resetChat_def callOpenaiChatApi_def debug_log_def
  save_to_def send_message_def handlePrompt_def no_client_def no_choice_def
  startsWith_def substring_def array_splice_def

section \<open>Construction\<close>

definition initialized :: "OpenAiChat \<Rightarrow> bool" where
  "initialized c \<longleftrightarrow> openai c = Some (OpenAIApi (Configuration (openaiApiKey c)))"

lemma constructor_sel [simp]:
  "messages (constructor m s k) = []"
  "model (constructor m s k) = or_else m CHAT_DEFAULT_MODEL"
  "promptSource (constructor m s k) = s"
  "openaiApiKey (constructor m s k) = k"
  "openai (constructor m s k) = None"
  by (simp_all add: constructor_def)

lemma initialize_sel [simp]:
  "messages (initialize c) = messages c"
  "model (initialize c) = model c"
  "promptSource (initialize c) = promptSource c"
  "openaiApiKey (initialize c) = openaiApiKey c"
  "openai (initialize c) = Some (OpenAIApi (Configuration (openaiApiKey c)))"
  by (simp_all add: initialize_def)

lemma initialized_initialize [simp]: "initialized (initialize c)"
  by (simp add: initialized_def)

lemma not_initialized_constructor [simp]: "\<not> initialized (constructor m s k)"
  by (simp add: initialized_def)

lemma initialized_messages_update [simp]:
  "initialized (c\<lparr>messages := ms\<rparr>) = initialized c"
  by (simp add: initialized_def)

lemma model_nonempty: "model (constructor m s k) \<noteq> []"
  by (simp add: or_else_nonempty CHAT_DEFAULT_MODEL_def)

section \<open>Resetting\<close>

lemma resetChat_eq [simp]:
  "resetChat c w =
     (c\<lparr>messages := []\<rparr>, console_log (ascii ''Chat history has been reset.'') w)"
  by (simp add: resetChat_def)

section \<open>Calling the completion service\<close>

text \<open>
  \<open>outgoing c\<close> is what an initialised object sends: its key and a request with
  its model and its whole history.  \<open>reply_of\<close> is what \<^verbatim>\<open>_callOpenaiChatApi\<close>
  makes of the answer of the service: the message of the first choice, the
  error of the service, or the error of reading a choice that is not there.
\<close>

definition outgoing :: "OpenAiChat \<Rightarrow> sent" where
  "outgoing c = (openaiApiKey c, \<lparr>req_model = model c, req_messages = messages c\<rparr>)"

fun reply_of :: "api_result \<Rightarrow> js_error + message" where
  "reply_of (Completion []) = Inl no_choice"
| "reply_of (Completion (message # _)) = Inr message"
| "reply_of (Failure err) = Inl err"

definition sent_world :: "OpenAiChat \<Rightarrow> world \<Rightarrow> world" where
  "sent_world c w =
     perform (Receive (remote w (requests w @ [outgoing c]))) (perform (Send (outgoing c)) w)"

lemma sent_world_sel [simp, frame]:
  "requests (sent_world c w) = requests w @ [outgoing c]"
  "console (sent_world c w) = console w"
  "files (sent_world c w) = files w"
  "stdin (sent_world c w) = stdin w"
  "remote (sent_world c w) = remote w"
  "write_error (sent_world c w) = write_error w"
  "trace (sent_world c w) =
     trace w @ [Send (outgoing c), Receive (remote w (requests w @ [outgoing c]))]"
  by (simp_all add: sent_world_def)

lemma callOpenaiChatApi_no_client:
  "openai c = None \<Longrightarrow> callOpenaiChatApi c w = (Inl no_client, w)"
  by (simp add: callOpenaiChatApi_def)

lemma callOpenaiChatApi_initialized:
  "initialized c \<Longrightarrow>
     callOpenaiChatApi c w = (reply_of (remote w (requests w @ [outgoing c])), sent_world c w)"
  by (simp add: callOpenaiChatApi_def initialized_def createChatCompletion_def outgoing_def
      sent_world_def Let_def split: api_result.splits list.splits)

section \<open>The branches of handlePrompt\<close>

lemma startsWith_nonempty: "startsWith p q \<Longrightarrow> q \<noteq> [] \<Longrightarrow> p \<noteq> []"
  by (auto simp: startsWith_iff_prefix)

lemma handlePrompt_empty:
  "handlePrompt e [] c w = (Inl (Error (ascii ''Invalid prompt .'')), c, w)"
  by (simp add: handlePrompt_def)

lemma handlePrompt_save_to:
  "startsWith p CHAT_COMMAND_SAVE_TO \<Longrightarrow> handlePrompt e p c w = save_to e p c w"
  by (auto simp: handlePrompt_def CHAT_COMMAND_SAVE_TO_def dest: startsWith_nonempty)

lemma handlePrompt_reset:
  "\<not> startsWith p CHAT_COMMAND_SAVE_TO \<Longrightarrow> startsWith p CHAT_COMMAND_RESET_CHAT \<Longrightarrow>
     handlePrompt e p c w =
       (Inr (), c\<lparr>messages := []\<rparr>, console_log (ascii ''Chat history has been reset.'') w)"
  by (auto simp: handlePrompt_def CHAT_COMMAND_RESET_CHAT_def dest: startsWith_nonempty)

lemma handlePrompt_message:
  "p \<noteq> [] \<Longrightarrow> \<not> startsWith p CHAT_COMMAND_SAVE_TO \<Longrightarrow>
   \<not> startsWith p CHAT_COMMAND_RESET_CHAT \<Longrightarrow>
     handlePrompt e p c w = send_message e p c w"
  by (simp add: handlePrompt_def)

subsection \<open>Saving\<close>

definition save_filename :: "jsstring \<Rightarrow> jsstring" where
  "save_filename p = substring p (length CHAT_COMMAND_SAVE_TO + 1)"

lemma length_CHAT_COMMAND_SAVE_TO [simp]: "length CHAT_COMMAND_SAVE_TO = 7"
  by (simp add: CHAT_COMMAND_SAVE_TO_def)

lemma length_CHAT_COMMAND_RESET_CHAT [simp]: "length CHAT_COMMAND_RESET_CHAT = 5"
  by (simp add: CHAT_COMMAND_RESET_CHAT_def)

lemma save_to_eq:
  "save_to e p c w =
     (case writeFile (save_filename p) (transcript (EOL e) (messages c)) w of
        (Inl err, w') \<Rightarrow> (Inl err, c, w')
      | (Inr _, w') \<Rightarrow>
          (Inr (), c, console_log (ascii ''Chat saved to '' @ save_filename p) w'))"
  unfolding save_to_def save_filename_def Let_def by (rule refl)

lemma save_filename_eq_drop: "save_filename p = drop 8 p"
  by (simp add: save_filename_def substring_eq_drop)

lemma save_filename_append [simp]:
  "save_filename (CHAT_COMMAND_SAVE_TO @ c # name) = name"
  by (simp add: save_filename_def substring_eq_drop)

lemma save_to_writable:
  "writable w (save_filename p) \<Longrightarrow>
     save_to e p c w =
       (Inr (), c,
        console_log (ascii ''Chat saved to '' @ save_filename p)
          (perform (Write (save_filename p) (transcript (EOL e) (messages c))) w))"
  by (simp add: save_to_eq writeFile_writable)

lemma save_to_not_writable:
  "\<not> writable w (save_filename p) \<Longrightarrow>
     \<exists>err. save_to e p c w = (Inl err, c, perform (Refuse (save_filename p) err) w)"
  using writeFile_not_writable [of w "save_filename p" "transcript (EOL e) (messages c)"]
  by (auto simp: save_to_eq)

subsection \<open>Sending\<close>

lemma debug_log_sel [simp, frame]:
  "files (debug_log e m w) = files w"
  "stdin (debug_log e m w) = stdin w"
  "requests (debug_log e m w) = requests w"
  "remote (debug_log e m w) = remote w"
  "write_error (debug_log e m w) = write_error w"
  by (simp_all add: debug_log_def)

lemma debug_log_off [simp]: "\<not> truthy (DEBUG e) \<Longrightarrow> debug_log e m w = w"
  by (simp add: debug_log_def)

lemma debug_log_on:
  "truthy (DEBUG e) \<Longrightarrow> debug_log e m w = console_log (JSON_stringify m) w"
  by (simp add: debug_log_def)

definition pushed :: "OpenAiChat \<Rightarrow> jsstring \<Rightarrow> OpenAiChat" where
  "pushed c p = c\<lparr>messages := messages c @ [userMessage p]\<rparr>"

lemma pushed_sel [simp]:
  "messages (pushed c p) = messages c @ [userMessage p]"
  "model (pushed c p) = model c"
  "promptSource (pushed c p) = promptSource c"
  "openaiApiKey (pushed c p) = openaiApiKey c"
  "openai (pushed c p) = openai c"
  "initialized (pushed c p) = initialized c"
  by (simp_all add: pushed_def)

lemma send_message_reply:
  assumes "initialized c"
  shows "send_message e p c w =
     (let w1 = debug_log e (userMessage p) w;
          w2 = sent_world (pushed c p) w1
      in case reply_of (remote w (requests w @ [outgoing (pushed c p)])) of
           Inl err \<Rightarrow> (Inl err, pushed c p, w2)
         | Inr answer \<Rightarrow>
             (Inr (), c\<lparr>messages := messages c @ [userMessage p, answer]\<rparr>,
              debug_log e answer (console_log (content answer) w2)))"
  using assms
  by (simp add: send_message_def Let_def callOpenaiChatApi_initialized pushed_def
      split: sum.splits)

lemma send_message_no_client:
  "openai c = None \<Longrightarrow>
     send_message e p c w = (Inl no_client, pushed c p, debug_log e (userMessage p) w)"
  by (simp add: send_message_def Let_def callOpenaiChatApi_no_client pushed_def)

section \<open>What no branch touches\<close>

lemma callOpenaiChatApi_frame [frame]:
  "console (snd (callOpenaiChatApi c w)) = console w"
  "files (snd (callOpenaiChatApi c w)) = files w"
  "stdin (snd (callOpenaiChatApi c w)) = stdin w"
  "remote (snd (callOpenaiChatApi c w)) = remote w"
  "write_error (snd (callOpenaiChatApi c w)) = write_error w"
  by (simp_all add: callOpenaiChatApi_def createChatCompletion_def Let_def
      split: option.splits api_result.splits list.splits)

lemma save_to_object [simp]: "fst (snd (save_to e p c w)) = c"
  by (simp add: save_to_eq split: prod.splits sum.splits)

lemma save_to_frame [frame]:
  "stdin (snd (snd (save_to e p c w))) = stdin w"
  "requests (snd (snd (save_to e p c w))) = requests w"
  "remote (snd (snd (save_to e p c w))) = remote w"
  "write_error (snd (snd (save_to e p c w))) = write_error w"
  by (simp_all add: save_to_eq writeFile_def split: prod.splits sum.splits option.splits if_splits)

lemma send_message_object:
  "\<exists>rest. fst (snd (send_message e p c w)) = c\<lparr>messages := messages c @ userMessage p # rest\<rparr>
     \<and> length rest \<le> 1"
  by (auto simp: send_message_def Let_def split: prod.splits sum.splits)

lemma send_message_frame [frame]:
  "files (snd (snd (send_message e p c w))) = files w"
  "stdin (snd (snd (send_message e p c w))) = stdin w"
  "remote (snd (snd (send_message e p c w))) = remote w"
  "write_error (snd (snd (send_message e p c w))) = write_error w"
proof -
  let ?call = "callOpenaiChatApi (c\<lparr>messages := messages c @ [userMessage p]\<rparr>)
                 (debug_log e (userMessage p) w)"
  have w2: "snd (snd (send_message e p c w)) = snd ?call
      \<or> (\<exists>a. snd (snd (send_message e p c w)) = debug_log e a (console_log (content a) (snd ?call)))"
    by (auto simp: send_message_def Let_def split: prod.splits sum.splits)
  have "files (snd ?call) = files w" "stdin (snd ?call) = stdin w"
    "remote (snd ?call) = remote w" "write_error (snd ?call) = write_error w"
    by (simp_all add: callOpenaiChatApi_frame)
  with w2 show "files (snd (snd (send_message e p c w))) = files w"
    "stdin (snd (snd (send_message e p c w))) = stdin w"
    "remote (snd (snd (send_message e p c w))) = remote w"
    "write_error (snd (snd (send_message e p c w))) = write_error w"
    by auto
qed

section \<open>The dispatch of handlePrompt\<close>

text \<open>
  The guards of \<^verbatim>\<open>handlePrompt\<close> read as a classification of the prompt: the
  empty prompt is invalid, a prompt that starts with \<^verbatim>\<open>save to\<close> names a file
  (whatever follows the code unit after the prefix), a prompt that starts with
  \<^verbatim>\<open>reset\<close> resets, everything else is sent.
\<close>

datatype command = Invalid | SaveTo jsstring | Reset | Say jsstring

definition classify :: "jsstring \<Rightarrow> command" where
  "classify p =
     (if p = [] then Invalid
      else if startsWith p CHAT_COMMAND_SAVE_TO then SaveTo (save_filename p)
      else if startsWith p CHAT_COMMAND_RESET_CHAT then Reset
      else Say p)"

lemma handlePrompt_classify:
  "handlePrompt e p c w =
     (case classify p of
        Invalid \<Rightarrow> (Inl (Error (ascii ''Invalid prompt .'')), c, w)
      | SaveTo filename \<Rightarrow> save_to e p c w
      | Reset \<Rightarrow> (Inr (), c\<lparr>messages := []\<rparr>,
          console_log (ascii ''Chat history has been reset.'') w)
      | Say t \<Rightarrow> send_message e t c w)"
  by (simp add: classify_def handlePrompt_def)

lemma classify_Invalid_iff [simp]: "classify p = Invalid \<longleftrightarrow> p = []"
  by (simp add: classify_def)

lemma classify_Say_iff:
  "classify p = Say t \<longleftrightarrow>
     t = p \<and> p \<noteq> [] \<and> \<not> prefix CHAT_COMMAND_SAVE_TO p \<and> \<not> prefix CHAT_COMMAND_RESET_CHAT p"
  by (auto simp: classify_def startsWith_iff_prefix)

lemma commands_disjoint:
  "\<not> (prefix CHAT_COMMAND_SAVE_TO p \<and> prefix CHAT_COMMAND_RESET_CHAT p)"
  by (cases p) (simp_all add: CHAT_COMMAND_RESET_CHAT_def CHAT_COMMAND_SAVE_TO_def)

lemma classify_Reset_iff: "classify p = Reset \<longleftrightarrow> prefix CHAT_COMMAND_RESET_CHAT p"
  using commands_disjoint [of p]
  by (auto simp: classify_def startsWith_iff_prefix CHAT_COMMAND_RESET_CHAT_def)

lemma classify_SaveTo_iff:
  "classify p = SaveTo f \<longleftrightarrow> prefix CHAT_COMMAND_SAVE_TO p \<and> f = drop 8 p"
  by (auto simp: classify_def startsWith_iff_prefix save_filename_eq_drop
      CHAT_COMMAND_SAVE_TO_def)

lemma classify_save_to [simp]:
  "classify (CHAT_COMMAND_SAVE_TO @ rest) = SaveTo (drop 1 rest)"
  by (simp add: classify_SaveTo_iff)

lemma classify_reset [simp]: "classify (CHAT_COMMAND_RESET_CHAT @ rest) = Reset"
  by (simp add: classify_Reset_iff)

lemma handlePrompt_object:
  "fst (snd (handlePrompt e p c w)) =
     (case classify p of
        Reset \<Rightarrow> c\<lparr>messages := []\<rparr>
      | Say t \<Rightarrow> fst (snd (send_message e t c w))
      | _ \<Rightarrow> c)"
  by (cases "classify p") (simp_all add: handlePrompt_classify del: classify_Invalid_iff)

lemma handlePrompt_world_frame [frame]:
  "stdin (snd (snd (handlePrompt e p c w))) = stdin w"
  "remote (snd (snd (handlePrompt e p c w))) = remote w"
  "write_error (snd (snd (handlePrompt e p c w))) = write_error w"
  by (cases "classify p"; simp add: handlePrompt_classify frame del: classify_Invalid_iff)+

lemma handlePrompt_config:
  "model (fst (snd (handlePrompt e p c w))) = model c"
  "openaiApiKey (fst (snd (handlePrompt e p c w))) = openaiApiKey c"
  "openai (fst (snd (handlePrompt e p c w))) = openai c"
  "promptSource (fst (snd (handlePrompt e p c w))) = promptSource c"
  "initialized (fst (snd (handlePrompt e p c w))) = initialized c"
proof -
  have "\<exists>ms. fst (snd (handlePrompt e p c w)) = c\<lparr>messages := ms\<rparr>"
  proof (cases "classify p")
    case (Say t)
    with send_message_object [of e t c w] show ?thesis
      by (auto simp: handlePrompt_object)
  next
    case Reset
    then show ?thesis by (auto simp: handlePrompt_object)
  next
    case Invalid
    have "c = c\<lparr>messages := messages c\<rparr>" by simp
    with Invalid show ?thesis
      by (intro exI [of _ "messages c"]) (simp add: handlePrompt_object del: classify_Invalid_iff)
  next
    case (SaveTo f)
    have "c = c\<lparr>messages := messages c\<rparr>" by simp
    with SaveTo show ?thesis
      by (intro exI [of _ "messages c"]) (simp add: handlePrompt_object)
  qed
  then obtain ms where "fst (snd (handlePrompt e p c w)) = c\<lparr>messages := ms\<rparr>" ..
  then show "model (fst (snd (handlePrompt e p c w))) = model c"
    "openaiApiKey (fst (snd (handlePrompt e p c w))) = openaiApiKey c"
    "openai (fst (snd (handlePrompt e p c w))) = openai c"
    "promptSource (fst (snd (handlePrompt e p c w))) = promptSource c"
    "initialized (fst (snd (handlePrompt e p c w))) = initialized c"
    by simp_all
qed

lemma callOpenaiChatApi_requests:
  "requests (snd (callOpenaiChatApi c w)) =
     requests w @
       (case openai c of
          None \<Rightarrow> []
        | Some client \<Rightarrow>
            [(apiKey (configuration client), \<lparr>req_model = model c, req_messages = messages c\<rparr>)])"
  by (simp add: callOpenaiChatApi_def createChatCompletion_def Let_def
      split: option.splits api_result.splits list.splits)

lemma send_message_requests:
  "requests (snd (snd (send_message e p c w))) =
     requests w @
       (case openai c of
          None \<Rightarrow> []
        | Some client \<Rightarrow>
            [(apiKey (configuration client),
              \<lparr>req_model = model c, req_messages = messages c @ [userMessage p]\<rparr>)])"
proof -
  let ?c1 = "c\<lparr>messages := messages c @ [userMessage p]\<rparr>"
  let ?call = "callOpenaiChatApi ?c1 (debug_log e (userMessage p) w)"
  have "requests (snd (snd (send_message e p c w))) = requests (snd ?call)"
    by (simp add: send_message_def Let_def split: prod.splits sum.splits)
  then show ?thesis
    by (simp add: callOpenaiChatApi_requests split: option.splits)
qed

lemma handlePrompt_requests:
  "requests (snd (snd (handlePrompt e p c w))) =
     (case classify p of
        Say t \<Rightarrow> requests (snd (snd (send_message e t c w)))
      | _ \<Rightarrow> requests w)"
  by (cases "classify p") (simp_all add: handlePrompt_classify frame del: classify_Invalid_iff)

lemma handlePrompt_files:
  "files (snd (snd (handlePrompt e p c w))) =
     (case classify p of
        SaveTo f \<Rightarrow>
          if writable w f then (files w)(f \<mapsto> transcript (EOL e) (messages c)) else files w
      | _ \<Rightarrow> files w)"
proof (cases "classify p")
  case (SaveTo f)
  then have f: "f = save_filename p"
    by (simp add: classify_SaveTo_iff save_filename_eq_drop)
  have "files (snd (snd (save_to e p c w))) =
      files (snd (writeFile (save_filename p) (transcript (EOL e) (messages c)) w))"
    by (simp add: save_to_eq split: prod.splits sum.splits)
  with SaveTo f show ?thesis
    by (simp add: handlePrompt_classify writeFile_files)
qed (simp_all add: handlePrompt_classify frame del: classify_Invalid_iff)

lemma handlePrompt_messages:
  "case classify p of
     Reset \<Rightarrow> messages (fst (snd (handlePrompt e p c w))) = []
   | Say t \<Rightarrow> \<exists>rest. messages (fst (snd (handlePrompt e p c w)))
         = messages c @ userMessage t # rest \<and> length rest \<le> 1
   | _ \<Rightarrow> messages (fst (snd (handlePrompt e p c w))) = messages c"
proof (cases "classify p")
  case (Say t)
  obtain rest where
    "fst (snd (send_message e t c w)) = c\<lparr>messages := messages c @ userMessage t # rest\<rparr>"
    and "length rest \<le> 1"
    using send_message_object by blast
  with Say show ?thesis by (auto simp: handlePrompt_object)
qed (simp_all add: handlePrompt_object del: classify_Invalid_iff)

section \<open>What is written to the console\<close>

text \<open>
  \<^verbatim>\<open>handlePrompt\<close> writes to standard output only: the confirmation of a save
  or a reset, the answer, and the echo under \<^verbatim>\<open>DEBUG\<close>.  It never writes to the
  error stream and never asks for input; that is left to the loop.
\<close>

lemma logs_only_debug_log: "logs_only w w' \<Longrightarrow> logs_only w (debug_log e m w')"
  by (simp add: debug_log_def logs_only_emit)

lemma save_to_logs_only: "logs_only w (snd (snd (save_to e p c w)))"
  by (auto simp: save_to_eq writeFile_def logs_only_emit logs_only_console
      split: prod.splits sum.splits option.splits if_splits)

lemma send_message_logs_only: "logs_only w (snd (snd (send_message e p c w)))"
proof -
  let ?call = "callOpenaiChatApi (c\<lparr>messages := messages c @ [userMessage p]\<rparr>)
                 (debug_log e (userMessage p) w)"
  have w2: "snd (snd (send_message e p c w)) = snd ?call
      \<or> (\<exists>a. snd (snd (send_message e p c w)) = debug_log e a (console_log (content a) (snd ?call)))"
    by (auto simp: send_message_def Let_def split: prod.splits sum.splits)
  have "logs_only w (debug_log e (userMessage p) w)"
    by (simp add: logs_only_debug_log logs_only_console)
  then have "logs_only w (snd ?call)"
    by (simp add: logs_only_def callOpenaiChatApi_frame)
  with w2 show ?thesis
    by (auto intro!: logs_only_debug_log logs_only_emit)
qed

lemma handlePrompt_logs_only: "logs_only w (snd (snd (handlePrompt e p c w)))"
  by (cases "classify p")
     (simp_all add: handlePrompt_classify save_to_logs_only send_message_logs_only
       logs_only_console logs_only_emit del: classify_Invalid_iff)

section \<open>A sample object\<close>

definition demo_chat :: OpenAiChat where
  "demo_chat = initialize (constructor None promptFromReadline (ascii ''sk-demo''))"

lemma demo_chat_sel [simp]:
  "messages demo_chat = []"
  "model demo_chat = CHAT_DEFAULT_MODEL"
  "openaiApiKey demo_chat = ascii ''sk-demo''"
  "initialized demo_chat"
  by (simp_all add: demo_chat_def)

section \<open>Properties of handlePrompt\<close>

text \<open>C1. A prompt that is neither empty nor a command, handled by an initialised
  object whose request the service answers with at least one choice: the call
  returns normally; the history grows by exactly the user message and the
  message of the first choice, in this order; the request is recorded after
  the user message was appended; the content of the answer is logged.\<close>

theorem handlePrompt_say_success:
  assumes "initialized c" and "classify p = Say p"
    and "remote w (requests w @ [outgoing (pushed c p)]) = Completion (answer # others)"
  shows "handlePrompt e p c w =
     (Inr (), c\<lparr>messages := messages c @ [userMessage p, answer]\<rparr>,
      debug_log e answer (console_log (content answer)
        (sent_world (pushed c p) (debug_log e (userMessage p) w))))"
  using assms
  by (simp add: classify_Say_iff startsWith_iff_prefix handlePrompt_def send_message_def
      callOpenaiChatApi_def createChatCompletion_def initialized_def outgoing_def
      sent_world_def pushed_def Let_def)

theorem handlePrompt_say_success_witness:
  "handlePrompt demo_env (ascii ''hello'') demo_chat demo_world =
     (Inr (), demo_chat\<lparr>messages := [userMessage (ascii ''hello''), demo_answer]\<rparr>,
      demo_world\<lparr>console := [Log (ascii ''hi'')],
        requests := [(ascii ''sk-demo'', \<lparr>req_model = ascii ''gpt-3.5-turbo'',
          req_messages = [userMessage (ascii ''hello'')]\<rparr>)],
        trace := [Send (ascii ''sk-demo'', \<lparr>req_model = ascii ''gpt-3.5-turbo'',
            req_messages = [userMessage (ascii ''hello'')]\<rparr>),
          Receive (Completion [demo_answer]), Print (Log (ascii ''hi''))]\<rparr>)"
  using handlePrompt_say_success
    [of demo_chat "ascii ''hello''" demo_world demo_answer "[]" demo_env]
  by (simp add: classify_def startsWith_def chat_consts outgoing_def sent_world_def
      emit_def perform_def demo_defs)

text \<open>C2. A prompt that is sent by an initialised object whose call fails (the
  service rejects the request, or answers without a choice): the error is
  thrown, the user message stays in the history, and the request stays
  recorded; nothing is logged but the debug echo of the user message.\<close>

theorem handlePrompt_say_failure:
  assumes "initialized c" and "classify p = Say p"
    and "reply_of (remote w (requests w @ [outgoing (pushed c p)])) = Inl err"
  shows "handlePrompt e p c w =
     (Inl err, c\<lparr>messages := messages c @ [userMessage p]\<rparr>,
      sent_world (pushed c p) (debug_log e (userMessage p) w))"
  using assms
  by (auto simp: classify_Say_iff startsWith_iff_prefix handlePrompt_def send_message_def
      callOpenaiChatApi_def createChatCompletion_def initialized_def outgoing_def
      sent_world_def pushed_def Let_def split: api_result.splits list.splits)

theorem handlePrompt_say_failure_witness:
  "handlePrompt demo_env (ascii ''hello'') demo_chat failing_world =
     (Inl rate_limited, demo_chat\<lparr>messages := [userMessage (ascii ''hello'')]\<rparr>,
      failing_world\<lparr>requests := [(ascii ''sk-demo'', \<lparr>req_model = ascii ''gpt-3.5-turbo'',
          req_messages = [userMessage (ascii ''hello'')]\<rparr>)],
        trace := [Send (ascii ''sk-demo'', \<lparr>req_model = ascii ''gpt-3.5-turbo'',
            req_messages = [userMessage (ascii ''hello'')]\<rparr>),
          Receive (Failure rate_limited)]\<rparr>)"
  using handlePrompt_say_failure
    [of demo_chat "ascii ''hello''" failing_world rate_limited demo_env]
  by (simp add: classify_def startsWith_def chat_consts outgoing_def sent_world_def
      perform_def demo_env_def demo_world_def failing_world_def)

text \<open>C3. A prompt that starts with \<^verbatim>\<open>reset\<close> (and not with \<^verbatim>\<open>save to\<close>) empties the
  history whatever its size, logs the confirmation and changes nothing else:
  no request is sent and no file is written.\<close>

theorem handlePrompt_reset_clears:
  assumes "classify p = Reset"
  shows "handlePrompt e p c w =
     (Inr (), c\<lparr>messages := []\<rparr>, console_log (ascii ''Chat history has been reset.'') w)"
  using assms
  by (auto simp: classify_def handlePrompt_def resetChat_def array_splice_def
      simp del: resetChat_eq split: if_splits)

theorem handlePrompt_reset_clears_witness:
  "handlePrompt demo_env (ascii ''reset'')
     (demo_chat\<lparr>messages := [userMessage (ascii ''hello''), demo_answer]\<rparr>) demo_world =
     (Inr (), demo_chat,
      demo_world\<lparr>console := [Log (ascii ''Chat history has been reset.'')],
        trace := [Print (Log (ascii ''Chat history has been reset.''))]\<rparr>)"
  using handlePrompt_reset_clears [of "ascii ''reset''" demo_env
      "demo_chat\<lparr>messages := [userMessage (ascii ''hello''), demo_answer]\<rparr>" demo_world]
  by (simp add: classify_def startsWith_def chat_consts emit_def perform_def demo_world_def
      demo_chat_def)

text \<open>C4. A prompt that starts with \<^verbatim>\<open>save to\<close> and names a file that can be
  written: the file holds the transcript of the history afterwards (replacing
  what it held), the confirmation is logged, the object is unchanged and no
  request is sent.\<close>

theorem handlePrompt_save_writes_transcript:
  assumes "classify p = SaveTo f" and "writable w f"
  shows "handlePrompt e p c w =
     (Inr (), c,
      console_log (ascii ''Chat saved to '' @ f)
        (perform (Write f (transcript (EOL e) (messages c))) w))"
  using assms
  by (auto simp: classify_def handlePrompt_def save_to_def save_filename_def writeFile_def
      writable_def Let_def split: if_splits)

theorem handlePrompt_save_writes_transcript_witness:
  "handlePrompt demo_env (ascii ''save to out.txt'')
     (demo_chat\<lparr>messages := [userMessage (ascii ''hello''), demo_answer]\<rparr>) demo_world =
     (Inr (), demo_chat\<lparr>messages := [userMessage (ascii ''hello''), demo_answer]\<rparr>,
      demo_world\<lparr>console := [Log (ascii ''Chat saved to out.txt'')],
        files := [ascii ''out.txt'' \<mapsto> ascii ''>> hello'' @ [0x0A] @ ascii ''<< hi''],
        trace := [Write (ascii ''out.txt'') (ascii ''>> hello'' @ [0x0A] @ ascii ''<< hi''),
          Print (Log (ascii ''Chat saved to out.txt''))]\<rparr>)"
  using handlePrompt_save_writes_transcript [of "ascii ''save to out.txt''" "ascii ''out.txt''"
      demo_world demo_env "demo_chat\<lparr>messages := [userMessage (ascii ''hello''), demo_answer]\<rparr>"]
  by (simp add: classify_def startsWith_def save_filename_def substring_def chat_consts
      writable_def emit_def perform_def demo_defs transcript_defs includes_str_def
      indexOf_from.simps)

text \<open>C34. A prompt that starts with \<^verbatim>\<open>save to\<close> and names a file that cannot be
  written (the empty name among them, which the prompt \<^verbatim>\<open>save to\<close> alone
  gives): the error of the write is thrown; the object is unchanged, and the
  world is unchanged but for the record of the refused write: no confirmation
  is logged.\<close>

theorem handlePrompt_save_failure:
  assumes "classify p = SaveTo f" and "\<not> writable w f"
  shows "\<exists>err. handlePrompt e p c w = (Inl err, c, perform (Refuse f err) w)"
proof -
  from assms(1) have "f = save_filename p"
    by (simp add: classify_SaveTo_iff save_filename_eq_drop)
  with assms save_to_not_writable [of w p e c] show ?thesis
    by (simp add: handlePrompt_classify)
qed

theorem handlePrompt_save_failure_witness:
  "\<exists>err. handlePrompt demo_env (ascii ''save to'') demo_chat demo_world =
     (Inl err, demo_chat, perform (Refuse [] err) demo_world)"
  using handlePrompt_save_failure [of "ascii ''save to''" "[]" demo_world demo_env demo_chat]
  by (simp add: classify_def startsWith_def save_filename_def substring_def chat_consts
      writable_def)

text \<open>Only a prompt that is sent reaches the service: the empty prompt,
  a save and a reset leave the list of requests as it was.\<close>

lemma handlePrompt_no_request:
  assumes "classify p \<noteq> Say p"
  shows "requests (snd (snd (handlePrompt e p c w))) = requests w"
proof (cases "classify p")
  case (Say t)
  with assms show ?thesis by (simp add: classify_Say_iff)
qed (simp_all add: handlePrompt_requests del: classify_Invalid_iff)

lemma handlePrompt_no_request_example:
  "requests (snd (snd (handlePrompt demo_env (ascii ''reset the chat'') demo_chat demo_world))) = []"
  using handlePrompt_no_request [of "ascii ''reset the chat''" demo_env demo_chat demo_world]
  by (simp add: classify_def startsWith_def chat_consts demo_world_def)

text \<open>Every prompt that is sent makes exactly one request, whatever the
  service answers: it carries the credential and the model of the object and
  the whole history including the user message just appended.\<close>

lemma handlePrompt_one_request:
  assumes "initialized c" and "classify p = Say p"
  shows "requests (snd (snd (handlePrompt e p c w))) =
     requests w @ [(openaiApiKey c,
       \<lparr>req_model = model c, req_messages = messages c @ [userMessage p]\<rparr>)]"
  using assms
  by (simp add: handlePrompt_requests send_message_requests initialized_def)

lemma handlePrompt_one_request_example:
  "requests (snd (snd (handlePrompt demo_env (ascii ''again'')
       (demo_chat\<lparr>messages := [userMessage (ascii ''hello'')]\<rparr>) failing_world))) =
     [(ascii ''sk-demo'', \<lparr>req_model = ascii ''gpt-3.5-turbo'',
        req_messages = [userMessage (ascii ''hello''), userMessage (ascii ''again'')]\<rparr>)]"
  using handlePrompt_one_request [of "demo_chat\<lparr>messages := [userMessage (ascii ''hello'')]\<rparr>"
      "ascii ''again''" demo_env failing_world]
  by (simp add: classify_def startsWith_def chat_consts demo_world_def failing_world_def)

section \<open>The separator of the save command\<close>

text \<open>C39. The save command is recognised by its prefix \<^verbatim>\<open>save to\<close> alone.  The
  code unit after the prefix is dropped as the separator without being
  looked at, and the file name is everything after it: \<^verbatim>\<open>save tomorrow\<close> is
  the command to save to the file \<^verbatim>\<open>orrow\<close>.\<close>

theorem save_to_separator_unchecked:
  assumes "startsWith p CHAT_COMMAND_SAVE_TO"
  shows "classify p = SaveTo (drop 8 p)"
  using assms by (simp add: classify_SaveTo_iff startsWith_iff_prefix)

theorem save_to_separator_unchecked_witness:
  "classify (ascii ''save tomorrow'') = SaveTo (ascii ''orrow'')"
  using save_to_separator_unchecked [of "ascii ''save tomorrow''"]
  by (simp add: chat_consts js_string_defs)

end
