(* ===== verification/Chat_Loop.thy ===== *)
theory Chat_Loop
  imports Chat_Session
begin

text \<open>
  The main loop \<^verbatim>\<open>OpenAiChat.chat\<close> (\<^verbatim>\<open>src/index.js\<close> lines 99--116): the
  welcome line, then for every prompt of the prompt source one call of
  \<^verbatim>\<open>handlePrompt\<close> inside \<^verbatim>\<open>try\<close>; an error is reported by the \<^verbatim>\<open>catch\<close> block
  (\<open>report\<close>) and the loop goes on.  The result is the state of the promise
  that \<^verbatim>\<open>chat()\<close> returns: fulfilled when the source completes, pending when
  the loop waits for a line that standard input does not hold, rejected when
  the source throws, which the two sources of the script never do.

  The loop is a \<^theory_text>\<open>function\<close>; it terminates because the argument source
  completes after its only prompt and the interactive source consumes a line
  of the finite input in every iteration.
\<close>

section \<open>Reporting an error\<close>

definition report :: "js_error \<Rightarrow> world \<Rightarrow> world" where
  "report err w =
     (case response err of
        None \<Rightarrow> console_error_value err w
      | Some res \<Rightarrow>
          (case data_error_message res of
             None \<Rightarrow> console_error_value err w
           | Some errMessage \<Rightarrow>
               if errMessage = [] then console_error_value err w
               else console_error
                 (ascii ''Error '' @ toString (status res) @ ascii '' '' @ statusText res
                    @ ascii '': '' @ errMessage) w))"

lemma report_frame [simp, frame]:
  "files (report err w) = files w"
  "stdin (report err w) = stdin w"
  "requests (report err w) = requests w"
  "remote (report err w) = remote w"
  "write_error (report err w) = write_error w"
  by (simp_all add: report_def split: option.splits)

lemma report_console: "\<exists>line. console (report err w) = console w @ [line]"
  by (simp add: report_def split: option.splits)

lemma report_structured:
  "response err = Some res \<Longrightarrow> data_error_message res = Some msg \<Longrightarrow> msg \<noteq> [] \<Longrightarrow>
     report err w =
       console_error (ascii ''Error '' @ toString (status res) @ ascii '' '' @ statusText res
         @ ascii '': '' @ msg) w"
  by (simp add: report_def)

lemma report_generic:
  "response err = None \<or> \<not> truthy (data_error_message (the (response err))) \<Longrightarrow>
     report err w = console_error_value err w"
  by (auto simp: report_def truthy_iff split: option.splits)

section \<open>One iteration\<close>

text \<open>
  The body of the loop (lines 103--114): \<^verbatim>\<open>handlePrompt\<close> under \<^verbatim>\<open>try\<close>, the report
  under \<^verbatim>\<open>catch\<close>.  Both branches of the \<^verbatim>\<open>catch\<close> block fall through to the next
  iteration, so the body never throws.
\<close>

definition attempt :: "env \<Rightarrow> jsstring \<Rightarrow> OpenAiChat \<Rightarrow> world \<Rightarrow> OpenAiChat \<times> world" where
  "attempt e prompt c w =
     (case handlePrompt e prompt c w of
        (Inr _, c', w') \<Rightarrow> (c', w')
      | (Inl err, c', w') \<Rightarrow> (c', report err w'))"

lemma attempt_object [simp]:
  "fst (attempt e p c w) = fst (snd (handlePrompt e p c w))"
  by (simp add: attempt_def split: prod.splits sum.splits)

lemma attempt_world:
  "snd (attempt e p c w) =
     (case fst (handlePrompt e p c w) of
        Inr _ \<Rightarrow> snd (snd (handlePrompt e p c w))
      | Inl err \<Rightarrow> report err (snd (snd (handlePrompt e p c w))))"
  by (simp add: attempt_def split: prod.splits sum.splits)

lemma attempt_frame [simp, frame]:
  "stdin (snd (attempt e p c w)) = stdin w"
  "remote (snd (attempt e p c w)) = remote w"
  "write_error (snd (attempt e p c w)) = write_error w"
  by (simp_all add: attempt_world handlePrompt_world_frame split: sum.splits)

lemma attempt_Inr:
  "handlePrompt e p c w = (Inr u, c', w') \<Longrightarrow> attempt e p c w = (c', w')"
  by (simp add: attempt_def)

lemma attempt_Inl:
  "handlePrompt e p c w = (Inl err, c', w') \<Longrightarrow> attempt e p c w = (c', report err w')"
  by (simp add: attempt_def)

section \<open>The loop\<close>

datatype promise = Fulfilled | Rejected js_error | Pending_promise

type_synonym run = "promise \<times> OpenAiChat \<times> world"

function chat_loop :: "env \<Rightarrow> generator \<Rightarrow> OpenAiChat \<Rightarrow> world \<Rightarrow> run" where
  "chat_loop e g c w =
     (case next_prompt e g w of
        Done w' \<Rightarrow> (Fulfilled, c, w')
      | Pending w' \<Rightarrow> (Pending_promise, c, w')
      | Thrown err w' \<Rightarrow> (Rejected err, c, w')
      | Yield prompt g' w' \<Rightarrow>
          (case attempt e prompt c w' of (c', w'') \<Rightarrow> chat_loop e g' c' w''))"
  by pat_completeness auto

definition loop_measure :: "generator \<Rightarrow> world \<Rightarrow> nat" where
  "loop_measure g w = (case g of ArgStart \<Rightarrow> 1 | ArgDone \<Rightarrow> 0 | Readline \<Rightarrow> length (stdin w))"

lemma loop_measure_decreases:
  assumes "next_prompt e g w = Yield p g' w'"
  shows "loop_measure g' (snd (attempt e p c w')) < loop_measure g w"
  using next_prompt_Yield_stdin [OF assms] by (auto simp: loop_measure_def)

termination chat_loop
proof (relation "measure (\<lambda>(e, g, c, w). loop_measure g w)")
  show "wf (measure (\<lambda>(e, g, c, w). loop_measure g w))" by simp
next
  fix e g c w p g' w' c' w''
  assume "next_prompt e g w = Yield p g' w'" and "(c', w'') = attempt e p c w'"
  then show "((e, g', c', w''), e, g, c, w) \<in> measure (\<lambda>(e, g, c, w). loop_measure g w)"
    using loop_measure_decreases [of e g w p g' w' c]
    by (metis case_prod_conv in_measure snd_conv)
qed

declare chat_loop.simps [simp del]

definition welcome_line :: jsstring where
  "welcome_line = ascii ''Welcome! Let'' @ [0x27] @ ascii ''s chat.''"

definition chat :: "env \<Rightarrow> OpenAiChat \<Rightarrow> world \<Rightarrow> run" where
  "chat e c w = chat_loop e (start (promptSource c)) c (console_log welcome_line w)"

lemmas chat_loop_defs [js_eval] = report_def attempt_def

section \<open>Unfolding the loop\<close>

lemma chat_loop_ArgDone [simp]: "chat_loop e ArgDone c w = (Fulfilled, c, w)"
  by (subst chat_loop.simps) simp

lemma chat_loop_ArgStart:
  "chat_loop e ArgStart c w =
     (Fulfilled, fst (attempt e (arg_prompt e) c w), snd (attempt e (arg_prompt e) c w))"
  by (subst chat_loop.simps) (simp add: case_prod_beta del: attempt_object)

lemma chat_loop_Readline_Nil:
  "stdin w = [] \<Longrightarrow>
     chat_loop e Readline c w = (Pending_promise, c, emit (Question readline_query) w)"
  by (subst chat_loop.simps) (simp add: next_prompt.simps(3) question_Nil)

lemma chat_loop_Readline_Cons:
  "stdin w = p # ps \<Longrightarrow>
     chat_loop e Readline c w =
       (case attempt e p c (perform (Read p) (emit (Question readline_query) w)) of
          (c', w') \<Rightarrow> chat_loop e Readline c' w')"
  by (subst chat_loop.simps) (simp add: next_prompt.simps(3) question_Cons)

section \<open>The interactive loop as a fold over the input\<close>

definition ask_and_attempt :: "env \<Rightarrow> OpenAiChat \<times> world \<Rightarrow> jsstring \<Rightarrow> OpenAiChat \<times> world" where
  "ask_and_attempt e cw p =
     attempt e p (fst cw) (perform (Read p) (emit (Question readline_query) (snd cw)))"

lemma stdin_ask_and_attempt [simp]:
  "stdin (snd (ask_and_attempt e cw p)) = tl (stdin (snd cw))"
  by (simp add: ask_and_attempt_def)

text \<open>
  As long as there is input the loop goes on from the state that the fold
  over the input so far has reached.
\<close>

lemma chat_loop_Readline_prefix:
  "stdin w = ps @ rest \<Longrightarrow>
     chat_loop e Readline c w =
       chat_loop e Readline (fst (foldl (ask_and_attempt e) (c, w) ps))
         (snd (foldl (ask_and_attempt e) (c, w) ps))"
proof (induction ps arbitrary: c w)
  case Nil
  then show ?case by simp
next
  case (Cons p ps)
  let ?nxt = "attempt e p c (perform (Read p) (emit (Question readline_query) w))"
  from Cons.prems have nxt: "?nxt = ask_and_attempt e (c, w) p"
    by (simp add: ask_and_attempt_def)
  from Cons.prems have "stdin (snd ?nxt) = ps @ rest" by simp
  from Cons.IH [OF this, of "fst ?nxt"] Cons.prems show ?case
    by (simp add: chat_loop_Readline_Cons [of _ p "ps @ rest"] nxt case_prod_beta
        del: attempt_object)
qed

lemma foldl_ask_and_attempt_stdin:
  "stdin (snd (foldl (ask_and_attempt e) cw ps)) = drop (length ps) (stdin (snd cw))"
  by (induction ps arbitrary: cw) (simp_all add: drop_Suc drop_tl)

lemma chat_loop_Readline_foldl:
  "stdin w = ps \<Longrightarrow>
     chat_loop e Readline c w =
       (Pending_promise, fst (foldl (ask_and_attempt e) (c, w) ps),
        emit (Question readline_query) (snd (foldl (ask_and_attempt e) (c, w) ps)))"
  using chat_loop_Readline_prefix [of w ps "[]" e c]
  by (simp add: chat_loop_Readline_Nil foldl_ask_and_attempt_stdin)

section \<open>Invariants of the loop\<close>

lemma next_prompt_world:
  "next_prompt e g w = Yield p g' w' \<or> next_prompt e g w = Done w' \<or> next_prompt e g w = Pending w'
     \<Longrightarrow> w' = w \<or> w' = snd (question readline_query w)"
  by (cases g) (auto simp: next_prompt.simps(3) split: prod.splits option.splits)

text \<open>
  A property of object and world that every iteration body keeps, and that
  asking for a line keeps, holds when the loop ends.
\<close>

lemma chat_loop_invariant2:
  "(\<And>p c w. P c w \<Longrightarrow> P (fst (attempt e p c w)) (snd (attempt e p c w))) \<Longrightarrow>
   (\<And>c w. P c w \<Longrightarrow> P c (snd (question readline_query w))) \<Longrightarrow>
   P c w \<Longrightarrow>
     P (fst (snd (chat_loop e g c w))) (snd (snd (chat_loop e g c w)))"
proof (induction e g c w rule: chat_loop.induct)
  case (1 e g c w)
  note body = "1.prems"(1) and ask = "1.prems"(2) and start = "1.prems"(3)
  show ?case
  proof (cases "next_prompt e g w")
    case (Yield p g' w')
    with next_prompt_world [of e g w p g' w'] start ask have "P c w'" by auto
    then have "P (fst (attempt e p c w')) (snd (attempt e p c w'))" by (rule body)
    with "1.IH" [OF Yield, of "fst (attempt e p c w')" "snd (attempt e p c w')"] body ask Yield
    show ?thesis
      by (subst (1 2) chat_loop.simps) (simp add: case_prod_beta del: attempt_object)
  next
    case (Done w')
    with next_prompt_world [of e g w _ _ w'] start ask have "P c w'" by auto
    with Done show ?thesis by (subst (1 2) chat_loop.simps) simp
  next
    case (Pending w')
    with next_prompt_world [of e g w _ _ w'] start ask have "P c w'" by auto
    with Pending show ?thesis by (subst (1 2) chat_loop.simps) simp
  qed simp
qed

lemma chat_loop_invariant:
  assumes "\<And>p c w. P c \<Longrightarrow> P (fst (snd (handlePrompt e p c w)))" and "P c"
  shows "P (fst (snd (chat_loop e g c w)))"
  using chat_loop_invariant2 [where P = "\<lambda>c w. P c" and e = e and c = c] assms
  by simp

lemma chat_loop_promise:
  "fst (chat_loop e g c w) = (if g = Readline then Pending_promise else Fulfilled)"
proof (cases g)
  case Readline
  then show ?thesis by (simp add: chat_loop_Readline_foldl)
qed (simp_all add: chat_loop_ArgStart)

lemma report_counts:
  "queries (report err w) = queries w"
  "error_lines (report err w) = Suc (error_lines w)"
  by (simp_all add: report_def split: option.splits)

lemma attempt_queries [simp]: "queries (snd (attempt e p c w)) = queries w"
  using logs_only_counts(1) [OF handlePrompt_logs_only [of w e p c]]
  by (auto simp: attempt_def report_counts split: prod.splits sum.splits)

lemma foldl_ask_and_attempt_queries:
  "queries (snd (foldl (ask_and_attempt e) cw ps)) = queries (snd cw) + length ps"
  by (induction ps arbitrary: cw) (simp_all add: ask_and_attempt_def)

lemma attempt_files [simp]:
  "files (snd (attempt e p c w)) = files (snd (snd (handlePrompt e p c w)))"
  by (simp add: attempt_world split: sum.splits)

lemma chat_loop_config:
  "model (fst (snd (chat_loop e g c w))) = model c"
  "openaiApiKey (fst (snd (chat_loop e g c w))) = openaiApiKey c"
  "openai (fst (snd (chat_loop e g c w))) = openai c"
  "promptSource (fst (snd (chat_loop e g c w))) = promptSource c"
proof -
  let ?P = "\<lambda>c'. model c' = model c \<and> openaiApiKey c' = openaiApiKey c
    \<and> openai c' = openai c \<and> promptSource c' = promptSource c"
  have "?P (fst (snd (chat_loop e g c w)))"
    by (rule chat_loop_invariant [where P = ?P]) (simp_all add: handlePrompt_config)
  then show "model (fst (snd (chat_loop e g c w))) = model c"
    "openaiApiKey (fst (snd (chat_loop e g c w))) = openaiApiKey c"
    "openai (fst (snd (chat_loop e g c w))) = openai c"
    "promptSource (fst (snd (chat_loop e g c w))) = promptSource c"
    by simp_all
qed

section \<open>Properties of the loop\<close>

text \<open>C7. In argument mode the loop handles exactly one prompt, the joined and
  trimmed arguments, reports its error if it throws one, and then the promise
  of \<^verbatim>\<open>chat()\<close> is fulfilled.\<close>

theorem chat_argument_once:
  assumes "promptSource c = promptFromArg"
  shows "chat e c w =
     (Fulfilled, fst (attempt e (arg_prompt e) c (console_log welcome_line w)),
      snd (attempt e (arg_prompt e) c (console_log welcome_line w)))"
  using assms by (simp add: chat_def chat_loop_ArgStart del: attempt_object)

theorem chat_argument_once_witness:
  "chat (demo_env\<lparr>argv := [ascii ''node'', ascii ''index.js'', ascii ''hello'']\<rparr>)
     (demo_chat\<lparr>promptSource := promptFromArg\<rparr>) demo_world =
     (Fulfilled,
      demo_chat\<lparr>promptSource := promptFromArg,
        messages := [userMessage (ascii ''hello''), demo_answer]\<rparr>,
      demo_world\<lparr>console := [Log welcome_line, Log (ascii ''hi'')],
        requests := [(ascii ''sk-demo'', \<lparr>req_model = ascii ''gpt-3.5-turbo'',
          req_messages = [userMessage (ascii ''hello'')]\<rparr>)],
        trace := [Print (Log welcome_line),
          Send (ascii ''sk-demo'', \<lparr>req_model = ascii ''gpt-3.5-turbo'',
            req_messages = [userMessage (ascii ''hello'')]\<rparr>),
          Receive (Completion [demo_answer]), Print (Log (ascii ''hi''))]\<rparr>)"
  using chat_argument_once
    [of "demo_chat\<lparr>promptSource := promptFromArg\<rparr>"
        "demo_env\<lparr>argv := [ascii ''node'', ascii ''index.js'', ascii ''hello'']\<rparr>" demo_world]
  by (simp add: js_eval demo_chat_def userMessage_def)

text \<open>C6. In interactive mode the loop is the left fold of its body over the
  lines of standard input, each preceded by the query \<^verbatim>\<open>> \<close>: every line is
  handled, in order, whether or not an earlier one failed; after the last
  line the loop asks once more and the promise of \<^verbatim>\<open>chat()\<close> stays pending.\<close>

theorem chat_interactive_fold:
  assumes "promptSource c = promptFromReadline"
  shows "chat e c w =
     (Pending_promise,
      fst (foldl (ask_and_attempt e) (c, console_log welcome_line w) (stdin w)),
      emit (Question readline_query)
        (snd (foldl (ask_and_attempt e) (c, console_log welcome_line w) (stdin w))))"
proof -
  let ?cw = "foldl (ask_and_attempt e) (c, console_log welcome_line w) (stdin w)"
  have "chat e c w = chat_loop e Readline (fst ?cw) (snd ?cw)"
    using assms chat_loop_Readline_prefix [of "console_log welcome_line w" "stdin w" "[]" e c]
    by (simp add: chat_def)
  moreover have "stdin (snd ?cw) = []"
    by (simp add: foldl_ask_and_attempt_stdin)
  ultimately show ?thesis
    by (subst (asm) chat_loop.simps) (simp add: next_prompt.simps(3) question_def Let_def)
qed

theorem chat_interactive_fold_witness:
  "chat demo_env demo_chat (failing_world\<lparr>stdin := [ascii ''hello'', ascii ''reset'']\<rparr>) =
     (Pending_promise, demo_chat,
      failing_world\<lparr>console :=
         [Log welcome_line, Question readline_query,
          ErrorText (ascii ''Error 429 Too Many Requests: rate limited''),
          Question readline_query, Log (ascii ''Chat history has been reset.''),
          Question readline_query],
        requests := [(ascii ''sk-demo'', \<lparr>req_model = ascii ''gpt-3.5-turbo'',
          req_messages = [userMessage (ascii ''hello'')]\<rparr>)],
        trace :=
         [Print (Log welcome_line),
          Print (Question readline_query), Read (ascii ''hello''),
          Send (ascii ''sk-demo'', \<lparr>req_model = ascii ''gpt-3.5-turbo'',
            req_messages = [userMessage (ascii ''hello'')]\<rparr>),
          Receive (Failure rate_limited),
          Print (ErrorText (ascii ''Error 429 Too Many Requests: rate limited'')),
          Print (Question readline_query), Read (ascii ''reset''),
          Print (Log (ascii ''Chat history has been reset.'')),
          Print (Question readline_query)]\<rparr>)"
  using chat_interactive_fold
    [of demo_chat demo_env "failing_world\<lparr>stdin := [ascii ''hello'', ascii ''reset'']\<rparr>"]
  by (simp add: js_eval js_string_rec demo_chat_def userMessage_def ask_and_attempt_def)

text \<open>The promise of \<^verbatim>\<open>chat()\<close> is never rejected: no error of a prompt
  escapes the loop.  It is fulfilled exactly in argument mode and pending
  exactly in interactive mode.\<close>

lemma chat_never_rejects:
  "fst (chat e c w) \<noteq> Rejected err
   \<and> (fst (chat e c w) = Fulfilled \<longleftrightarrow> promptSource c = promptFromArg)
   \<and> (fst (chat e c w) = Pending_promise \<longleftrightarrow> promptSource c = promptFromReadline)"
  by (cases "promptSource c") (simp_all add: chat_def chat_loop_promise)

text \<open>C33. The empty prompt never reaches the service: \<^verbatim>\<open>handlePrompt\<close> throws
  the error \<^verbatim>\<open>Invalid prompt .\<close> and leaves object and world as they were, with
  no effect recorded; the loop reports the error value on the error stream
  and goes on with the object unchanged.\<close>

theorem empty_prompt_rejected:
  "handlePrompt e [] c w = (Inl (Error (ascii ''Invalid prompt .'')), c, w)
   \<and> attempt e [] c w = (c, console_error_value (Error (ascii ''Invalid prompt .'')) w)"
  by (simp add: handlePrompt_def attempt_def report_def)

text \<open>C31. A structured error of the service (a response whose body carries a
  non-empty error message) is reported as the single line
  \<^verbatim>\<open>Error <status> <statusText>: <message>\<close> on the error stream.\<close>

theorem report_structured_error:
  assumes "response err = Some res" and "data_error_message res = Some msg" and "msg \<noteq> []"
  shows "report err w =
     console_error (ascii ''Error '' @ toString (status res) @ ascii '' '' @ statusText res
       @ ascii '': '' @ msg) w"
  using assms by (rule report_structured)

theorem report_structured_error_witness:
  "report rate_limited demo_world =
     console_error (ascii ''Error 429 Too Many Requests: rate limited'') demo_world"
  using report_structured_error [of rate_limited
      "\<lparr>status = 429, statusText = ascii ''Too Many Requests'',
        data_error_message = Some (ascii ''rate limited'')\<rparr>" "ascii ''rate limited''" demo_world]
  by (simp add: rate_limited_def js_string_rec digit_def)

text \<open>The loop, however many prompts it handles and however they end,
  leaves the configuration of the object alone: model, credential, client
  and prompt source.\<close>

lemma chat_keeps_configuration:
  "model (fst (snd (chat e c w))) = model c
   \<and> openaiApiKey (fst (snd (chat e c w))) = openaiApiKey c
   \<and> openai (fst (snd (chat e c w))) = openai c
   \<and> promptSource (fst (snd (chat e c w))) = promptSource c"
  by (simp add: chat_def chat_loop_config)

text \<open>C32. Every prompt that fails is reported exactly once: the loop body
  writes one line to the error stream when \<^verbatim>\<open>handlePrompt\<close> throws, and none
  when it returns.\<close>

theorem attempt_reports_once:
  "error_lines (snd (attempt e p c w)) =
     (if isl (fst (handlePrompt e p c w)) then Suc (error_lines w) else error_lines w)"
  using logs_only_counts(2) [OF handlePrompt_logs_only [of w e p c]]
  by (auto simp: attempt_def report_counts split: prod.splits sum.splits)

text \<open>C30. Progress in interactive mode: the loop reads every line of standard
  input, none is left when it stops, and it has asked for a line once per
  line read and once more for the line it is waiting for.\<close>

theorem chat_consumes_input:
  assumes "promptSource c = promptFromReadline"
  shows "stdin (snd (snd (chat e c w))) = []
    \<and> queries (snd (snd (chat e c w))) = queries w + length (stdin w) + 1"
  using assms
  by (simp add: chat_def chat_loop_Readline_foldl foldl_ask_and_attempt_stdin
      foldl_ask_and_attempt_queries)

theorem chat_consumes_input_witness:
  "stdin (snd (snd (chat demo_env demo_chat
       (failing_world\<lparr>stdin := [ascii ''hello'', ascii ''reset'']\<rparr>)))) = []
   \<and> queries (snd (snd (chat demo_env demo_chat
       (failing_world\<lparr>stdin := [ascii ''hello'', ascii ''reset'']\<rparr>)))) = 3"
  using chat_consumes_input
    [of demo_chat demo_env "failing_world\<lparr>stdin := [ascii ''hello'', ascii ''reset'']\<rparr>"]
  by (simp add: demo_chat_def constructor_def initialize_def demo_defs queries_def)

end
