(* ===== verification/Main_Program.thy ===== *)
theory Main_Program
  imports Chat_Loop
begin

text \<open>
  The top level of \<^verbatim>\<open>src/index.js\<close>: the check of the credential (lines
  11--16), the choice of the prompt source (lines 130--132), the construction
  and initialisation of the chat object (lines 134--140) and the handlers on
  the promise of \<^verbatim>\<open>chat()\<close> (lines 142--148).  The result of \<open>main\<close> is the
  argument of the \<^verbatim>\<open>process.exit\<close> call the program makes, or \<open>None\<close> when it
  makes none because it waits for input.
\<close>

section \<open>Definitions\<close>

definition missing_key_line :: jsstring where
  "missing_key_line = ascii ''Error: OPENAI_API_KEY environment variable is not set.''"

definition select_promptSource :: "env \<Rightarrow> prompt_source" where
  "select_promptSource e = (if 2 < length (argv e) then promptFromArg else promptFromReadline)"

definition settle :: "run \<Rightarrow> nat option \<times> world" where
  "settle r =
     (case r of
        (Fulfilled, c, w) \<Rightarrow> (Some 0, w)
      | (Rejected err, c, w) \<Rightarrow> (Some 1, console_error_value err w)
      | (Pending_promise, c, w) \<Rightarrow> (None, w))"

definition new_chat :: "env \<Rightarrow> jsstring \<Rightarrow> OpenAiChat" where
  "new_chat e key =
     initialize (constructor (CHAT_OPENAI_MODEL e) (select_promptSource e) key)"

definition main :: "env \<Rightarrow> world \<Rightarrow> nat option \<times> world" where
  "main e w =
     (case OPENAI_API_KEY e of
        None \<Rightarrow> (Some 1, console_error missing_key_line w)
      | Some key \<Rightarrow>
          if key = [] then (Some 1, console_error missing_key_line w)
          else settle (chat e (new_chat e key) w))"

text \<open>
  The prompts that a run handles: none without a credential, the one prompt
  of the arguments, or the lines of standard input.
\<close>

definition prompts_of :: "env \<Rightarrow> world \<Rightarrow> jsstring list" where
  "prompts_of e w =
     (if \<not> truthy (OPENAI_API_KEY e) then []
      else case select_promptSource e of
        promptFromArg \<Rightarrow> [arg_prompt e]
      | promptFromReadline \<Rightarrow> stdin w)"

lemmas main_defs [js_eval] =
  missing_key_line_def select_promptSource_def settle_def new_chat_def main_def

section \<open>The object that main builds\<close>

lemma new_chat_sel [simp]:
  "messages (new_chat e k) = []"
  "model (new_chat e k) = or_else (CHAT_OPENAI_MODEL e) CHAT_DEFAULT_MODEL"
  "openaiApiKey (new_chat e k) = k"
  "promptSource (new_chat e k) = select_promptSource e"
  "initialized (new_chat e k)"
  by (simp_all add: new_chat_def)

lemma main_no_key:
  "\<not> truthy (OPENAI_API_KEY e) \<Longrightarrow> main e w = (Some 1, console_error missing_key_line w)"
  by (auto simp: main_def truthy_iff split: option.splits)

lemma main_key:
  "OPENAI_API_KEY e = Some k \<Longrightarrow> k \<noteq> [] \<Longrightarrow> main e w = settle (chat e (new_chat e k) w)"
  by (simp add: main_def)

lemma main_world:
  assumes "OPENAI_API_KEY e = Some k" and "k \<noteq> []"
  shows "snd (main e w) = snd (snd (chat e (new_chat e k) w))"
proof -
  have "fst (chat e (new_chat e k) w) \<in> {Fulfilled, Pending_promise}"
    by (simp add: chat_def chat_loop_promise)
  with assms show ?thesis
    by (cases "chat e (new_chat e k) w") (auto simp: main_key settle_def)
qed

lemma main_exit:
  "fst (main e w) =
     (if \<not> truthy (OPENAI_API_KEY e) then Some 1
      else if 2 < length (argv e) then Some 0 else None)"
proof (cases "truthy (OPENAI_API_KEY e)")
  case False
  then show ?thesis by (simp add: main_no_key)
next
  case True
  then obtain k where k: "OPENAI_API_KEY e = Some k" "k \<noteq> []"
    by (auto simp: truthy_iff)
  have "fst (chat e (new_chat e k) w)
      = (if 2 < length (argv e) then Fulfilled else Pending_promise)"
    by (simp add: chat_def chat_loop_promise select_promptSource_def)
  with k show ?thesis
    by (cases "chat e (new_chat e k) w") (auto simp: main_key settle_def)
qed

section \<open>Properties of the program\<close>

text \<open>C10. Without a credential (the variable \<^verbatim>\<open>OPENAI_API_KEY\<close> unset or empty)
  the program prints the diagnostic on the error stream and exits with code 1
  before anything else happens: no welcome line, no prompt, no request.\<close>

theorem main_missing_credential:
  assumes "\<not> truthy (OPENAI_API_KEY e)"
  shows "main e w = (Some 1, console_error missing_key_line w)"
  using assms by (auto simp: main_def truthy_iff split: option.splits)

theorem main_missing_credential_witness:
  "main (demo_env\<lparr>OPENAI_API_KEY := Some []\<rparr>) demo_world =
     (Some 1, demo_world\<lparr>console :=
        [ErrorText (ascii ''Error: OPENAI_API_KEY environment variable is not set.'')],
        trace :=
        [Print (ErrorText (ascii ''Error: OPENAI_API_KEY environment variable is not set.''))]\<rparr>)"
  using main_missing_credential [of "demo_env\<lparr>OPENAI_API_KEY := Some []\<rparr>" demo_world]
  by (simp add: demo_env_def demo_world_def emit_def perform_def missing_key_line_def)

text \<open>C9. Started with a credential and at least one argument, the program
  prints the welcome line, handles exactly one prompt (the arguments joined
  with single spaces and trimmed) with a freshly built, initialised chat
  object, and exits with code 0, also when that prompt failed.\<close>

theorem main_argument_mode:
  assumes "OPENAI_API_KEY e = Some k" and "k \<noteq> []" and "2 < length (argv e)"
  shows "main e w =
     (Some 0, snd (attempt e (arg_prompt e) (new_chat e k) (console_log welcome_line w)))"
  using assms
  by (simp add: main_key chat_def chat_loop_ArgStart settle_def select_promptSource_def)

theorem main_argument_mode_witness:
  "main (demo_env\<lparr>argv := [ascii ''node'', ascii ''index.js'',
       ascii ''what'', ascii ''is'', ascii ''2+2'']\<rparr>) demo_world =
     (Some 0,
      demo_world\<lparr>console := [Log welcome_line, Log (ascii ''hi'')],
        requests := [(ascii ''sk-demo'', \<lparr>req_model = ascii ''gpt-3.5-turbo'',
          req_messages = [userMessage (ascii ''what is 2+2'')]\<rparr>)],
        trace := [Print (Log welcome_line),
          Send (ascii ''sk-demo'', \<lparr>req_model = ascii ''gpt-3.5-turbo'',
            req_messages = [userMessage (ascii ''what is 2+2'')]\<rparr>),
          Receive (Completion [demo_answer]), Print (Log (ascii ''hi''))]\<rparr>)"
  using main_argument_mode
    [of "demo_env\<lparr>argv := [ascii ''node'', ascii ''index.js'',
       ascii ''what'', ascii ''is'', ascii ''2+2'']\<rparr>" "ascii ''sk-demo''" demo_world]
  by (simp add: js_eval userMessage_def)

text \<open>
  At the boundary, arguments that are blank give the empty prompt: it is
  rejected and reported, and the program still exits with code 0.
\<close>

lemma main_blank_argument:
  "main (demo_env\<lparr>argv := [ascii ''node'', ascii ''index.js'', ascii ''  '']\<rparr>) demo_world =
     (Some 0,
      demo_world\<lparr>console := [Log welcome_line, ErrorValue (Error (ascii ''Invalid prompt .''))],
        trace := [Print (Log welcome_line),
          Print (ErrorValue (Error (ascii ''Invalid prompt .'')))]\<rparr>)"
  by (simp add: main_key chat_def chat_loop_ArgStart js_eval js_string_rec)

text \<open>C8. Started with a credential and no argument, the program never calls
  \<^verbatim>\<open>process.exit\<close>: it prints the welcome line, handles every line of standard
  input in order with one chat object, and is left waiting at a last query.\<close>

theorem main_interactive_mode:
  assumes "OPENAI_API_KEY e = Some k" and "k \<noteq> []" and "length (argv e) \<le> 2"
  shows "main e w =
     (None, emit (Question readline_query)
        (snd (foldl (ask_and_attempt e) (new_chat e k, console_log welcome_line w) (stdin w))))"
  using assms
  by (simp add: main_key chat_def chat_loop_Readline_foldl settle_def select_promptSource_def)

theorem main_interactive_mode_witness:
  "main demo_env
     (demo_world\<lparr>stdin := [ascii ''hello'', ascii ''reset'', ascii ''save to out.txt'']\<rparr>) =
     (None,
      demo_world\<lparr>console :=
         [Log welcome_line, Question readline_query, Log (ascii ''hi''),
          Question readline_query, Log (ascii ''Chat history has been reset.''),
          Question readline_query, Log (ascii ''Chat saved to out.txt''),
          Question readline_query],
        requests := [(ascii ''sk-demo'', \<lparr>req_model = ascii ''gpt-3.5-turbo'',
          req_messages = [userMessage (ascii ''hello'')]\<rparr>)],
        files := [ascii ''out.txt'' \<mapsto> []],
        trace :=
         [Print (Log welcome_line),
          Print (Question readline_query), Read (ascii ''hello''),
          Send (ascii ''sk-demo'', \<lparr>req_model = ascii ''gpt-3.5-turbo'',
            req_messages = [userMessage (ascii ''hello'')]\<rparr>),
          Receive (Completion [demo_answer]), Print (Log (ascii ''hi'')),
          Print (Question readline_query), Read (ascii ''reset''),
          Print (Log (ascii ''Chat history has been reset.'')),
          Print (Question readline_query), Read (ascii ''save to out.txt''),
          Write (ascii ''out.txt'') [],
          Print (Log (ascii ''Chat saved to out.txt'')),
          Print (Question readline_query)]\<rparr>)"
  using main_interactive_mode [of demo_env "ascii ''sk-demo''"
      "demo_world\<lparr>stdin := [ascii ''hello'', ascii ''reset'', ascii ''save to out.txt'']\<rparr>"]
  by (simp add: js_eval userMessage_def ask_and_attempt_def)

end
