(* ===== verification/Chat_Spec.thy ===== *)
theory Chat_Spec
  imports Main_Program
begin

text \<open>
  The abstract view of a chat session (\<^verbatim>\<open>spec.md\<close>, sections 3 and 4.1) and its
  relation to the code.  Abstractly a session is its history, a list of
  messages, and a prompt is a step on histories: \<open>spec_step\<close> gives the step as
  a function of the kind of prompt and of what the call to the service
  returned; \<open>session_step\<close> is the step relation when neither is known.  The
  theory shows that \<^verbatim>\<open>handlePrompt\<close> implements \<open>spec_step\<close>, that every history
  the program builds is reachable by \<open>session_step\<close> from the empty history, and
  the invariants of reachable histories: every message that is not a user
  message directly follows a user message (\<open>well_formed\<close>), and, as long as
  every call is answered by a message that is not a user message, user
  messages and answers alternate (\<open>alternating\<close>).
\<close>

section \<open>Histories\<close>

definition is_user :: "message \<Rightarrow> bool" where
  "is_user m \<longleftrightarrow> role m = ascii ''user''"

fun dialogue :: "bool \<Rightarrow> message list \<Rightarrow> bool" where
  "dialogue prev [] = True"
| "dialogue prev (m # ms) = ((is_user m \<or> prev) \<and> dialogue (is_user m) ms)"

definition well_formed :: "message list \<Rightarrow> bool" where
  "well_formed h = dialogue False h"

fun alternating :: "message list \<Rightarrow> bool" where
  "alternating [] = True"
| "alternating [m] = False"
| "alternating (u # a # h) = (is_user u \<and> \<not> is_user a \<and> alternating h)"

lemma is_user_userMessage [simp]: "is_user (userMessage p)"
  by (simp add: is_user_def)

lemma msgSourceIndicator_is_user:
  "msgSourceIndicator m = (if is_user m then ascii ''>> '' else ascii ''<< '')"
  by (simp add: msgSourceIndicator_def is_user_def)

lemma dialogue_append:
  "dialogue prev (xs @ ys) =
     (dialogue prev xs \<and> dialogue (if xs = [] then prev else is_user (last xs)) ys)"
  by (induction xs arbitrary: prev) auto

lemma dialogue_mono: "dialogue False h \<Longrightarrow> dialogue prev h"
  by (cases h) auto

lemma well_formed_Nil [simp]: "well_formed []"
  by (simp add: well_formed_def)

lemma well_formed_push [simp]:
  "well_formed (h @ [userMessage p]) = well_formed h"
  by (simp add: well_formed_def dialogue_append)

lemma well_formed_exchange [simp]:
  "well_formed (h @ [userMessage p, a]) = well_formed h"
  by (simp add: well_formed_def dialogue_append)

lemma alternating_append:
  "alternating xs \<Longrightarrow> alternating (xs @ ys) = alternating ys"
  by (induction xs rule: alternating.induct) simp_all

lemma alternating_well_formed: "alternating h \<Longrightarrow> well_formed h"
  unfolding well_formed_def
  by (induction h rule: alternating.induct) (auto intro: dialogue_mono)

lemma alternating_even: "alternating h \<Longrightarrow> even (length h)"
  by (induction h rule: alternating.induct) simp_all

section \<open>The specification of one prompt\<close>

fun spec_step :: "command \<Rightarrow> js_error + message \<Rightarrow> message list \<Rightarrow> message list" where
  "spec_step Invalid r h = h"
| "spec_step (SaveTo f) r h = h"
| "spec_step Reset r h = []"
| "spec_step (Say t) (Inl err) h = h @ [userMessage t]"
| "spec_step (Say t) (Inr a) h = h @ [userMessage t, a]"

inductive session_step :: "message list \<Rightarrow> message list \<Rightarrow> bool" where
  answered: "session_step h (h @ [userMessage p, a])"
| unanswered: "session_step h (h @ [userMessage p])"
| cleared: "session_step h []"
| unchanged: "session_step h h"

inductive reachable :: "message list \<Rightarrow> bool" where
  initial: "reachable []"
| step: "reachable h \<Longrightarrow> session_step h h' \<Longrightarrow> reachable h'"

code_pred session_step .

code_pred reachable .

inductive_cases session_step_NilE: "session_step [] h"

lemma spec_step_session_step: "session_step h (spec_step cmd r h)"
  by (cases "(cmd, r, h)" rule: spec_step.cases) (auto intro: session_step.intros)

lemma session_step_well_formed: "session_step h h' \<Longrightarrow> well_formed h \<Longrightarrow> well_formed h'"
  by (induction rule: session_step.induct) simp_all

lemma reachable_well_formed: "reachable h \<Longrightarrow> well_formed h"
  by (induction rule: reachable.induct) (auto intro: session_step_well_formed)

lemma session_step_length: "session_step h h' \<Longrightarrow> length h' \<le> length h + 2"
  by (induction rule: session_step.induct) simp_all

section \<open>handlePrompt implements the specification\<close>

lemma handlePrompt_spec_step:
  assumes "initialized c"
  shows "messages (fst (snd (handlePrompt e p c w))) =
     spec_step (classify p) (reply_of (remote w (requests w @ [outgoing (pushed c p)])))
       (messages c)"
proof (cases "classify p")
  case (Say t)
  then have "t = p" by (simp add: classify_Say_iff)
  with Say assms show ?thesis
    by (cases "reply_of (remote w (requests w @ [outgoing (pushed c p)]))")
       (simp_all add: handlePrompt_classify send_message_reply Let_def)
next
  case (SaveTo f)
  then show ?thesis by (simp add: handlePrompt_object)
qed (simp_all add: handlePrompt_object del: classify_Invalid_iff)

text \<open>
  Every call of \<^verbatim>\<open>handlePrompt\<close>, on any object and with any outcome, is a step
  of the abstract session: the history is extended by a user message and an
  answer, extended by a user message alone, emptied, or left as it was.
\<close>

lemma handlePrompt_session_step:
  "session_step (messages c) (messages (fst (snd (handlePrompt e p c w))))"
proof (cases "classify p")
  case (Say t)
  with handlePrompt_messages [where p = p and e = e and c = c and w = w] obtain rest where
    rest: "messages (fst (snd (handlePrompt e p c w))) = messages c @ userMessage t # rest"
      "length rest \<le> 1"
    by auto
  show ?thesis
  proof (cases rest)
    case Nil
    with rest show ?thesis by (simp add: session_step.unanswered)
  next
    case (Cons a rest')
    with rest have "rest = [a]" by simp
    with rest show ?thesis by (simp add: session_step.answered)
  qed
next
  case Reset
  with handlePrompt_messages [where p = p and e = e and c = c and w = w] show ?thesis
    by (simp add: session_step.cleared)
next
  case Invalid
  with handlePrompt_messages [where p = p and e = e and c = c and w = w] show ?thesis
    by (simp add: session_step.unchanged del: classify_Invalid_iff)
next
  case (SaveTo f)
  with handlePrompt_messages [where p = p and e = e and c = c and w = w] show ?thesis
    by (simp add: session_step.unchanged)
qed

lemma handlePrompt_reachable:
  "reachable (messages c) \<Longrightarrow> reachable (messages (fst (snd (handlePrompt e p c w))))"
  by (erule reachable.step) (rule handlePrompt_session_step)

lemma chat_loop_reachable:
  "reachable (messages c) \<Longrightarrow> reachable (messages (fst (snd (chat_loop e g c w))))"
  by (rule chat_loop_invariant [where P = "\<lambda>c. reachable (messages c)"])
     (simp_all add: handlePrompt_reachable)

section \<open>What every request looks like\<close>

definition request_ok :: "jsstring \<Rightarrow> jsstring \<Rightarrow> sent \<Rightarrow> bool" where
  "request_ok k m s \<longleftrightarrow>
     fst s = k \<and> req_model (snd s) = m \<and> well_formed (req_messages (snd s))
     \<and> req_messages (snd s) \<noteq> [] \<and> is_user (last (req_messages (snd s)))"

definition session_inv :: "jsstring \<Rightarrow> jsstring \<Rightarrow> OpenAiChat \<Rightarrow> world \<Rightarrow> bool" where
  "session_inv k m c w \<longleftrightarrow>
     initialized c \<and> openaiApiKey c = k \<and> model c = m \<and> well_formed (messages c)
     \<and> list_all (request_ok k m) (requests w)"

lemma handlePrompt_well_formed:
  "well_formed (messages c) \<Longrightarrow> well_formed (messages (fst (snd (handlePrompt e p c w))))"
  using handlePrompt_session_step by (rule session_step_well_formed)

lemma handlePrompt_requests_ok:
  assumes "session_inv k m c w"
  shows "list_all (request_ok k m) (requests (snd (snd (handlePrompt e p c w))))"
proof (cases "classify p")
  case (Say t)
  with assms show ?thesis
    by (simp add: handlePrompt_requests send_message_requests session_inv_def initialized_def
        request_ok_def)
qed (use assms in \<open>simp_all add: handlePrompt_requests session_inv_def del: classify_Invalid_iff\<close>)

lemma handlePrompt_session_inv:
  assumes "session_inv k m c w"
  shows "session_inv k m (fst (snd (handlePrompt e p c w))) (snd (snd (handlePrompt e p c w)))"
  using handlePrompt_requests_ok [OF assms, of e p] assms
  by (simp add: session_inv_def handlePrompt_config handlePrompt_well_formed)

lemma attempt_session_inv:
  assumes "session_inv k m c w"
  shows "session_inv k m (fst (attempt e p c w)) (snd (attempt e p c w))"
  using handlePrompt_session_inv [OF assms, of e p]
  by (simp add: session_inv_def attempt_world split: sum.splits)

lemma question_session_inv:
  "session_inv k m c w \<Longrightarrow> session_inv k m c (snd (question q w))"
  by (simp add: session_inv_def question_frame)

lemma chat_session_inv:
  assumes "session_inv k m c w"
  shows "session_inv k m (fst (snd (chat e c w))) (snd (snd (chat e c w)))"
  unfolding chat_def
proof (rule chat_loop_invariant2 [where P = "session_inv k m"])
  from assms show "session_inv k m c (console_log welcome_line w)"
    by (simp add: session_inv_def)
qed (simp_all add: attempt_session_inv question_session_inv del: attempt_object)

section \<open>Alternation while the service answers\<close>

definition answering :: "world \<Rightarrow> bool" where
  "answering w \<longleftrightarrow> (\<forall>reqs. \<exists>a rest. remote w reqs = Completion (a # rest) \<and> \<not> is_user a)"

definition normal_inv :: "OpenAiChat \<Rightarrow> world \<Rightarrow> bool" where
  "normal_inv c w \<longleftrightarrow> initialized c \<and> alternating (messages c) \<and> answering w"

lemma answering_remote: "remote w' = remote w \<Longrightarrow> answering w' = answering w"
  by (simp add: answering_def)

lemma handlePrompt_alternating:
  assumes "normal_inv c w"
  shows "alternating (messages (fst (snd (handlePrompt e p c w))))"
proof -
  from assms have init: "initialized c" and alt: "alternating (messages c)"
    by (simp_all add: normal_inv_def)
  from assms obtain a rest where
    reply: "remote w (requests w @ [outgoing (pushed c p)]) = Completion (a # rest)"
    and a: "\<not> is_user a"
    unfolding normal_inv_def answering_def by blast
  show ?thesis
  proof (cases "classify p")
    case (Say t)
    then have "t = p" by (simp add: classify_Say_iff)
    with Say reply a alt show ?thesis
      by (simp add: handlePrompt_spec_step [OF init] alternating_append)
  next
    case Reset
    then show ?thesis by (simp add: handlePrompt_spec_step [OF init])
  next
    case Invalid
    with alt show ?thesis
      by (simp add: handlePrompt_spec_step [OF init] del: classify_Invalid_iff)
  next
    case (SaveTo f)
    with alt show ?thesis by (simp add: handlePrompt_spec_step [OF init])
  qed
qed

lemma attempt_normal_inv:
  assumes "normal_inv c w"
  shows "normal_inv (fst (attempt e p c w)) (snd (attempt e p c w))"
proof -
  have "answering (snd (attempt e p c w)) = answering w"
    by (rule answering_remote) simp
  with assms handlePrompt_alternating [OF assms, of e p] show ?thesis
    by (simp add: normal_inv_def handlePrompt_config)
qed

lemma chat_normal_inv:
  assumes "normal_inv c w"
  shows "normal_inv (fst (snd (chat e c w))) (snd (snd (chat e c w)))"
  unfolding chat_def
proof (rule chat_loop_invariant2 [where P = normal_inv])
  have "answering (console_log welcome_line w) = answering w"
    by (rule answering_remote) simp
  with assms show "normal_inv c (console_log welcome_line w)"
    by (simp add: normal_inv_def)
next
  fix c w
  assume inv: "normal_inv c w"
  have "answering (snd (question readline_query w)) = answering w"
    by (rule answering_remote) (simp add: question_frame)
  with inv show "normal_inv c (snd (question readline_query w))"
    by (simp add: normal_inv_def)
qed (simp add: attempt_normal_inv del: attempt_object)

section \<open>Properties: the code against the specification\<close>

text \<open>C5. \<^verbatim>\<open>handlePrompt\<close> of an initialised object implements the specification
  of one prompt: the history it leaves is \<open>spec_step\<close> of the kind of the
  prompt, of what the call to the service returned, and of the history it
  found.\<close>

theorem handlePrompt_refines_spec:
  assumes "initialized c"
  shows "messages (fst (snd (handlePrompt e p c w))) =
     spec_step (classify p) (reply_of (remote w (requests w @ [outgoing (pushed c p)])))
       (messages c)"
  using assms
  by (auto simp: classify_def handlePrompt_def save_to_def writeFile_def resetChat_def
      array_splice_def send_message_def callOpenaiChatApi_def createChatCompletion_def
      initialized_def outgoing_def pushed_def Let_def
      split: option.splits api_result.splits list.splits)

theorem handlePrompt_refines_spec_witness:
  "messages (fst (snd (handlePrompt demo_env (ascii ''hello'') demo_chat demo_world))) =
     [userMessage (ascii ''hello''), demo_answer]"
  using handlePrompt_refines_spec [of demo_chat demo_env "ascii ''hello''" demo_world]
  by (simp add: classify_def startsWith_def chat_consts demo_world_def)

text \<open>Whatever the prompts and the answers of the service, the history of
  the object that the program builds is, when the loop ends, reachable in the
  abstract session from the empty history, and so well-formed: every message
  that is not a user message directly follows a user message.\<close>

lemma chat_history_well_formed:
  "reachable (messages (fst (snd (chat e (new_chat e k) w))))
   \<and> well_formed (messages (fst (snd (chat e (new_chat e k) w))))"
proof -
  have "reachable (messages (new_chat e k))"
    by (simp add: reachable.initial)
  then have "reachable (messages (fst (snd (chat e (new_chat e k) w))))"
    unfolding chat_def by (rule chat_loop_reachable)
  then show ?thesis by (simp add: reachable_well_formed)
qed

text \<open>C29. Normal operation: as long as the service answers every request with
  a choice whose message is not a user message, user messages and answers
  alternate in the history of an initialised object, starting with a user
  message; in particular the history has even length when the loop ends.\<close>

theorem chat_alternating:
  assumes "initialized c" and "alternating (messages c)" and "answering w"
  shows "alternating (messages (fst (snd (chat e c w))))
    \<and> even (length (messages (fst (snd (chat e c w)))))"
proof -
  from assms have "normal_inv c w" by (simp add: normal_inv_def)
  then have "normal_inv (fst (snd (chat e c w))) (snd (snd (chat e c w)))"
    by (rule chat_normal_inv)
  then show ?thesis by (simp add: normal_inv_def alternating_even)
qed

theorem chat_alternating_witness:
  "alternating (messages (fst (snd (chat demo_env demo_chat
       (demo_world\<lparr>stdin := [ascii ''hello'', ascii ''and then?'']\<rparr>)))))"
  using chat_alternating [of demo_chat
      "demo_world\<lparr>stdin := [ascii ''hello'', ascii ''and then?'']\<rparr>" demo_env]
  by (simp add: answering_def demo_world_def demo_answer_def is_user_def)

end
