(* ===== verification/Program_Steps.thy ===== *)
theory Program_Steps
  imports Chat_Spec
begin

text \<open>
  A run of \<^verbatim>\<open>src/index.js\<close> as a sequence of transitions.  The functions \<open>main\<close>
  and \<open>chat\<close> give the result of a whole run; here the program is a transition
  system whose configurations are the points where the script can be: before
  the check of the credential (\<open>Start\<close>), at the head of the loop waiting for
  the prompt source (\<open>Asking\<close>), in the \<^verbatim>\<open>try\<close> block with a prompt (\<open>Handling\<close>),
  in the \<^verbatim>\<open>catch\<close> block with an error (\<open>Catching\<close>), after \<^verbatim>\<open>process.exit\<close>
  (\<open>Exited\<close>), and in \<^verbatim>\<open>rl.question\<close> with no line to read (\<open>Waiting\<close>).

  The theory shows that the relation is deterministic and never stuck, that
  every run is finite (the relation is well-founded, with a bound on the
  number of transitions), that the final configuration a run reaches is the
  result of \<open>main\<close>, and invariants of all configurations of a run, not only
  of the last: the object is configured as the environment says, the history
  is well-formed, and every request sent is well-formed.
\<close>

section \<open>Configurations and transitions\<close>

datatype control =
    Start
  | Asking generator OpenAiChat
  | Handling jsstring generator OpenAiChat
  | Catching js_error generator OpenAiChat
  | Exited nat
  | Waiting OpenAiChat

type_synonym config = "control \<times> world"

text \<open>
  The transitions, by the lines of \<^verbatim>\<open>src/index.js\<close> they follow:

  \<^item> \<open>no_credential\<close>: lines 13--16, the diagnostic and \<^verbatim>\<open>process.exit(1)\<close>;
  \<^item> \<open>welcomed\<close>: lines 130--140 and 100, the choice of the source, the
    construction and initialisation of the object, the welcome line;
  \<^item> \<open>yielded\<close>, \<open>completed\<close>, \<open>pending\<close>, \<open>rejected\<close>: line 102, one \<^verbatim>\<open>next()\<close> of
    the prompt source; when the source completes, \<^verbatim>\<open>chat()\<close> returns and line
    144 exits with code 0; when it throws, \<^verbatim>\<open>chat()\<close> rejects and lines 145--148
    print the error and exit with code 1;
  \<^item> \<open>returned\<close>, \<open>threw\<close>: lines 103--105, \<^verbatim>\<open>handlePrompt\<close> under \<^verbatim>\<open>try\<close>;
  \<^item> \<open>reported\<close>: lines 105--114, the \<^verbatim>\<open>catch\<close> block, after which the loop
    goes on.
\<close>

inductive step :: "env \<Rightarrow> config \<Rightarrow> config \<Rightarrow> bool" for e where
  no_credential:
    "\<not> truthy (OPENAI_API_KEY e) \<Longrightarrow>
       step e (Start, w) (Exited 1, console_error missing_key_line w)"
| welcomed:
    "OPENAI_API_KEY e = Some key \<Longrightarrow> key \<noteq> [] \<Longrightarrow>
       step e (Start, w)
         (Asking (start (select_promptSource e)) (new_chat e key), console_log welcome_line w)"
| yielded:
    "next_prompt e g w = Yield p g' w' \<Longrightarrow> step e (Asking g c, w) (Handling p g' c, w')"
| completed:
    "next_prompt e g w = Done w' \<Longrightarrow> step e (Asking g c, w) (Exited 0, w')"
| pending:
    "next_prompt e g w = Pending w' \<Longrightarrow> step e (Asking g c, w) (Waiting c, w')"
| rejected:
    "next_prompt e g w = Thrown err w' \<Longrightarrow>
       step e (Asking g c, w) (Exited 1, console_error_value err w')"
| returned:
    "handlePrompt e p c w = (Inr u, c', w') \<Longrightarrow> step e (Handling p g c, w) (Asking g c', w')"
| threw:
    "handlePrompt e p c w = (Inl err, c', w') \<Longrightarrow>
       step e (Handling p g c, w) (Catching err g c', w')"
| reported:
    "step e (Catching err g c, w) (Asking g c, report err w)"

code_pred (modes: i \<Rightarrow> i \<Rightarrow> o \<Rightarrow> bool as step_successor) step .

inductive_cases step_StartE [elim!]: "step e (Start, w) t"
inductive_cases step_AskingE [elim!]: "step e (Asking g c, w) t"
inductive_cases step_HandlingE [elim!]: "step e (Handling p g c, w) t"
inductive_cases step_CatchingE [elim!]: "step e (Catching err g c, w) t"
inductive_cases step_ExitedE [elim!]: "step e (Exited n, w) t"
inductive_cases step_WaitingE [elim!]: "step e (Waiting c, w) t"

fun next_config :: "env \<Rightarrow> config \<Rightarrow> config option" where
  "next_config e (Start, w) =
     (case OPENAI_API_KEY e of
        None \<Rightarrow> Some (Exited 1, console_error missing_key_line w)
      | Some key \<Rightarrow>
          if key = [] then Some (Exited 1, console_error missing_key_line w)
          else Some (Asking (start (select_promptSource e)) (new_chat e key),
                     console_log welcome_line w))"
| "next_config e (Asking g c, w) =
     Some (case next_prompt e g w of
             Yield p g' w' \<Rightarrow> (Handling p g' c, w')
           | Done w' \<Rightarrow> (Exited 0, w')
           | Pending w' \<Rightarrow> (Waiting c, w')
           | Thrown err w' \<Rightarrow> (Exited 1, console_error_value err w'))"
| "next_config e (Handling p g c, w) =
     Some (case handlePrompt e p c w of
             (Inr u, c', w') \<Rightarrow> (Asking g c', w')
           | (Inl err, c', w') \<Rightarrow> (Catching err g c', w'))"
| "next_config e (Catching err g c, w) = Some (Asking g c, report err w)"
| "next_config e (Exited n, w) = None"
| "next_config e (Waiting c, w) = None"

text \<open>
  \<open>run_for e n\<close> makes \<open>n\<close> transitions from a configuration, when there are
  that many.
\<close>

definition run_for :: "env \<Rightarrow> nat \<Rightarrow> config \<Rightarrow> config option" where
  "run_for e n s = iterate (next_config e) n s"

section \<open>The relation as a function\<close>

lemma step_next_config: "step e s t \<Longrightarrow> next_config e s = Some t"
  by (induction rule: step.induct) (auto simp: truthy_iff split: option.splits)

lemma next_config_step: "next_config e s = Some t \<Longrightarrow> step e s t"
proof (cases s)
  case (Pair ctl w)
  assume "next_config e s = Some t"
  with Pair show ?thesis
    by (cases ctl)
       (auto simp: truthy_iff intro: step.intros step.no_credential [unfolded One_nat_def]
          split: option.splits if_splits next_result.splits prod.splits sum.splits)
qed

lemma step_iff: "step e s t \<longleftrightarrow> next_config e s = Some t"
  by (blast intro: step_next_config next_config_step)

lemma step_deterministic: "step e s t \<Longrightarrow> step e s t' \<Longrightarrow> t' = t"
  by (simp add: step_iff)

lemma relpowp_run_for: "(step e ^^ n) s t \<longleftrightarrow> run_for e n s = Some t"
  unfolding run_for_def by (rule relpowp_iterate) (rule step_iff)

fun is_final :: "config \<Rightarrow> bool" where
  "is_final (Exited n, w) = True"
| "is_final (Waiting c, w) = True"
| "is_final _ = False"

lemma is_final_iff: "is_final s \<longleftrightarrow> (\<nexists>t. step e s t)"
  by (cases "(e, s)" rule: next_config.cases) (auto simp: step_iff split: option.splits)

section \<open>Termination\<close>

text \<open>
  \<open>rank\<close> bounds the number of transitions a configuration has left: three for
  every prompt the source can still yield (asking, handling, reporting) and
  one for leaving the loop.
\<close>

fun rank :: "config \<Rightarrow> nat" where
  "rank (Start, w) = 3 * length (stdin w) + 5"
| "rank (Asking g c, w) = 3 * loop_measure g w + 1"
| "rank (Handling p g c, w) = 3 * loop_measure g w + 3"
| "rank (Catching err g c, w) = 3 * loop_measure g w + 2"
| "rank (Exited n, w) = 0"
| "rank (Waiting c, w) = 0"

lemma loop_measure_start: "loop_measure (start src) w \<le> length (stdin w) + 1"
  by (cases src) (simp_all add: loop_measure_def)

lemma loop_measure_Yield:
  "next_prompt e g w = Yield p g' w' \<Longrightarrow> loop_measure g' w' < loop_measure g w"
  using next_prompt_Yield_stdin [of e g w p g' w'] by (auto simp: loop_measure_def)

lemma loop_measure_stdin: "stdin w' = stdin w \<Longrightarrow> loop_measure g w' = loop_measure g w"
  by (cases g) (simp_all add: loop_measure_def)

lemma loop_measure_frame [simp]:
  "loop_measure g (emit ev w) = loop_measure g w"
  "loop_measure g (report err w) = loop_measure g w"
  "loop_measure g (snd (snd (handlePrompt e p c w))) = loop_measure g w"
  by (rule loop_measure_stdin; simp add: handlePrompt_world_frame)+

lemma step_rank: "step e s t \<Longrightarrow> rank t < rank s"
proof (induction rule: step.induct)
  case (welcomed key w)
  from loop_measure_start [of "select_promptSource e" "console_log welcome_line w"]
  show ?case by simp
next
  case (yielded g w p g' w' c)
  from loop_measure_Yield [OF this] show ?case by simp
next
  case (returned p c w u c' w' g)
  from loop_measure_frame(3) [of g e p c w] returned show ?case by simp
next
  case (threw p c w err c' w' g)
  from loop_measure_frame(3) [of g e p c w] threw show ?case by simp
qed simp_all

lemma wf_step: "wf {(t, s). step e s t}"
  by (rule wf_subset [OF wf_measure [of rank]]) (auto dest: step_rank)

lemma steps_rank: "(step e ^^ n) s t \<Longrightarrow> n + rank t \<le> rank s"
proof (induction n arbitrary: t)
  case 0
  then show ?case by simp
next
  case (Suc n)
  then obtain u where "(step e ^^ n) s u" and "step e u t"
    by auto
  with Suc.IH [of u] step_rank [of e u t] show ?case by simp
qed

section \<open>Agreement with the functions\<close>

text \<open>
  \<open>final_of\<close> is the configuration in which a run of \<open>chat\<close> with a given result
  ends, \<open>outcome\<close> what \<open>main\<close> returns for a final configuration.
\<close>

fun final_of :: "run \<Rightarrow> config" where
  "final_of (Fulfilled, c, w) = (Exited 0, w)"
| "final_of (Rejected err, c, w) = (Exited 1, console_error_value err w)"
| "final_of (Pending_promise, c, w) = (Waiting c, w)"

fun outcome :: "config \<Rightarrow> nat option \<times> world" where
  "outcome (Exited n, w) = (Some n, w)"
| "outcome (ctl, w) = (None, w)"

lemma outcome_final_of: "outcome (final_of r) = settle r"
  by (cases r rule: final_of.cases) (simp_all add: settle_def)

lemma is_final_final_of [simp]: "is_final (final_of r)"
  by (cases r rule: final_of.cases) simp_all

lemma handling_steps:
  "(step e)\<^sup>*\<^sup>* (Handling p g c, w) (Asking g (fst (attempt e p c w)), snd (attempt e p c w))"
proof (cases "handlePrompt e p c w")
  case (fields r c' w')
  show ?thesis
  proof (cases r)
    case (Inl err)
    with fields have first: "step e (Handling p g c, w) (Catching err g c', w')"
      by (auto intro: step.threw)
    have "step e (Catching err g c', w') (Asking g c', report err w')"
      by (rule step.reported)
    with first have "(step e)\<^sup>*\<^sup>* (Handling p g c, w) (Asking g c', report err w')"
      by (rule rtranclp.rtrancl_into_rtrancl [OF r_into_rtranclp])
    with fields Inl show ?thesis
      by (simp add: attempt_Inl del: attempt_object)
  next
    case (Inr u)
    with fields have "step e (Handling p g c, w) (Asking g c', w')"
      by (auto intro: step.returned)
    then have "(step e)\<^sup>*\<^sup>* (Handling p g c, w) (Asking g c', w')"
      by (rule r_into_rtranclp)
    with fields Inr show ?thesis
      by (simp add: attempt_Inr del: attempt_object)
  qed
qed

lemma loop_steps: "(step e)\<^sup>*\<^sup>* (Asking g c, w) (final_of (chat_loop e g c w))"
proof (induction e g c w rule: chat_loop.induct)
  case (1 e g c w)
  show ?case
  proof (cases "next_prompt e g w")
    case (Yield p g' w')
    let ?c' = "fst (attempt e p c w')" and ?w' = "snd (attempt e p c w')"
    have "(step e)\<^sup>*\<^sup>* (Handling p g' c, w') (Asking g' ?c', ?w')"
      by (rule handling_steps)
    moreover have "(step e)\<^sup>*\<^sup>* (Asking g' ?c', ?w') (final_of (chat_loop e g' ?c' ?w'))"
      by (rule "1.IH" [OF Yield prod.collapse])
    ultimately have "(step e)\<^sup>*\<^sup>* (Handling p g' c, w') (final_of (chat_loop e g' ?c' ?w'))"
      by (rule rtranclp_trans)
    with step.yielded [OF Yield]
    have "(step e)\<^sup>*\<^sup>* (Asking g c, w) (final_of (chat_loop e g' ?c' ?w'))"
      by (rule converse_rtranclp_into_rtranclp)
    moreover from Yield have "chat_loop e g c w = chat_loop e g' ?c' ?w'"
      by (subst chat_loop.simps) (simp add: case_prod_beta del: attempt_object)
    ultimately show ?thesis
      by (simp del: attempt_object)
  next
    case (Done w')
    then have "step e (Asking g c, w) (Exited 0, w')"
      by (rule step.completed)
    with Done show ?thesis by (subst chat_loop.simps) auto
  next
    case (Pending w')
    then have "step e (Asking g c, w) (Waiting c, w')"
      by (rule step.pending)
    with Pending show ?thesis by (subst chat_loop.simps) auto
  qed simp
qed

lemma start_reaches_loop:
  assumes "OPENAI_API_KEY e = Some k" and "k \<noteq> []"
  shows "(step e)\<^sup>*\<^sup>* (Start, w)
     (Asking (start (select_promptSource e)) (new_chat e k), console_log welcome_line w)"
  using step.welcomed [OF assms] by (rule r_into_rtranclp)

lemma start_reaches_final:
  assumes "OPENAI_API_KEY e = Some k" and "k \<noteq> []"
  shows "(step e)\<^sup>*\<^sup>* (Start, w) (final_of (chat e (new_chat e k) w))"
proof -
  have "(step e)\<^sup>*\<^sup>*
      (Asking (start (select_promptSource e)) (new_chat e k), console_log welcome_line w)
      (final_of (chat e (new_chat e k) w))"
    using loop_steps [of e "start (select_promptSource e)" "new_chat e k"
        "console_log welcome_line w"]
    by (simp add: chat_def)
  with start_reaches_loop [OF assms] show ?thesis
    by (rule rtranclp_trans)
qed

lemma main_steps: "\<exists>t. (step e)\<^sup>*\<^sup>* (Start, w) t \<and> is_final t \<and> outcome t = main e w"
proof (cases "truthy (OPENAI_API_KEY e)")
  case False
  then have "step e (Start, w) (Exited 1, console_error missing_key_line w)"
    by (rule step.no_credential)
  with False show ?thesis
    by (intro exI [of _ "(Exited 1, console_error missing_key_line w)"]) (auto simp: main_no_key)
next
  case True
  then obtain k where k: "OPENAI_API_KEY e = Some k" "k \<noteq> []"
    by (auto simp: truthy_iff)
  with start_reaches_final [OF k] show ?thesis
    by (intro exI [of _ "final_of (chat e (new_chat e k) w)"])
       (simp add: outcome_final_of main_key)
qed

lemma final_no_step: "is_final s \<Longrightarrow> (step e)\<^sup>*\<^sup>* s t \<Longrightarrow> t = s"
  by (erule converse_rtranclpE) (auto simp: is_final_iff [of _ e])

lemma final_unique:
  "(step e)\<^sup>*\<^sup>* s t \<Longrightarrow> is_final t \<Longrightarrow> (step e)\<^sup>*\<^sup>* s t' \<Longrightarrow> is_final t' \<Longrightarrow> t' = t"
proof (induction rule: converse_rtranclp_induct)
  case base
  then show ?case by (simp add: final_no_step)
next
  case (step s u)
  from step.prems(2) show ?case
  proof (cases rule: converse_rtranclpE)
    case base
    with step.prems(3) step.hyps(1) show ?thesis
      by (metis is_final_iff)
  next
    case (step u')
    with \<open>step e s u\<close> have "u' = u"
      by (simp add: step_deterministic)
    with step step.IH step.prems show ?thesis by simp
  qed
qed

section \<open>Invariants of runs\<close>

text \<open>
  \<open>configured\<close> is what the methods rely on in the fields of the object: the
  client is there and was built from the credential, credential and model
  are non-empty strings and the ones of the environment.  \<open>typed\<close> says that
  the object of a configuration, when it has one, is configured; \<open>config_inv\<close>
  adds the invariant of the session and of the requests.
\<close>

fun object_of :: "control \<Rightarrow> OpenAiChat option" where
  "object_of (Asking g c) = Some c"
| "object_of (Handling p g c) = Some c"
| "object_of (Catching err g c) = Some c"
| "object_of (Waiting c) = Some c"
| "object_of _ = None"

definition configured :: "env \<Rightarrow> OpenAiChat \<Rightarrow> bool" where
  "configured e c \<longleftrightarrow>
     initialized c \<and> openaiApiKey c \<noteq> [] \<and> OPENAI_API_KEY e = Some (openaiApiKey c)
     \<and> model c \<noteq> [] \<and> model c = or_else (CHAT_OPENAI_MODEL e) CHAT_DEFAULT_MODEL
     \<and> promptSource c = select_promptSource e"

definition typed :: "env \<Rightarrow> config \<Rightarrow> bool" where
  "typed e s = (case object_of (fst s) of None \<Rightarrow> True | Some c \<Rightarrow> configured e c)"

lemma configured_new_chat:
  "OPENAI_API_KEY e = Some k \<Longrightarrow> k \<noteq> [] \<Longrightarrow> configured e (new_chat e k)"
  by (simp add: configured_def or_else_nonempty CHAT_DEFAULT_MODEL_def)

lemma configured_handlePrompt:
  "configured e c \<Longrightarrow> configured e (fst (snd (handlePrompt e' p c w)))"
  by (auto simp: configured_def handlePrompt_config)

lemma step_typed: "step e s t \<Longrightarrow> typed e s \<Longrightarrow> typed e t"
proof (induction rule: step.induct)
  case (returned p c w u c' w' g)
  with configured_handlePrompt [of e c e p w] show ?case by (simp add: typed_def)
next
  case (threw p c w err c' w' g)
  with configured_handlePrompt [of e c e p w] show ?case by (simp add: typed_def)
qed (simp_all add: typed_def configured_new_chat)

lemma steps_typed: "(step e)\<^sup>*\<^sup>* s t \<Longrightarrow> typed e s \<Longrightarrow> typed e t"
  by (induction rule: rtranclp_induct) (auto intro: step_typed)

definition config_inv :: "jsstring \<Rightarrow> jsstring \<Rightarrow> config \<Rightarrow> bool" where
  "config_inv k m s \<longleftrightarrow>
     list_all (request_ok k m) (requests (snd s))
     \<and> (case object_of (fst s) of
          None \<Rightarrow> True
        | Some c \<Rightarrow> session_inv k m c (snd s) \<and> reachable (messages c))"

lemma config_inv_object [simp]:
  "object_of ctl = Some c \<Longrightarrow>
     config_inv k m (ctl, w) \<longleftrightarrow> session_inv k m c w \<and> reachable (messages c)"
  by (auto simp: config_inv_def session_inv_def)

lemma config_inv_no_object [simp]:
  "object_of ctl = None \<Longrightarrow> config_inv k m (ctl, w) \<longleftrightarrow> list_all (request_ok k m) (requests w)"
  by (simp add: config_inv_def)

lemma next_prompt_session_inv:
  assumes "next_prompt e g w = Yield p g' w' \<or> next_prompt e g w = Done w'
      \<or> next_prompt e g w = Pending w'"
    and "session_inv k m c w"
  shows "session_inv k m c w'"
  using next_prompt_world [OF assms(1)] assms(2) by (auto simp: question_session_inv)

lemma step_config_inv:
  assumes "step e s t" and "OPENAI_API_KEY e = Some k"
    and "m = or_else (CHAT_OPENAI_MODEL e) CHAT_DEFAULT_MODEL" and "config_inv k m s"
  shows "config_inv k m t"
  using assms
proof (induction rule: step.induct)
  case (welcomed key w)
  then show ?case by (simp add: session_inv_def reachable.initial well_formed_def)
next
  case (yielded g w p g' w' c)
  with next_prompt_session_inv [of e g w p g' w' k m c] show ?case by simp
next
  case (completed g w w' c)
  with next_prompt_session_inv [of e g w _ _ w' k m c] show ?case
    by (simp add: session_inv_def)
next
  case (pending g w w' c)
  with next_prompt_session_inv [of e g w _ _ w' k m c] show ?case by simp
next
  case (returned p c w u c' w' g)
  with handlePrompt_session_inv [of k m c w e p] handlePrompt_reachable [of c e p w]
  show ?case by simp
next
  case (threw p c w err c' w' g)
  with handlePrompt_session_inv [of k m c w e p] handlePrompt_reachable [of c e p w]
  show ?case by simp
next
  case (reported err g c w)
  then show ?case by (simp add: session_inv_def)
qed simp_all

lemma steps_config_inv:
  assumes "(step e)\<^sup>*\<^sup>* s t" and "OPENAI_API_KEY e = Some k"
    and "m = or_else (CHAT_OPENAI_MODEL e) CHAT_DEFAULT_MODEL" and "config_inv k m s"
  shows "config_inv k m t"
  using assms by (induction rule: rtranclp_induct) (auto intro: step_config_inv)

section \<open>Properties of runs\<close>

text \<open>C15. Termination: the transition relation of the program is well-founded,
  so every run on a finite input is finite; no sequence of prompts and no
  behaviour of the service or of the file system makes the program loop.\<close>

theorem steps_terminate: "wf {(t, s). step e s t}"
  by (rule wf_step)


text \<open>C16. Type soundness of runs: in every configuration that a run reaches,
  the object is configured (the client exists and holds the credential of the
  environment, credential and model are non-empty), so no method finds a
  field \<^verbatim>\<open>null\<close> or empty; and the run is never stuck: a configuration is
  final or has a successor.\<close>

theorem run_type_sound:
  assumes "(step e)\<^sup>*\<^sup>* (Start, w) s"
  shows "typed e s \<and> (is_final s \<or> (\<exists>t. step e s t))"
  using steps_typed [OF assms] is_final_iff [of s e] by (auto simp: typed_def)

theorem run_type_sound_witness:
  "typed demo_env
     (Asking Readline (new_chat demo_env (ascii ''sk-demo'')), console_log welcome_line demo_world)"
  using run_type_sound [OF start_reaches_loop [of demo_env "ascii ''sk-demo''" demo_world]]
  by (simp add: demo_env_def select_promptSource_def)

text \<open>C17. At every point of a run, not only at its end: every request sent so
  far carries the credential and the model of the environment and a
  non-empty, well-formed history ending in a user message, and the history of
  the object is well-formed and reachable in the abstract session.\<close>

theorem run_invariant:
  assumes "(step e)\<^sup>*\<^sup>* (Start, w) s" and "OPENAI_API_KEY e = Some k"
    and "list_all (request_ok k (or_else (CHAT_OPENAI_MODEL e) CHAT_DEFAULT_MODEL)) (requests w)"
  shows "list_all (request_ok k (or_else (CHAT_OPENAI_MODEL e) CHAT_DEFAULT_MODEL))
      (requests (snd s))
    \<and> (case object_of (fst s) of
         None \<Rightarrow> True
       | Some c \<Rightarrow> well_formed (messages c) \<and> reachable (messages c))"
proof -
  from assms(3) have "config_inv k (or_else (CHAT_OPENAI_MODEL e) CHAT_DEFAULT_MODEL) (Start, w)"
    by simp
  with assms(1,2) have "config_inv k (or_else (CHAT_OPENAI_MODEL e) CHAT_DEFAULT_MODEL) s"
    by (rule steps_config_inv [OF _ _ refl])
  then show ?thesis
    by (auto simp: config_inv_def session_inv_def split: option.splits)
qed

theorem run_invariant_witness:
  "list_all (request_ok (ascii ''sk-demo'') CHAT_DEFAULT_MODEL)
     (requests (snd (final_of (chat demo_env (new_chat demo_env (ascii ''sk-demo''))
        (flaky_world\<lparr>stdin := [ascii ''hello'', ascii ''again'']\<rparr>)))))"
  using run_invariant
    [OF start_reaches_final [of demo_env "ascii ''sk-demo''"
          "flaky_world\<lparr>stdin := [ascii ''hello'', ascii ''again'']\<rparr>"],
      of "ascii ''sk-demo''"]
  by (simp add: demo_defs)

text \<open>C28. A bound on the length of runs: from the start the program reaches a
  final configuration, with the exit code and the world that \<open>main\<close> gives, after
  at most five transitions and three more for every line of standard input.\<close>

theorem run_within_bound:
  "\<exists>n t. n \<le> 3 * length (stdin w) + 5 \<and> run_for e n (Start, w) = Some t
     \<and> is_final t \<and> outcome t = main e w"
proof -
  obtain t where t: "(step e)\<^sup>*\<^sup>* (Start, w) t" "is_final t" "outcome t = main e w"
    using main_steps by blast
  from t(1) obtain n where n: "(step e ^^ n) (Start, w) t"
    by (auto simp: rtranclp_power)
  from steps_rank [OF n] have "n \<le> 3 * length (stdin w) + 5" by simp
  with n t(2,3) show ?thesis
    unfolding relpowp_run_for by blast
qed

text \<open>
  The bound is attained: in argument mode a prompt that fails takes all five
  transitions.
\<close>

lemma run_for_example:
  "run_for (demo_env\<lparr>argv := [ascii ''node'', ascii ''index.js'', ascii ''hello'']\<rparr>) 5
     (Start, failing_world) =
     Some (Exited 0,
      failing_world\<lparr>console := [Log welcome_line,
          ErrorText (ascii ''Error 429 Too Many Requests: rate limited'')],
        requests := [(ascii ''sk-demo'', \<lparr>req_model = ascii ''gpt-3.5-turbo'',
          req_messages = [userMessage (ascii ''hello'')]\<rparr>)],
        trace := [Print (Log welcome_line),
          Send (ascii ''sk-demo'', \<lparr>req_model = ascii ''gpt-3.5-turbo'',
            req_messages = [userMessage (ascii ''hello'')]\<rparr>),
          Receive (Failure rate_limited),
          Print (ErrorText (ascii ''Error 429 Too Many Requests: rate limited''))]\<rparr>)"
  by (simp add: run_for_def iterate_numeral js_eval js_string_rec userMessage_def
      next_prompt.simps(3))

end
