(* ===== verification/Effect_Trace.thy ===== *)
theory Effect_Trace
  imports Main_Program
begin

text \<open>
  The order of the interactions of a run.  Every primitive of the world
  records the effect it performs, so the world after an operation holds, at
  the end of its trace, what the operation did and in which order.  This
  theory relates two worlds by the effects recorded between them (\<open>since\<close>,
  \<open>replay\<close>, \<open>extends\<close>), projects a trace to the console, the requests, the
  lines read and the files written, and states the discipline of the program
  on its interactions as a monitor (\<open>monitor\<close>, \<open>run_monitor\<close>) that every run
  is shown to satisfy.  The requests and the files written are then related
  to the prompts of the run.
\<close>

section \<open>Replaying effects\<close>

definition replay :: "effect list \<Rightarrow> world \<Rightarrow> world" where
  "replay tr w = fold perform tr w"

definition since :: "world \<Rightarrow> world \<Rightarrow> effect list" where
  "since w w' = drop (length (trace w)) (trace w')"

definition extends :: "world \<Rightarrow> world \<Rightarrow> bool" where
  "extends w w' \<longleftrightarrow> w' = replay (since w w') w"

lemma replay_simps [simp]:
  "replay [] w = w"
  "replay (ef # tr) w = replay tr (perform ef w)"
  "replay (tr @ tr') w = replay tr' (replay tr w)"
  by (simp_all add: replay_def)

lemma trace_replay [simp]: "trace (replay tr w) = trace w @ tr"
  by (induction tr arbitrary: w) simp_all

lemma since_replay [simp]: "since w (replay tr w) = tr"
  by (simp add: since_def)

lemma since_self [simp]: "since w w = []"
  by (simp add: since_def)

lemma extends_iff: "extends w w' \<longleftrightarrow> (\<exists>tr. w' = replay tr w)"
  by (auto simp: extends_def)

lemma extends_replay [simp]: "extends w (replay tr w)"
  by (auto simp: extends_iff)

lemma extends_refl [simp]: "extends w w"
  using extends_replay [of w "[]"] by simp

lemma extends_perform [simp]: "extends w (perform ef w)"
  using extends_replay [of w "[ef]"] by simp

lemma extends_trans: "extends w w' \<Longrightarrow> extends w' w'' \<Longrightarrow> extends w w''"
  by (metis extends_iff replay_simps(3))

lemma since_trans:
  "extends w w' \<Longrightarrow> extends w' w'' \<Longrightarrow> since w w'' = since w w' @ since w' w''"
  by (metis extends_def replay_simps(3) since_replay)

lemma extends_trace: "extends w w' \<Longrightarrow> trace w' = trace w @ since w w'"
  by (metis extends_def trace_replay)

section \<open>Projections of a trace\<close>

fun prints :: "effect list \<Rightarrow> console_event list" where
  "prints [] = []"
| "prints (Print out # tr) = out # prints tr"
| "prints (ef # tr) = prints tr"

fun sends :: "effect list \<Rightarrow> sent list" where
  "sends [] = []"
| "sends (Send r # tr) = r # sends tr"
| "sends (ef # tr) = sends tr"

fun reads :: "effect list \<Rightarrow> jsstring list" where
  "reads [] = []"
| "reads (Read line # tr) = line # reads tr"
| "reads (ef # tr) = reads tr"

fun writes :: "effect list \<Rightarrow> (jsstring \<times> jsstring) list" where
  "writes [] = []"
| "writes (Write path data # tr) = (path, data) # writes tr"
| "writes (ef # tr) = writes tr"

lemma writes_append [simp]: "writes (tr @ tr') = writes tr @ writes tr'"
  by (induction tr rule: writes.induct) simp_all

lemma replay_console: "console (replay tr w) = console w @ prints tr"
proof (induction tr arbitrary: w)
  case (Cons ef tr)
  then show ?case by (cases ef) simp_all
qed simp

lemma replay_requests: "requests (replay tr w) = requests w @ sends tr"
proof (induction tr arbitrary: w)
  case (Cons ef tr)
  then show ?case by (cases ef) simp_all
qed simp

lemma replay_stdin: "stdin (replay tr w) = drop (length (reads tr)) (stdin w)"
proof (induction tr arbitrary: w)
  case (Cons ef tr)
  then show ?case by (cases ef) (simp_all add: drop_Suc)
qed simp

lemma replay_files:
  "path \<notin> fst ` set (writes tr) \<Longrightarrow> files (replay tr w) path = files w path"
proof (induction tr arbitrary: w)
  case (Cons ef tr)
  then show ?case by (cases ef) simp_all
qed simp

lemma replay_oracles [simp]:
  "remote (replay tr w) = remote w"
  "write_error (replay tr w) = write_error w"
  by (induction tr arbitrary: w) simp_all

section \<open>The discipline of interactions\<close>

text \<open>
  What the program promises about the order of its interactions, as a monitor
  that reads a trace effect by effect.  When nothing is outstanding (\<open>Idle\<close>)
  the program may print, ask for a line, send a request or write a file.  A
  query is followed by the line read (\<open>Asked\<close>); a request by its answer
  (\<open>Sent\<close>); an answer with a choice by the content of the first choice on
  standard output (\<open>Got\<close>); a file written by the confirmation that names it
  (\<open>Saved\<close>); a refused request, an answer without a choice and a refused
  write by one line on the error stream (\<open>Failing\<close>).  Everything else is a
  violation (\<open>None\<close>).
\<close>

datatype phase = Idle | Asked | Sent | Got jsstring | Saved jsstring | Failing

fun monitor :: "phase \<Rightarrow> effect \<Rightarrow> phase option" where
  "monitor Idle (Print (Question q)) = Some Asked"
| "monitor Idle (Print out) = Some Idle"
| "monitor Idle (Send r) = Some Sent"
| "monitor Idle (Write path data) = Some (Saved path)"
| "monitor Idle (Refuse path err) = Some Failing"
| "monitor Asked (Read line) = Some Idle"
| "monitor Sent (Receive (Completion (answer # others))) = Some (Got (content answer))"
| "monitor Sent (Receive a) = Some Failing"
| "monitor (Got s) (Print (Log t)) = (if t = s then Some Idle else None)"
| "monitor (Saved path) (Print (Log t)) =
     (if t = ascii ''Chat saved to '' @ path then Some Idle else None)"
| "monitor Failing (Print (ErrorText t)) = Some Idle"
| "monitor Failing (Print (ErrorValue err)) = Some Idle"
| "monitor ph ef = None"

fun run_monitor :: "phase \<Rightarrow> effect list \<Rightarrow> phase option" where
  "run_monitor ph [] = Some ph"
| "run_monitor ph (ef # tr) =
     (case monitor ph ef of None \<Rightarrow> None | Some ph' \<Rightarrow> run_monitor ph' tr)"

lemma run_monitor_append:
  "run_monitor ph (tr @ tr') =
     (case run_monitor ph tr of None \<Rightarrow> None | Some ph' \<Rightarrow> run_monitor ph' tr')"
  by (induction tr arbitrary: ph) (simp_all split: option.splits)

lemma run_monitor_take: "run_monitor ph tr = Some ph' \<Longrightarrow> run_monitor ph (take n tr) \<noteq> None"
  using run_monitor_append [of ph "take n tr" "drop n tr"] by (auto split: option.splits)

text \<open>
  \<open>conforms ph w w' ph'\<close>: the world \<open>w'\<close> is \<open>w\<close> after the effects recorded in
  between, and these effects take the monitor from \<open>ph\<close> to \<open>ph'\<close>.
\<close>

definition conforms :: "phase \<Rightarrow> world \<Rightarrow> world \<Rightarrow> phase \<Rightarrow> bool" where
  "conforms ph w w' ph' \<longleftrightarrow> extends w w' \<and> run_monitor ph (since w w') = Some ph'"

lemma conforms_refl [simp]: "conforms ph w w ph' \<longleftrightarrow> ph' = ph"
  by (auto simp: conforms_def)

lemma conforms_perform:
  "monitor ph ef = Some ph' \<Longrightarrow> conforms ph w (perform ef w) ph'"
  using since_replay [of w "[ef]"] by (simp add: conforms_def)

lemma conforms_trans:
  "conforms ph w w' ph' \<Longrightarrow> conforms ph' w' w'' ph'' \<Longrightarrow> conforms ph w w'' ph''"
  unfolding conforms_def
  using since_trans [of w w' w''] by (auto simp: run_monitor_append intro: extends_trans)

lemma conforms_then_perform:
  "conforms ph w w' ph' \<Longrightarrow> monitor ph' ef = Some ph'' \<Longrightarrow>
     conforms ph w (perform ef w') ph''"
  by (blast intro: conforms_trans conforms_perform)

lemma conforms_then_emit:
  "conforms ph w w' ph' \<Longrightarrow> monitor ph' (Print out) = Some ph'' \<Longrightarrow>
     conforms ph w (emit out w') ph''"
  unfolding emit_def by (rule conforms_then_perform)

subsection \<open>The methods of the chat object\<close>

lemma debug_log_conforms:
  "conforms ph w w' Idle \<Longrightarrow> conforms ph w (debug_log e m w') Idle"
  by (auto simp: debug_log_def intro: conforms_then_emit)

lemma writeFile_conforms:
  "conforms Idle w (snd (writeFile path data w))
     (case fst (writeFile path data w) of Inl err \<Rightarrow> Failing | Inr u \<Rightarrow> Saved path)"
  by (simp add: writeFile_def conforms_perform split: option.splits)

lemma save_to_conforms:
  "conforms Idle w (snd (snd (save_to e p c w)))
     (case fst (save_to e p c w) of Inl err \<Rightarrow> Failing | Inr u \<Rightarrow> Idle)"
  using writeFile_conforms [of w "save_filename p" "transcript (EOL e) (messages c)"]
  by (auto simp: save_to_def save_filename_def Let_def intro: conforms_then_emit
      split: prod.splits sum.splits)

lemma callOpenaiChatApi_conforms:
  "conforms Idle w (snd (callOpenaiChatApi c w))
     (case fst (callOpenaiChatApi c w) of
        Inr answer \<Rightarrow> Got (content answer)
      | Inl err \<Rightarrow> if openai c = None then Idle else Failing)"
  by (auto simp: callOpenaiChatApi_def createChatCompletion_def Let_def
      intro!: conforms_then_perform [OF conforms_perform]
      split: option.splits api_result.splits list.splits)

lemma send_message_conforms:
  "conforms Idle w (snd (snd (send_message e p c w)))
     (case fst (send_message e p c w) of
        Inr u \<Rightarrow> Idle
      | Inl err \<Rightarrow> if openai c = None then Idle else Failing)"
proof -
  let ?c1 = "c\<lparr>messages := messages c @ [userMessage p]\<rparr>"
  let ?w1 = "debug_log e (userMessage p) w"
  have "conforms Idle w ?w1 Idle"
    by (simp add: debug_log_conforms)
  from conforms_trans [OF this callOpenaiChatApi_conforms [of ?w1 ?c1]] show ?thesis
    by (auto simp: send_message_def Let_def intro!: debug_log_conforms conforms_then_emit
        split: prod.splits sum.splits)
qed

text \<open>
  \<^verbatim>\<open>handlePrompt\<close> leaves the monitor idle when it returns; when it throws, it
  leaves it idle or waiting for the line of the error.
\<close>

lemma handlePrompt_conforms:
  "\<exists>ph. conforms Idle w (snd (snd (handlePrompt e p c w))) ph
     \<and> (case fst (handlePrompt e p c w) of Inr u \<Rightarrow> ph = Idle | Inl err \<Rightarrow> ph \<in> {Idle, Failing})"
proof (cases "classify p")
  case (SaveTo f)
  with save_to_conforms [of w e p c] show ?thesis
    by (auto simp: handlePrompt_classify split: sum.splits)
next
  case (Say t)
  with send_message_conforms [of w e t c] show ?thesis
    by (auto simp: handlePrompt_classify split: sum.splits if_splits)
qed (auto simp: handlePrompt_classify intro: conforms_then_emit simp del: classify_Invalid_iff)

subsection \<open>The loop\<close>

lemma next_prompt_conforms:
  "conforms Idle w
     (case next_prompt e g w of Yield p g' w' \<Rightarrow> w' | Done w' \<Rightarrow> w' | Pending w' \<Rightarrow> w')
     (case next_prompt e g w of Pending w' \<Rightarrow> Asked | _ \<Rightarrow> Idle)"
proof (cases g)
  case Readline
  have "conforms Idle w (emit (Question readline_query) w) Asked"
    by (rule conforms_then_emit [where ph' = Idle]) simp_all
  with Readline show ?thesis
    by (cases "stdin w")
       (auto simp: next_prompt.simps(3) question_def Let_def intro: conforms_then_perform)
qed simp_all

lemma report_conforms:
  "conforms ph w w' ph' \<Longrightarrow> ph' \<in> {Idle, Failing} \<Longrightarrow> conforms ph w (report err w') Idle"
  by (auto simp: report_def intro!: conforms_then_emit split: option.splits)

lemma attempt_conforms: "conforms Idle w (snd (attempt e p c w)) Idle"
  using handlePrompt_conforms [of w e p c]
  by (auto simp: attempt_world intro: report_conforms split: sum.splits)

lemma ask_and_attempt_conforms:
  "conforms Idle (snd cw) (snd (ask_and_attempt e cw p)) Idle"
proof -
  have "conforms Idle (snd cw) (perform (Read p) (emit (Question readline_query) (snd cw))) Idle"
    by (intro conforms_then_perform [where ph' = Asked] conforms_then_emit [where ph' = Idle])
       simp_all
  then show ?thesis
    unfolding ask_and_attempt_def by (rule conforms_trans) (rule attempt_conforms)
qed

lemma foldl_ask_and_attempt_conforms:
  "conforms Idle (snd cw) (snd (foldl (ask_and_attempt e) cw ps)) Idle"
proof (induction ps arbitrary: cw)
  case (Cons p ps)
  from conforms_trans [OF ask_and_attempt_conforms Cons [of "ask_and_attempt e cw p"]]
  show ?case by simp
qed simp

lemma chat_conforms:
  "conforms Idle w (snd (snd (chat e c w)))
     (case promptSource c of promptFromArg \<Rightarrow> Idle | promptFromReadline \<Rightarrow> Asked)"
proof -
  have first: "conforms Idle w (console_log welcome_line w) Idle"
    by (rule conforms_then_emit [where ph' = Idle]) simp_all
  show ?thesis
  proof (cases "promptSource c")
    case promptFromArg
    with conforms_trans [OF first attempt_conforms] show ?thesis
      by (simp add: chat_def chat_loop_ArgStart)
  next
    case promptFromReadline
    from conforms_trans [OF first
        foldl_ask_and_attempt_conforms [of "(c, console_log welcome_line w)", simplified]]
    have "conforms Idle w
        (snd (foldl (ask_and_attempt e) (c, console_log welcome_line w) (stdin w))) Idle" .
    with promptFromReadline show ?thesis
      by (simp add: chat_def chat_loop_Readline_foldl conforms_then_emit)
  qed
qed

lemma main_conforms:
  "conforms Idle w (snd (main e w)) (if fst (main e w) = None then Asked else Idle)"
proof (cases "truthy (OPENAI_API_KEY e)")
  case False
  then show ?thesis
    by (simp add: main_no_key conforms_then_emit [where ph' = Idle])
next
  case True
  then obtain k where k: "OPENAI_API_KEY e = Some k" "k \<noteq> []"
    by (auto simp: truthy_iff)
  with chat_conforms [of w e "new_chat e k"] True show ?thesis
    by (auto simp: main_exit main_world select_promptSource_def)
qed

section \<open>The requests of a run\<close>

text \<open>
  \<open>asked_of r\<close> is the message a request asks about: the last message of the
  history it carries.
\<close>

definition asked_of :: "sent \<Rightarrow> message" where
  "asked_of r = last (req_messages (snd r))"

definition is_say :: "jsstring \<Rightarrow> bool" where
  "is_say p \<longleftrightarrow> classify p = Say p"

lemma attempt_requests:
  assumes "initialized c"
  shows "requests (snd (attempt e p c w)) =
     requests w @ (if is_say p then [outgoing (pushed c p)] else [])"
proof -
  have "requests (snd (attempt e p c w)) = requests (snd (snd (handlePrompt e p c w)))"
    by (simp add: attempt_world split: sum.splits)
  with assms show ?thesis
    by (cases "classify p")
       (auto simp: handlePrompt_requests send_message_requests initialized_def is_say_def
         outgoing_def classify_Say_iff simp del: classify_Invalid_iff)
qed

lemma attempt_asked:
  "initialized c \<Longrightarrow>
     map asked_of (requests (snd (attempt e p c w))) =
       map asked_of (requests w) @ map userMessage (filter is_say [p])"
  by (simp add: attempt_requests asked_of_def outgoing_def)

lemma foldl_ask_and_attempt_asked:
  "initialized (fst cw) \<Longrightarrow>
     map asked_of (requests (snd (foldl (ask_and_attempt e) cw ps))) =
       map asked_of (requests (snd cw)) @ map userMessage (filter is_say ps)"
proof (induction ps arbitrary: cw)
  case (Cons p ps)
  have "initialized (fst (ask_and_attempt e cw p))"
    using Cons.prems by (simp add: ask_and_attempt_def handlePrompt_config)
  from Cons.IH [OF this] Cons.prems show ?case
    by (simp add: ask_and_attempt_def attempt_asked)
qed simp

lemma main_asked:
  "map asked_of (requests (snd (main e w))) =
     map asked_of (requests w) @ map userMessage (filter is_say (prompts_of e w))"
proof (cases "truthy (OPENAI_API_KEY e)")
  case False
  then show ?thesis by (simp add: main_no_key prompts_of_def)
next
  case True
  then obtain k where k: "OPENAI_API_KEY e = Some k" "k \<noteq> []"
    by (auto simp: truthy_iff)
  show ?thesis
  proof (cases "2 < length (argv e)")
    case True
    with k \<open>truthy (OPENAI_API_KEY e)\<close> show ?thesis
      by (simp add: main_world chat_def chat_loop_ArgStart select_promptSource_def
          prompts_of_def attempt_asked del: attempt_object)
  next
    case False
    with k \<open>truthy (OPENAI_API_KEY e)\<close>
      foldl_ask_and_attempt_asked [of "(new_chat e k, console_log welcome_line w)" e "stdin w"]
    show ?thesis
      by (simp add: main_world chat_def chat_loop_Readline_foldl select_promptSource_def
          prompts_of_def)
  qed
qed

section \<open>The files of a run\<close>

text \<open>
  \<open>saved_file w p\<close> is the file that the prompt \<open>p\<close> writes: the name that a save
  command gives, when that file can be written.
\<close>

definition saved_file :: "world \<Rightarrow> jsstring \<Rightarrow> jsstring option" where
  "saved_file w p =
     (case classify p of SaveTo f \<Rightarrow> if writable w f then Some f else None | _ \<Rightarrow> None)"

lemma saved_file_cong:
  assumes "write_error w' = write_error w"
  shows "saved_file w' = saved_file w"
proof -
  from assms have "writable w' = writable w"
    by (simp add: writable_def fun_eq_iff)
  then show ?thesis unfolding saved_file_def by (simp cong: command.case_cong)
qed

lemma writes_perform [simp]: "writes (trace (perform ef w)) = writes (trace w) @ writes [ef]"
  by simp

lemma writes_emit [simp]: "writes (trace (emit out w)) = writes (trace w)"
  by simp

lemma writes_debug_log [simp]: "writes (trace (debug_log e m w)) = writes (trace w)"
  by (simp add: debug_log_def)

lemma writes_report [simp]: "writes (trace (report err w)) = writes (trace w)"
  by (simp add: report_def split: option.splits)

lemma writes_callOpenaiChatApi [simp]:
  "writes (trace (snd (callOpenaiChatApi c w))) = writes (trace w)"
  by (simp add: callOpenaiChatApi_def createChatCompletion_def Let_def
      split: option.splits api_result.splits list.splits)

lemma writes_send_message [simp]:
  "writes (trace (snd (snd (send_message e p c w)))) = writes (trace w)"
proof -
  let ?call = "callOpenaiChatApi (c\<lparr>messages := messages c @ [userMessage p]\<rparr>)
                 (debug_log e (userMessage p) w)"
  have "snd (snd (send_message e p c w)) = snd ?call
      \<or> (\<exists>a. snd (snd (send_message e p c w)) = debug_log e a (console_log (content a) (snd ?call)))"
    by (auto simp: send_message_def Let_def split: prod.splits sum.splits)
  then show ?thesis by auto
qed

lemma handlePrompt_writes:
  "map fst (writes (trace (snd (snd (handlePrompt e p c w))))) =
     map fst (writes (trace w)) @ (case saved_file w p of None \<Rightarrow> [] | Some f \<Rightarrow> [f])"
proof (cases "classify p")
  case (SaveTo f)
  then have "f = save_filename p"
    by (simp add: classify_SaveTo_iff save_filename_eq_drop)
  with SaveTo show ?thesis
    by (cases "writable w f")
       (auto simp: handlePrompt_classify saved_file_def save_to_writable
         dest: save_to_not_writable [where e = e and c = c])
qed (simp_all add: handlePrompt_classify saved_file_def del: classify_Invalid_iff)

lemma attempt_writes:
  "map fst (writes (trace (snd (attempt e p c w)))) =
     map fst (writes (trace w)) @ (case saved_file w p of None \<Rightarrow> [] | Some f \<Rightarrow> [f])"
  using handlePrompt_writes [of e p c w] by (simp add: attempt_world split: sum.splits)

lemma foldl_ask_and_attempt_writes:
  "map fst (writes (trace (snd (foldl (ask_and_attempt e) cw ps)))) =
     map fst (writes (trace (snd cw))) @ List.map_filter (saved_file (snd cw)) ps"
proof (induction ps arbitrary: cw)
  case (Cons p ps)
  let ?w = "perform (Read p) (emit (Question readline_query) (snd cw))"
  let ?cw = "ask_and_attempt e cw p"
  have next_w: "saved_file (snd ?cw) = saved_file (snd cw)"
    by (rule saved_file_cong) (simp add: ask_and_attempt_def)
  have asked: "saved_file ?w = saved_file (snd cw)"
    by (rule saved_file_cong) simp
  from attempt_writes [of e p "fst cw" ?w]
  have "map fst (writes (trace (snd ?cw))) =
      map fst (writes (trace (snd cw))) @ (case saved_file (snd cw) p of None \<Rightarrow> [] | Some f \<Rightarrow> [f])"
    by (simp only: asked ask_and_attempt_def [symmetric]) simp
  with Cons [of ?cw] show ?case
    by (simp only: next_w foldl_Cons) (simp add: List.map_filter_simps split: option.splits)
qed (simp add: List.map_filter_simps)

lemma main_trace_writes:
  "map fst (writes (trace (snd (main e w)))) =
     map fst (writes (trace w)) @ List.map_filter (saved_file w) (prompts_of e w)"
proof (cases "truthy (OPENAI_API_KEY e)")
  case False
  then show ?thesis by (simp add: main_no_key prompts_of_def List.map_filter_simps)
next
  case True
  then obtain k where k: "OPENAI_API_KEY e = Some k" "k \<noteq> []"
    by (auto simp: truthy_iff)
  let ?w = "console_log welcome_line w"
  have w0: "saved_file ?w = saved_file w"
    by (rule saved_file_cong) simp
  have tr0: "writes (trace ?w) = writes (trace w)"
    by simp
  show ?thesis
  proof (cases "select_promptSource e")
    case promptFromArg
    from k have "snd (main e w) = snd (attempt e (arg_prompt e) (new_chat e k) ?w)"
      by (simp add: main_world chat_def promptFromArg chat_loop_ArgStart)
    moreover from True promptFromArg have "prompts_of e w = [arg_prompt e]"
      by (simp add: prompts_of_def)
    ultimately show ?thesis
      using attempt_writes [of e "arg_prompt e" "new_chat e k" ?w]
      by (simp only: w0 tr0) (simp add: List.map_filter_simps split: option.splits)
  next
    case promptFromReadline
    from k have "snd (main e w) =
        emit (Question readline_query) (snd (foldl (ask_and_attempt e) (new_chat e k, ?w) (stdin w)))"
      by (simp add: main_world chat_def promptFromReadline chat_loop_Readline_foldl)
    moreover from True promptFromReadline have "prompts_of e w = stdin w"
      by (simp add: prompts_of_def)
    ultimately show ?thesis
      using foldl_ask_and_attempt_writes [of e "(new_chat e k, ?w)" "stdin w"]
      by (simp only: snd_conv w0 tr0 writes_emit)
  qed
qed

section \<open>Properties of the trace of a run\<close>

text \<open>C11. The interactions of a run follow the discipline of the monitor,
  whatever the input, the service and the file system do: a request is sent
  only when nothing is outstanding and is followed at once by its answer; the
  content of the first choice of an answer is printed before anything else
  happens; a file written is followed by the confirmation that names it; a
  failed request and a refused write are followed by one line on the error
  stream; a line is read only after a query and every query but the last is
  followed by the line read.  The run ends with nothing outstanding when the
  program exits, and at an unanswered query when it does not; and at no
  moment of the run have the interactions made so far violated the
  discipline.\<close>

theorem main_follows_protocol:
  "run_monitor Idle (since w (snd (main e w))) =
     Some (if fst (main e w) = None then Asked else Idle)
   \<and> (\<forall>n. run_monitor Idle (take n (since w (snd (main e w)))) \<noteq> None)"
  using main_conforms [of w e] by (simp add: conforms_def run_monitor_take)


text \<open>C27. The requests of a run ask, in order, about exactly the prompts of
  the run that are neither empty nor commands: the last message of the
  history of the i-th request is the user message of the i-th such prompt.
  In particular the number of requests is the number of these prompts,
  whether or not a request fails.\<close>

theorem main_requests_follow_prompts:
  "map asked_of (sends (since w (snd (main e w)))) =
     map userMessage (filter is_say (prompts_of e w))"
proof -
  from main_conforms [of w e]
  have "requests (snd (main e w)) = requests w @ sends (since w (snd (main e w)))"
    by (metis conforms_def extends_def replay_requests)
  with main_asked [of e w] show ?thesis by simp
qed

text \<open>C26. With \<^verbatim>\<open>DEBUG\<close> set, a prompt that is sent and answered has exactly
  these effects, in this order: the user message is echoed as JSON text, the
  request leaves with the user message in its history, the answer arrives,
  its content is printed, and the answer is echoed as JSON text.\<close>

theorem handlePrompt_debug_echo:
  assumes "initialized c" and "classify p = Say p" and "truthy (DEBUG e)"
    and "remote w (requests w @ [outgoing (pushed c p)]) = Completion (answer # others)"
  shows "since w (snd (snd (handlePrompt e p c w))) =
     [Print (Log (JSON_stringify (userMessage p))),
      Send (outgoing (pushed c p)), Receive (Completion (answer # others)),
      Print (Log (content answer)), Print (Log (JSON_stringify answer))]"
  using assms
  by (simp add: since_def classify_Say_iff startsWith_iff_prefix handlePrompt_def
      send_message_def callOpenaiChatApi_def createChatCompletion_def initialized_def
      outgoing_def pushed_def debug_log_def Let_def)

theorem handlePrompt_debug_echo_witness:
  "since demo_world (snd (snd (handlePrompt (demo_env\<lparr>DEBUG := Some (ascii ''1'')\<rparr>)
       (ascii ''hello'') demo_chat demo_world))) =
     [Print (Log (ascii ''{'' @ [0x22] @ ascii ''role'' @ [0x22] @ ascii '':'' @ [0x22]
        @ ascii ''user'' @ [0x22] @ ascii '','' @ [0x22] @ ascii ''content'' @ [0x22]
        @ ascii '':'' @ [0x22] @ ascii ''hello'' @ [0x22] @ ascii ''}'')),
      Send (ascii ''sk-demo'', \<lparr>req_model = ascii ''gpt-3.5-turbo'',
        req_messages = [userMessage (ascii ''hello'')]\<rparr>),
      Receive (Completion [demo_answer]),
      Print (Log (ascii ''hi'')),
      Print (Log (ascii ''{'' @ [0x22] @ ascii ''role'' @ [0x22] @ ascii '':'' @ [0x22]
        @ ascii ''assistant'' @ [0x22] @ ascii '','' @ [0x22] @ ascii ''content'' @ [0x22]
        @ ascii '':'' @ [0x22] @ ascii ''hi'' @ [0x22] @ ascii ''}''))]"
  using handlePrompt_debug_echo
    [of demo_chat "ascii ''hello''" "demo_env\<lparr>DEBUG := Some (ascii ''1'')\<rparr>" demo_world
        demo_answer "[]"]
  by (simp add: classify_def startsWith_def chat_consts outgoing_def demo_defs truthy_def
      userMessage_def JSON_stringify_eq QuoteJSONString_plain plain_unit_def role_key_def
      content_key_def)

text \<open>C25. The files that a run writes are, in order, exactly the files named by
  the save commands among its prompts that name a file which can be written;
  every other file is after the run what it was before.\<close>

theorem main_writes_follow_saves:
  "map fst (writes (since w (snd (main e w)))) = List.map_filter (saved_file w) (prompts_of e w)
   \<and> (\<forall>path. path \<in> set (List.map_filter (saved_file w) (prompts_of e w))
         \<or> files (snd (main e w)) path = files w path)"
proof -
  let ?tr = "since w (snd (main e w))"
  from main_conforms [of w e] have ext: "extends w (snd (main e w))"
    by (simp add: conforms_def)
  from main_trace_writes [of e w] extends_trace [OF ext]
  have names: "map fst (writes ?tr) = List.map_filter (saved_file w) (prompts_of e w)"
    by simp
  have "files (snd (main e w)) path = files w path"
    if "path \<notin> set (List.map_filter (saved_file w) (prompts_of e w))" for path
  proof -
    from that names have "path \<notin> fst ` set (writes ?tr)"
      by (simp flip: set_map)
    from replay_files [OF this, of w] ext show ?thesis
      by (simp add: extends_def)
  qed
  with names show ?thesis by blast
qed

text \<open>
  The monitor does reject: an answer that is not printed, a request sent
  while a query is open and a confirmation for another file are violations.
\<close>

lemma monitor_rejects:
  "run_monitor Idle [Send r, Receive (Completion [demo_answer]), Print (Log (ascii ''ho''))] = None"
  "run_monitor Idle [Print (Question q), Send r] = None"
  "run_monitor Idle [Write (ascii ''a'') d, Print (Log (ascii ''Chat saved to b''))] = None"
  by (simp_all add: demo_answer_def)

end
