(* ===== verification/Await_Steps.thy ===== *)
theory Await_Steps
  imports Program_Steps Effect_Trace
begin

text \<open>
  The run of \<^verbatim>\<open>src/index.js\<close> at the level of its \<^verbatim>\<open>await\<close>s.  In \<open>Program_Steps\<close>
  a call of \<^verbatim>\<open>handlePrompt\<close> is one transition.  Here the call is cut at the
  two places where it hands control back to the runtime until something
  outside the program has happened: line 59, where the request has left and
  the answer has not arrived (\<open>Requesting\<close>), and line 73, where the write has
  been asked for and has not been made (\<open>Saving\<close>).  The third such place, the
  query of line 121, is the configuration \<open>Waiting\<close> of \<open>Program_Steps\<close>.  An
  \<^verbatim>\<open>await\<close> on a promise that the program itself has settled (lines 104 and
  126, and a call that throws before it reaches the service) resumes without
  anything outside having happened and is no configuration of its own.

  \<open>enter\<close> is \<^verbatim>\<open>handlePrompt\<close> from its first line to its first \<^verbatim>\<open>await\<close> or to its
  end, \<open>resume_request\<close> and \<open>resume_save\<close> are the rest of it after the answer
  or the result of the write is there.  The theory shows that the finer
  relation \<open>astep\<close> refines \<open>step\<close> (a suspended configuration stands for the
  configuration that its resumption leads to), that it reaches the result of
  \<open>main\<close>, what holds while the program is suspended, and that lines which
  arrive one by one while the program waits for them give the run that
  \<open>main\<close> computes from the list of all lines.
\<close>

section \<open>The two halves of the request\<close>

text \<open>
  \<^verbatim>\<open>createChatCompletion(req)\<close> up to the point where the caller is suspended
  (the request leaves), and from the point where it is resumed (the answer
  arrives).
\<close>

definition begin_request :: "OpenAIApi \<Rightarrow> request \<Rightarrow> world \<Rightarrow> world" where
  "begin_request client req w = perform (Send (apiKey (configuration client), req)) w"

definition end_request :: "world \<Rightarrow> message list result" where
  "end_request w =
     (let answer = remote w (requests w)
      in case answer of
           Completion choices \<Rightarrow> (Inr choices, perform (Receive answer) w)
         | Failure e \<Rightarrow> (Inl e, perform (Receive answer) w))"

lemma createChatCompletion_halves:
  "createChatCompletion client req w = end_request (begin_request client req w)"
  by (simp add: createChatCompletion_def begin_request_def end_request_def Let_def
      split: api_result.splits)

section \<open>Configurations\<close>

datatype point =
    At control
  | Requesting generator OpenAiChat
  | Saving jsstring jsstring generator OpenAiChat

type_synonym aconfig = "point \<times> world"

fun lift :: "config \<Rightarrow> aconfig" where
  "lift (ctl, w) = (At ctl, w)"

section \<open>handlePrompt between its awaits\<close>

definition enter :: "env \<Rightarrow> jsstring \<Rightarrow> generator \<Rightarrow> OpenAiChat \<Rightarrow> world \<Rightarrow> aconfig" where
  "enter e prompt g c w =
     (if prompt = [] then
        (At (Catching (Error (ascii ''Invalid prompt '' @ prompt @ ascii ''.'')) g c), w)
      else if startsWith prompt CHAT_COMMAND_SAVE_TO then
        (let filename = substring prompt (length CHAT_COMMAND_SAVE_TO + 1)
         in (Saving filename (transcript (EOL e) (messages c)) g c, w))
      else if startsWith prompt CHAT_COMMAND_RESET_CHAT then
        (case resetChat c w of (c', w') \<Rightarrow> (At (Asking g c'), w'))
      else
        (let um = userMessage prompt;
             c1 = c\<lparr>messages := messages c @ [um]\<rparr>;
             w1 = debug_log e um w;
             req = \<lparr>req_model = model c1, req_messages = messages c1\<rparr>
         in case openai c1 of
              None \<Rightarrow> (At (Catching no_client g c1), w1)
            | Some client \<Rightarrow> (Requesting g c1, begin_request client req w1)))"

definition resume_request :: "env \<Rightarrow> generator \<Rightarrow> OpenAiChat \<Rightarrow> world \<Rightarrow> config" where
  "resume_request e g c w =
     (case end_request w of
        (Inl err, w') \<Rightarrow> (Catching err g c, w')
      | (Inr choices, w') \<Rightarrow>
          (case choices of
             [] \<Rightarrow> (Catching no_choice g c, w')
           | message # _ \<Rightarrow>
               (Asking g (c\<lparr>messages := messages c @ [message]\<rparr>),
                debug_log e message (console_log (content message) w'))))"

definition resume_save :: "jsstring \<Rightarrow> jsstring \<Rightarrow> generator \<Rightarrow> OpenAiChat \<Rightarrow> world \<Rightarrow> config" where
  "resume_save filename data g c w =
     (case writeFile filename data w of
        (Inl err, w') \<Rightarrow> (Catching err g c, w')
      | (Inr _, w') \<Rightarrow> (Asking g c, console_log (ascii ''Chat saved to '' @ filename) w'))"

section \<open>Transitions\<close>

fun is_handling :: "control \<Rightarrow> bool" where
  "is_handling (Handling p g c) = True"
| "is_handling _ = False"

inductive astep :: "env \<Rightarrow> aconfig \<Rightarrow> aconfig \<Rightarrow> bool" for e where
  outside:
    "step e (ctl, w) t \<Longrightarrow> \<not> is_handling ctl \<Longrightarrow> astep e (At ctl, w) (lift t)"
| entered:
    "astep e (At (Handling p g c), w) (enter e p g c w)"
| answered:
    "astep e (Requesting g c, w) (lift (resume_request e g c w))"
| written:
    "astep e (Saving filename data g c, w) (lift (resume_save filename data g c w))"

code_pred (modes: i \<Rightarrow> i \<Rightarrow> o \<Rightarrow> bool as astep_successor) astep .

text \<open>
  From a suspended configuration the only transition is the resumption.
\<close>

inductive_simps astep_Requesting [simp]: "astep e (Requesting g c, w) t"
inductive_simps astep_Saving [simp]: "astep e (Saving f d g c, w) t"

fun anext :: "env \<Rightarrow> aconfig \<Rightarrow> aconfig option" where
  "anext e (At (Handling p g c), w) = Some (enter e p g c w)"
| "anext e (At ctl, w) = map_option lift (next_config e (ctl, w))"
| "anext e (Requesting g c, w) = Some (lift (resume_request e g c w))"
| "anext e (Saving filename data g c, w) = Some (lift (resume_save filename data g c w))"

definition arun_for :: "env \<Rightarrow> nat \<Rightarrow> aconfig \<Rightarrow> aconfig option" where
  "arun_for e n s = iterate (anext e) n s"

text \<open>
  \<open>settled e s\<close> is the configuration of \<open>Program_Steps\<close> that \<open>s\<close> stands for: \<open>s\<close>
  itself when the program is not suspended in \<^verbatim>\<open>handlePrompt\<close>, and otherwise
  the configuration in which \<^verbatim>\<open>handlePrompt\<close> has returned or thrown.
\<close>

fun settled :: "env \<Rightarrow> aconfig \<Rightarrow> config" where
  "settled e (At ctl, w) = (ctl, w)"
| "settled e (Requesting g c, w) = resume_request e g c w"
| "settled e (Saving filename data g c, w) = resume_save filename data g c w"

fun suspended :: "aconfig \<Rightarrow> bool" where
  "suspended (At ctl, w) = False"
| "suspended s = True"

section \<open>handlePrompt is its parts\<close>

lemma settled_lift [simp]: "settled e (lift t) = t"
  by (cases t) simp

lemma not_suspended_lift [simp]: "\<not> suspended (lift t)"
  by (cases t) simp

text \<open>
  The call of \<^verbatim>\<open>handlePrompt\<close> as one transition is the call up to its first
  \<^verbatim>\<open>await\<close> followed by its resumption.
\<close>

lemma handlePrompt_enter:
  "settled e (enter e p g c w) =
     (case handlePrompt e p c w of
        (Inr u, c', w') \<Rightarrow> (Asking g c', w')
      | (Inl err, c', w') \<Rightarrow> (Catching err g c', w'))"
  by (simp add: enter_def handlePrompt_def save_to_def resume_save_def send_message_def
      callOpenaiChatApi_def createChatCompletion_halves resume_request_def Let_def
      split: prod.splits sum.splits option.splits list.splits)

lemma next_config_Handling:
  "next_config e (Handling p g c, w) = Some (settled e (enter e p g c w))"
  by (simp add: handlePrompt_enter)

section \<open>The relation as a function\<close>

lemma anext_At:
  "\<not> is_handling ctl \<Longrightarrow> anext e (At ctl, w) = map_option lift (next_config e (ctl, w))"
  by (cases ctl) simp_all

lemma astep_iff: "astep e s t \<longleftrightarrow> anext e s = Some t"
proof
  assume "astep e s t"
  then show "anext e s = Some t"
    by (induction rule: astep.induct) (simp_all add: anext_At step_iff)
next
  assume nxt: "anext e s = Some t"
  obtain pt w where s: "s = (pt, w)" by (cases s)
  show "astep e s t"
  proof (cases pt)
    case (At ctl)
    show ?thesis
    proof (cases "is_handling ctl")
      case True
      with At s nxt show ?thesis
        by (cases ctl) (auto intro: astep.entered)
    next
      case False
      with At s nxt obtain t' where "next_config e (ctl, w) = Some t'" and "t = lift t'"
        by (auto simp: anext_At)
      with False At s show ?thesis
        by (auto simp: step_iff intro: astep.outside)
    qed
  qed (use s nxt in \<open>auto intro: astep.intros\<close>)
qed

lemma astep_deterministic: "astep e s t \<Longrightarrow> astep e s t' \<Longrightarrow> t' = t"
  by (simp add: astep_iff)

lemma relpowp_arun_for: "(astep e ^^ n) s t \<longleftrightarrow> arun_for e n s = Some t"
  unfolding arun_for_def by (rule relpowp_iterate) (rule astep_iff)

fun afinal :: "aconfig \<Rightarrow> bool" where
  "afinal (At ctl, w) = is_final (ctl, w)"
| "afinal s = False"

lemma afinal_iff: "afinal s \<longleftrightarrow> anext e s = None"
proof (cases s)
  case (Pair pt w)
  then show ?thesis
  proof (cases pt)
    case (At ctl)
    with Pair show ?thesis by (cases ctl) (simp_all split: option.splits)
  qed simp_all
qed

lemma afinal_lift [simp]: "afinal (lift t) = is_final t"
  by (cases t) simp

lemma afinal_not_suspended: "afinal s \<Longrightarrow> \<not> suspended s"
  by (cases s rule: suspended.cases) simp_all

section \<open>Refinement\<close>

text \<open>
  A transition of the finer system is a transition of \<open>step\<close> between the
  configurations that source and target stand for when it starts outside a
  suspension, and changes nothing there when it is a resumption.
\<close>

lemma anext_settled:
  "map_option (settled e) (anext e s) =
     (if suspended s then Some (settled e s) else next_config e (settled e s))"
proof (cases s)
  case (Pair pt w)
  then show ?thesis
  proof (cases pt)
    case (At ctl)
    with Pair show ?thesis
      by (cases ctl) (simp_all add: handlePrompt_enter option.map_comp comp_def option.map_ident
          split: option.splits)
  qed simp_all
qed

lemma astep_settled:
  assumes "astep e s t"
  shows "if suspended s then settled e t = settled e s else step e (settled e s) (settled e t)"
  using assms anext_settled [of e s] by (auto simp: astep_iff step_iff)

lemma asteps_settled: "(astep e)\<^sup>*\<^sup>* s t \<Longrightarrow> (step e)\<^sup>*\<^sup>* (settled e s) (settled e t)"
proof (induction rule: rtranclp_induct)
  case (step t u)
  from astep_settled [OF step.hyps(2)] step.IH show ?case
    by (auto split: if_splits intro: rtranclp.rtrancl_into_rtrancl)
qed simp

text \<open>
  A transition of \<open>step\<close> is one transition of the finer system, or two with
  a suspension in between.
\<close>

lemma step_asteps:
  assumes "step e s t"
  shows "astep e (lift s) (lift t)
    \<or> (\<exists>u. suspended u \<and> astep e (lift s) u \<and> astep e u (lift t))"
proof (cases s)
  case (Pair ctl w)
  show ?thesis
  proof (cases "is_handling ctl")
    case False
    with assms Pair show ?thesis by (auto intro: astep.outside)
  next
    case True
    then obtain p g c where ctl: "ctl = Handling p g c" by (cases ctl) simp_all
    let ?u = "enter e p g c w"
    from assms Pair ctl have t: "t = settled e ?u"
      by (simp add: step_iff handlePrompt_enter)
    have first: "astep e (lift s) ?u"
      using Pair ctl by (simp add: astep.entered)
    show ?thesis
    proof (cases "suspended ?u")
      case True
      then have "astep e ?u (lift (settled e ?u))"
        by (cases ?u rule: suspended.cases) (auto intro: astep.intros)
      with first True t show ?thesis by blast
    next
      case False
      then have "?u = lift (settled e ?u)"
        by (cases ?u rule: suspended.cases) simp_all
      with first t show ?thesis by simp
    qed
  qed
qed

lemma steps_asteps: "(step e)\<^sup>*\<^sup>* s t \<Longrightarrow> (astep e)\<^sup>*\<^sup>* (lift s) (lift t)"
proof (induction rule: rtranclp_induct)
  case (step t u)
  from step_asteps [OF step.hyps(2)] have "(astep e)\<^sup>*\<^sup>* (lift t) (lift u)"
    by (auto intro: rtranclp.rtrancl_into_rtrancl)
  with step.IH show ?case by (rule rtranclp_trans)
qed simp

lemma asteps_iff_steps:
  "(astep e)\<^sup>*\<^sup>* (lift s) (lift t) \<longleftrightarrow> (step e)\<^sup>*\<^sup>* s t"
  using asteps_settled [of e "lift s" "lift t"] steps_asteps [of e s t] by auto

text \<open>
  Every run between the awaits is finite: a transition either is a transition
  of \<open>step\<close>, which is well-founded, or resumes a suspension.
\<close>

lemma wf_astep: "wf {(t, s). astep e s t}"
proof (rule wf_subset)
  show "wf (inv_image (measure rank <*lex*> measure (\<lambda>b. if b then 1 else 0))
      (\<lambda>s. (settled e s, suspended s)))"
    by (intro wf_inv_image wf_lex_prod wf_measure)
  show "{(t, s). astep e s t}
      \<subseteq> inv_image (measure rank <*lex*> measure (\<lambda>b. if b then 1 else 0))
          (\<lambda>s. (settled e s, suspended s))"
  proof clarify
    fix s t
    assume st: "astep e s t"
    show "(t, s) \<in> inv_image (measure rank <*lex*> measure (\<lambda>b. if b then 1 else 0))
        (\<lambda>s. (settled e s, suspended s))"
    proof (cases "suspended s")
      case True
      with st have "\<not> suspended t"
        by (cases s rule: suspended.cases) auto
      with True astep_settled [OF st] show ?thesis by simp
    next
      case False
      with astep_settled [OF st] step_rank [of e "settled e s" "settled e t"]
      show ?thesis by simp
    qed
  qed
qed

section \<open>Agreement with the functions\<close>

lemma lift_settled: "\<not> suspended s \<Longrightarrow> lift (settled e s) = s"
  by (cases s rule: suspended.cases) simp_all

lemma await_main_steps:
  "\<exists>t. (astep e)\<^sup>*\<^sup>* (At Start, w) t \<and> afinal t \<and> outcome (settled e t) = main e w"
proof -
  obtain t where "(step e)\<^sup>*\<^sup>* (Start, w) t" "is_final t" "outcome t = main e w"
    using main_steps by blast
  with steps_asteps [of e "(Start, w)" t] show ?thesis
    by (intro exI [of _ "lift t"]) simp
qed

lemma afinal_unique:
  assumes "(astep e)\<^sup>*\<^sup>* s t" and "afinal t" and "(astep e)\<^sup>*\<^sup>* s t'" and "afinal t'"
  shows "t' = t"
proof -
  from assms(2,4) have ns: "\<not> suspended t" "\<not> suspended t'"
    by (simp_all add: afinal_not_suspended)
  with assms(2,4) have "is_final (settled e t)" "is_final (settled e t')"
    using afinal_lift [of "settled e t"] afinal_lift [of "settled e t'"]
    by (simp_all add: lift_settled)
  with asteps_settled [OF assms(1)] asteps_settled [OF assms(3)]
  have "settled e t' = settled e t"
    by (blast intro: final_unique)
  with ns show ?thesis
    by (metis lift_settled)
qed

section \<open>Where handlePrompt suspends\<close>

lemma suspended_enter:
  "suspended (enter e p g c w) \<longleftrightarrow>
     (\<exists>f. classify p = SaveTo f) \<or> (classify p = Say p \<and> (\<exists>client. openai c = Some client))"
  by (auto simp: enter_def classify_def Let_def split: option.splits prod.splits)

section \<open>What holds while the program is suspended\<close>

text \<open>
  \<open>await_inv\<close> extends the invariant of runs (\<open>config_inv\<close>) to the suspended
  configurations.  While a request is awaited, it is the last request
  recorded and it carries the history of the object as it is, which ends
  in the user message of the prompt; the history before that message is
  reachable in the abstract session.  While a write is awaited, the data
  being written is the transcript of the history as it is.
\<close>

fun await_inv :: "env \<Rightarrow> jsstring \<Rightarrow> jsstring \<Rightarrow> aconfig \<Rightarrow> bool" where
  "await_inv e k m (At ctl, w) = config_inv k m (ctl, w)"
| "await_inv e k m (Requesting g c, w) \<longleftrightarrow>
     session_inv k m c w \<and> requests w \<noteq> [] \<and> last (requests w) = outgoing c
     \<and> messages c \<noteq> [] \<and> is_user (last (messages c)) \<and> reachable (butlast (messages c))"
| "await_inv e k m (Saving filename data g c, w) \<longleftrightarrow>
     session_inv k m c w \<and> reachable (messages c)
     \<and> data = transcript (EOL e) (messages c)"

lemma is_user_eq: "is_user m \<Longrightarrow> m = userMessage (content m)"
  by (cases m) (simp add: is_user_def userMessage_def)

lemma reachable_pending:
  assumes "reachable (butlast ms)" and "ms \<noteq> []" and "is_user (last ms)"
  shows "reachable ms" and "reachable (ms @ [a])"
proof -
  from assms(2,3) have ms: "ms = butlast ms @ [userMessage (content (last ms))]"
    using is_user_eq [of "last ms"] by simp
  from assms(1) have "reachable (butlast ms @ [userMessage (content (last ms))])"
    by (rule reachable.step) (rule session_step.unanswered)
  with ms show "reachable ms" by simp
  from assms(1) have "reachable (butlast ms @ [userMessage (content (last ms)), a])"
    by (rule reachable.step) (rule session_step.answered)
  with ms show "reachable (ms @ [a])"
    by (metis append.assoc append_Cons append_Nil)
qed

lemma well_formed_answer:
  "well_formed ms \<Longrightarrow> ms \<noteq> [] \<Longrightarrow> is_user (last ms) \<Longrightarrow> well_formed (ms @ [a])"
  by (simp add: well_formed_def dialogue_append)

lemma enter_await_inv:
  assumes "session_inv k m c w" and "reachable (messages c)"
  shows "await_inv e k m (enter e p g c w)"
proof -
  from assms(1) have c: "initialized c" "openaiApiKey c = k" "model c = m"
    "well_formed (messages c)" "list_all (request_ok k m) (requests w)"
    by (simp_all add: session_inv_def)
  from c(1,2) have client: "openai c = Some (OpenAIApi (Configuration k))"
    by (simp add: initialized_def)
  consider "p = []" | f where "classify p = SaveTo f" | "classify p = Reset" | "classify p = Say p"
    by (cases "classify p") (auto simp: classify_Say_iff)
  then show ?thesis
  proof cases
    case 1
    with assms show ?thesis by (simp add: enter_def)
  next
    case 2
    with assms show ?thesis
      by (auto simp: enter_def classify_def Let_def split: if_splits)
  next
    case 3
    with c show ?thesis
      by (auto simp: enter_def classify_def session_inv_def split: if_splits
          intro: reachable.initial)
  next
    case 4
    then have "p \<noteq> []" "\<not> startsWith p CHAT_COMMAND_SAVE_TO"
      "\<not> startsWith p CHAT_COMMAND_RESET_CHAT"
      by (simp_all add: classify_Say_iff startsWith_iff_prefix)
    with c client assms(2) show ?thesis
      by (simp add: enter_def Let_def begin_request_def session_inv_def request_ok_def
          outgoing_def)
  qed
qed

lemma resume_request_await_inv:
  assumes "await_inv e k m (Requesting g c, w)"
  shows "config_inv k m (resume_request e g c w)"
  using assms reachable_pending [of "messages c"]
  by (auto simp: resume_request_def end_request_def Let_def session_inv_def well_formed_answer
      split: api_result.splits list.splits)

lemma resume_save_await_inv:
  assumes "await_inv e k m (Saving f d g c, w)"
  shows "config_inv k m (resume_save f d g c w)"
  using assms
  by (auto simp: resume_save_def session_inv_def writeFile_def split: option.splits if_splits)

lemma await_inv_lift [simp]: "await_inv e k m (lift t) = config_inv k m t"
  by (cases t) simp

lemma astep_await_inv:
  assumes "astep e s t" and "OPENAI_API_KEY e = Some k"
    and "m = or_else (CHAT_OPENAI_MODEL e) CHAT_DEFAULT_MODEL" and "await_inv e k m s"
  shows "await_inv e k m t"
  using assms
proof (induction rule: astep.induct)
  case (outside ctl w t)
  then show ?case by (auto intro: step_config_inv)
next
  case (entered p g c w)
  then show ?case by (simp add: enter_await_inv)
next
  case (answered g c w)
  then show ?case by (simp add: resume_request_await_inv)
next
  case (written filename data g c w)
  then show ?case by (simp add: resume_save_await_inv)
qed

lemma asteps_await_inv:
  assumes "(astep e)\<^sup>*\<^sup>* s t" and "OPENAI_API_KEY e = Some k"
    and "m = or_else (CHAT_OPENAI_MODEL e) CHAT_DEFAULT_MODEL" and "await_inv e k m s"
  shows "await_inv e k m t"
  using assms by (induction rule: rtranclp_induct) (auto intro: astep_await_inv)

section \<open>The discipline of interactions between the awaits\<close>

text \<open>
  The parts of \<^verbatim>\<open>handlePrompt\<close> against the monitor of \<open>Effect_Trace\<close>: the part
  before the first \<^verbatim>\<open>await\<close> leaves a request unanswered exactly when it ends
  in \<open>Requesting\<close>; the resumptions start from there and end with nothing
  outstanding, or with the line of the error outstanding when they throw.
\<close>

fun is_requesting :: "point \<Rightarrow> bool" where
  "is_requesting (Requesting g c) = True"
| "is_requesting _ = False"

fun is_catching :: "control \<Rightarrow> bool" where
  "is_catching (Catching err g c) = True"
| "is_catching _ = False"

lemma enter_conforms:
  "conforms Idle w (snd (enter e p g c w))
     (if is_requesting (fst (enter e p g c w)) then Sent else Idle)"
  by (auto simp: enter_def Let_def begin_request_def debug_log_def
      intro!: conforms_then_perform conforms_then_emit [where ph' = Idle]
      split: option.splits)

lemma resume_request_conforms:
  "conforms Sent w (snd (resume_request e g c w))
     (if is_catching (fst (resume_request e g c w)) then Failing else Idle)"
  by (auto simp: resume_request_def end_request_def Let_def debug_log_def
      intro!: conforms_perform conforms_then_emit [OF conforms_then_emit [OF conforms_perform]]
        conforms_then_emit [OF conforms_perform]
      split: api_result.splits list.splits)

lemma resume_save_conforms:
  "conforms Idle w (snd (resume_save f d g c w))
     (if is_catching (fst (resume_save f d g c w)) then Failing else Idle)"
  by (auto simp: resume_save_def writeFile_def
      intro!: conforms_perform conforms_then_emit [OF conforms_perform]
      split: option.splits)

section \<open>Lines that arrive while the program waits\<close>

text \<open>
  \<^verbatim>\<open>handlePrompt\<close> and the loop body neither read standard input nor depend on
  it: with other lines waiting they do the same and leave these lines
  waiting.
\<close>

lemma perform_stdin_update:
  "\<forall>line. ef \<noteq> Read line \<Longrightarrow>
     perform ef (w\<lparr>stdin := ls\<rparr>) = (perform ef w)\<lparr>stdin := ls\<rparr>"
  by (cases ef) (simp_all add: perform_def)

lemma emit_stdin_update [simp]: "emit out (w\<lparr>stdin := ls\<rparr>) = (emit out w)\<lparr>stdin := ls\<rparr>"
  by (simp add: emit_def perform_stdin_update)

lemma debug_log_stdin_update [simp]:
  "debug_log e m (w\<lparr>stdin := ls\<rparr>) = (debug_log e m w)\<lparr>stdin := ls\<rparr>"
  by (simp add: debug_log_def)

lemma report_stdin_update [simp]:
  "report err (w\<lparr>stdin := ls\<rparr>) = (report err w)\<lparr>stdin := ls\<rparr>"
  by (simp add: report_def split: option.splits)

lemma handlePrompt_stdin_update:
  "handlePrompt e p c (w\<lparr>stdin := ls\<rparr>) =
     (case handlePrompt e p c w of (r, c', w') \<Rightarrow> (r, c', w'\<lparr>stdin := ls\<rparr>))"
  by (simp add: handlePrompt_def save_to_def writeFile_def send_message_def
      callOpenaiChatApi_def createChatCompletion_def Let_def perform_stdin_update
      split: option.splits api_result.splits list.splits)

lemma attempt_stdin_update:
  "attempt e p c (w\<lparr>stdin := ls\<rparr>) =
     (fst (attempt e p c w), (snd (attempt e p c w))\<lparr>stdin := ls\<rparr>)"
  by (simp add: attempt_def handlePrompt_stdin_update split: prod.splits sum.splits)

text \<open>
  A session: the program runs until it waits for a line, a line arrives and
  is handed to the query (line 121), and so on for every line of the list;
  after the last line the program runs on as far as it gets.
\<close>

inductive session :: "env \<Rightarrow> aconfig \<Rightarrow> jsstring list \<Rightarrow> aconfig \<Rightarrow> bool" for e where
  quiet: "(astep e)\<^sup>*\<^sup>* s t \<Longrightarrow> session e s [] t"
| line:
    "(astep e)\<^sup>*\<^sup>* s (At (Waiting c), w) \<Longrightarrow>
     session e (At (Handling l Readline c), perform (Read l) w) ls t \<Longrightarrow>
       session e s (l # ls) t"

code_pred session .

inductive_cases session_NilE: "session e s [] t"
inductive_cases session_ConsE: "session e s (l # ls) t"

lemma session_prefix: "(astep e)\<^sup>*\<^sup>* s s' \<Longrightarrow> session e s' ls t \<Longrightarrow> session e s ls t"
  by (cases ls) (auto elim!: session_NilE session_ConsE intro: session.intros rtranclp_trans)

text \<open>
  With no line there the loop asks and waits; a line that arrives is handled
  as the loop of \<open>Chat_Loop\<close> handles the first of the lines it was given.
\<close>

lemma asking_waits:
  assumes "stdin w = []"
  shows "(astep e)\<^sup>*\<^sup>* (At (Asking Readline c), w)
     (At (Waiting c), emit (Question readline_query) w)"
proof -
  from assms have "step e (Asking Readline c, w) (Waiting c, emit (Question readline_query) w)"
    by (intro step.pending) (simp add: next_prompt_Readline_Pending)
  then have "astep e (At (Asking Readline c), w) (lift (Waiting c, emit (Question readline_query) w))"
    by (rule astep.outside) simp
  then show ?thesis by auto
qed

lemma chat_loop_arrived:
  "chat_loop e Readline c (w\<lparr>stdin := l # ls\<rparr>) =
     chat_loop e Readline
       (fst (attempt e l c (perform (Read l) (emit (Question readline_query) w))))
       ((snd (attempt e l c (perform (Read l) (emit (Question readline_query) w))))
          \<lparr>stdin := ls\<rparr>)"
proof -
  let ?asked = "emit (Question readline_query) w"
  have rd: "perform (Read l) (?asked\<lparr>stdin := l # ls\<rparr>) = (perform (Read l) ?asked)\<lparr>stdin := ls\<rparr>"
    by (simp add: perform_def)
  show ?thesis
    by (simp add: chat_loop_Readline_Cons [of _ l ls] rd attempt_stdin_update
        del: attempt_object)
qed

lemma session_loop:
  "stdin w = [] \<Longrightarrow>
     session e (At (Asking Readline c), w) ls
       (lift (final_of (chat_loop e Readline c (w\<lparr>stdin := ls\<rparr>))))"
proof (induction ls arbitrary: c w)
  case Nil
  then have eq: "w\<lparr>stdin := []\<rparr> = w" by (cases w) simp
  from Nil asking_waits [of w e c] have "session e (At (Asking Readline c), w) []
      (lift (final_of (chat_loop e Readline c w)))"
    by (auto simp: chat_loop_Readline_Nil intro!: session.quiet)
  then show ?case by (simp only: eq)
next
  case (Cons l ls)
  let ?w1 = "perform (Read l) (emit (Question readline_query) w)"
  let ?c' = "fst (attempt e l c ?w1)" and ?w2 = "snd (attempt e l c ?w1)"
  from Cons.prems have "stdin ?w2 = []" by simp
  from Cons.IH [OF this, of ?c']
  have "session e (At (Asking Readline ?c'), ?w2) ls
      (lift (final_of (chat_loop e Readline c (w\<lparr>stdin := l # ls\<rparr>))))"
    by (simp only: chat_loop_arrived)
  moreover
  have "(astep e)\<^sup>*\<^sup>* (lift (Handling l Readline c, ?w1)) (lift (Asking Readline ?c', ?w2))"
    by (rule steps_asteps) (rule handling_steps)
  ultimately have "session e (At (Handling l Readline c), ?w1) ls
      (lift (final_of (chat_loop e Readline c (w\<lparr>stdin := l # ls\<rparr>))))"
    by (auto intro: session_prefix simp del: attempt_object)
  with asking_waits [OF Cons.prems] show ?case
    by (rule session.line)
qed

lemma session_final_unique:
  assumes "session e s ls t" and "afinal t" and "session e s ls t'" and "afinal t'"
  shows "t' = t"
  using assms
proof (induction arbitrary: t' rule: session.induct)
  case (quiet s t)
  from quiet.prems(2) have "(astep e)\<^sup>*\<^sup>* s t'"
    by (rule session_NilE)
  with quiet show ?case by (blast intro: afinal_unique)
next
  case (line s c w l ls t)
  from line.prems(2) obtain c' w' where
    waits: "(astep e)\<^sup>*\<^sup>* s (At (Waiting c'), w')"
    and rest: "session e (At (Handling l Readline c'), perform (Read l) w') ls t'"
    by (rule session_ConsE)
  have "(At (Waiting c'), w') = (At (Waiting c), w)"
    by (rule afinal_unique [OF line.hyps(1) _ waits]) simp_all
  with rest line.IH line.prems show ?case by simp
qed

lemma session_main:
  assumes "OPENAI_API_KEY e = Some k" and "k \<noteq> []" and "length (argv e) \<le> 2"
  shows "session e (At Start, w\<lparr>stdin := []\<rparr>) (stdin w)
     (At (Waiting (fst (snd (chat e (new_chat e k) w)))), snd (main e w))"
proof -
  let ?w0 = "w\<lparr>stdin := []\<rparr>" and ?c = "new_chat e k"
  from assms(3) have src: "select_promptSource e = promptFromReadline"
    by (simp add: select_promptSource_def)
  have "step e (Start, ?w0) (Asking (start (select_promptSource e)) ?c, console_log welcome_line ?w0)"
    using assms(1,2) by (rule step.welcomed)
  then have "astep e (At Start, ?w0)
      (lift (Asking (start (select_promptSource e)) ?c, console_log welcome_line ?w0))"
    by (rule astep.outside) simp
  with src have first: "(astep e)\<^sup>*\<^sup>* (At Start, ?w0) (At (Asking Readline ?c), console_log welcome_line ?w0)"
    by auto
  have "session e (At (Asking Readline ?c), console_log welcome_line ?w0) (stdin w)
      (lift (final_of (chat_loop e Readline ?c ((console_log welcome_line ?w0)\<lparr>stdin := stdin w\<rparr>))))"
    by (rule session_loop) simp
  moreover have "(console_log welcome_line ?w0)\<lparr>stdin := stdin w\<rparr> = console_log welcome_line w"
    by (cases w) (simp add: emit_def perform_def)
  ultimately have "session e (At (Asking Readline ?c), console_log welcome_line ?w0) (stdin w)
      (lift (final_of (chat e ?c w)))"
    by (simp add: chat_def src del: emit_stdin_update)
  moreover have "fst (chat e ?c w) = Pending_promise"
    by (simp add: chat_def src chat_loop_promise)
  then have "final_of (chat e ?c w) = (Waiting (fst (snd (chat e ?c w))), snd (snd (chat e ?c w)))"
    by (cases "chat e ?c w") simp
  ultimately show ?thesis
    using first assms(1,2) by (auto simp: main_world intro: session_prefix)
qed

section \<open>Runs that are computed\<close>

lemma arun_for_reaches: "arun_for e n s = Some t \<Longrightarrow> (astep e)\<^sup>*\<^sup>* s t"
  by (auto simp: rtranclp_power relpowp_arun_for)

section \<open>Properties of the run between the awaits\<close>


text \<open>From the start exactly one final configuration can be reached by the
  transitions between the awaits, and its exit code and world are the result
  of \<open>main\<close>.\<close>

lemma await_agrees_with_main:
  "(\<lambda>t. outcome (settled e t)) ` {t. (astep e)\<^sup>*\<^sup>* (At Start, w) t \<and> afinal t} = {main e w}"
proof -
  obtain t where t: "(astep e)\<^sup>*\<^sup>* (At Start, w) t" "afinal t" "outcome (settled e t) = main e w"
    using await_main_steps by blast
  then have "{t. (astep e)\<^sup>*\<^sup>* (At Start, w) t \<and> afinal t} = {t}"
    by (auto dest: afinal_unique)
  with t(3) show ?thesis by simp
qed

text \<open>C18. What holds while the program is suspended, in every run.  While a
  request is awaited it is the last request recorded, it carries the
  credential, the model and the history of the object as it is, and this
  history ends in the user message of the prompt, after a history that is
  reachable in the abstract session.  While a write is awaited the data being
  written is the transcript of the history as it is.  Outside the
  suspensions the invariant of runs holds.\<close>

theorem suspended_invariant:
  assumes "(astep e)\<^sup>*\<^sup>* (At Start, w) s" and "OPENAI_API_KEY e = Some k"
    and "list_all (request_ok k (or_else (CHAT_OPENAI_MODEL e) CHAT_DEFAULT_MODEL)) (requests w)"
  shows "await_inv e k (or_else (CHAT_OPENAI_MODEL e) CHAT_DEFAULT_MODEL) s"
proof -
  from assms(3)
  have "await_inv e k (or_else (CHAT_OPENAI_MODEL e) CHAT_DEFAULT_MODEL) (At Start, w)"
    by simp
  with assms(1,2) show ?thesis
    by (rule asteps_await_inv [OF _ _ refl])
qed

theorem suspended_invariant_witness:
  "await_inv demo_env (ascii ''sk-demo'') CHAT_DEFAULT_MODEL
     (Saving (ascii ''out.txt'') [] Readline (new_chat demo_env (ascii ''sk-demo'')),
      demo_world\<lparr>console := [Log welcome_line, Question readline_query],
        trace := [Print (Log welcome_line), Print (Question readline_query),
          Read (ascii ''save to out.txt'')]\<rparr>)"
  using suspended_invariant
    [OF arun_for_reaches
      [of demo_env 3 "(At Start, demo_world\<lparr>stdin := [ascii ''save to out.txt'']\<rparr>)"],
      of _ "ascii ''sk-demo''"]
  by (simp add: arun_for_def iterate_numeral js_eval js_string_rec next_prompt.simps(3)
      enter_def transcript_defs)

text \<open>C20. Lines that arrive over time.  When the lines of standard input
  arrive one at a time, each while the program waits for it at its query,
  the program does what \<open>main\<close> computes from the list of all lines: the session
  ends waiting at a last query, with the object and the world of that run,
  and in no other final configuration.\<close>

theorem interactive_session:
  assumes "OPENAI_API_KEY e = Some k" and "k \<noteq> []" and "length (argv e) \<le> 2"
  shows "session e (At Start, w\<lparr>stdin := []\<rparr>) (stdin w)
       (At (Waiting (fst (snd (chat e (new_chat e k) w)))), snd (main e w))
     \<and> (\<forall>t. session e (At Start, w\<lparr>stdin := []\<rparr>) (stdin w) t \<and> afinal t \<longrightarrow>
           t = (At (Waiting (fst (snd (chat e (new_chat e k) w)))), snd (main e w)))"
proof -
  let ?T = "(At (Waiting (fst (snd (chat e (new_chat e k) w)))), snd (main e w))"
  have run: "session e (At Start, w\<lparr>stdin := []\<rparr>) (stdin w) ?T"
    using assms by (rule session_main)
  moreover have "t = ?T" if "session e (At Start, w\<lparr>stdin := []\<rparr>) (stdin w) t" "afinal t" for t
    by (rule session_final_unique [OF run _ that]) simp
  ultimately show ?thesis by blast
qed

theorem interactive_session_witness:
  "session demo_env (At Start, demo_world) [ascii ''hello'']
     (At (Waiting ((new_chat demo_env (ascii ''sk-demo''))
           \<lparr>messages := [userMessage (ascii ''hello''), demo_answer]\<rparr>)),
      demo_world\<lparr>console := [Log welcome_line, Question readline_query, Log (ascii ''hi''),
          Question readline_query],
        requests := [(ascii ''sk-demo'', \<lparr>req_model = ascii ''gpt-3.5-turbo'',
          req_messages = [userMessage (ascii ''hello'')]\<rparr>)],
        trace := [Print (Log welcome_line), Print (Question readline_query),
          Read (ascii ''hello''),
          Send (ascii ''sk-demo'', \<lparr>req_model = ascii ''gpt-3.5-turbo'',
            req_messages = [userMessage (ascii ''hello'')]\<rparr>),
          Receive (Completion [demo_answer]), Print (Log (ascii ''hi'')),
          Print (Question readline_query)]\<rparr>)"
  using interactive_session [of demo_env "ascii ''sk-demo''"
      "demo_world\<lparr>stdin := [ascii ''hello'']\<rparr>"]
  by (simp add: js_eval userMessage_def chat_def chat_loop_Readline_foldl ask_and_attempt_def)

end
