(* ===== verification/Generic_Loop.thy ===== *)
theory Generic_Loop
  imports Chat_Spec
begin

text \<open>
  The class \<^verbatim>\<open>OpenAiChat\<close> takes its prompt source as a parameter of the
  constructor: \<^verbatim>\<open>chat()\<close> runs over whatever async generator
  \<^verbatim>\<open>this._promptSource()\<close> returns (\<^verbatim>\<open>src/index.js\<close> line 102).  Here the loop
  is defined over any source, given by the step function of its generator
  over a type of generator states.  Such a loop need not end, so \<open>loop_over\<close>
  is a partial function: \<open>None\<close> is a loop that runs forever.

  The lemmas are those of a client of the interface: the loop returns when a
  measure decreases with every prompt, it keeps every invariant that the
  source and the loop body keep, and it rejects when the source throws.  The
  two sources of the script satisfy the assumptions: for them \<open>loop_over\<close>
  returns what \<open>chat_loop\<close> gives.
\<close>

section \<open>The loop\<close>

type_synonym 'g source = "'g \<Rightarrow> world \<Rightarrow> 'g next_result"

partial_function (option) loop_over ::
    "'g source \<Rightarrow> env \<Rightarrow> 'g \<Rightarrow> OpenAiChat \<Rightarrow> world \<Rightarrow> run option" where
  "loop_over nxt e g c w =
     (case nxt g w of
        Done w' \<Rightarrow> Some (Fulfilled, c, w')
      | Pending w' \<Rightarrow> Some (Pending_promise, c, w')
      | Thrown err w' \<Rightarrow> Some (Rejected err, c, w')
      | Yield prompt g' w' \<Rightarrow>
          (case attempt e prompt c w' of (c', w'') \<Rightarrow> loop_over nxt e g' c' w''))"

definition chat_over :: "'g source \<Rightarrow> 'g \<Rightarrow> env \<Rightarrow> OpenAiChat \<Rightarrow> world \<Rightarrow> run option" where
  "chat_over nxt g e c w = loop_over nxt e g c (console_log welcome_line w)"

fun world_of :: "'g next_result \<Rightarrow> world" where
  "world_of (Yield p g w) = w"
| "world_of (Done w) = w"
| "world_of (Pending w) = w"
| "world_of (Thrown err w) = w"

section \<open>One unfolding\<close>

lemma loop_over_Done: "nxt g w = Done w' \<Longrightarrow> loop_over nxt e g c w = Some (Fulfilled, c, w')"
  by (subst loop_over.simps) simp

lemma loop_over_Pending:
  "nxt g w = Pending w' \<Longrightarrow> loop_over nxt e g c w = Some (Pending_promise, c, w')"
  by (subst loop_over.simps) simp

lemma loop_over_Thrown:
  "nxt g w = Thrown err w' \<Longrightarrow> loop_over nxt e g c w = Some (Rejected err, c, w')"
  by (subst loop_over.simps) simp

lemma loop_over_Yield:
  "nxt g w = Yield p g' w' \<Longrightarrow>
     loop_over nxt e g c w =
       loop_over nxt e g' (fst (attempt e p c w')) (snd (attempt e p c w'))"
  by (subst loop_over.simps) (simp add: case_prod_beta del: attempt_object)

lemmas loop_over_unfold = loop_over_Done loop_over_Pending loop_over_Thrown loop_over_Yield

section \<open>Invariants\<close>

text \<open>
  Partial correctness: when the loop returns, a property of object and world
  that the loop body and every step of the source keep holds of the result.
\<close>

lemma loop_over_invariant:
  assumes ret: "loop_over nxt e g c w = Some r"
    and init: "P c w"
    and body: "\<And>p c w. P c w \<Longrightarrow> P (fst (attempt e p c w)) (snd (attempt e p c w))"
    and src: "\<And>g c w. P c w \<Longrightarrow> P c (world_of (nxt g w))"
  shows "P (fst (snd r)) (snd (snd r))"
proof -
  have "nxt = nxt \<longrightarrow> e = e \<longrightarrow> P c w \<longrightarrow> P (fst (snd r)) (snd (snd r))"
  proof (rule loop_over.raw_induct
      [where P = "\<lambda>nxt' e' g c w r. nxt' = nxt \<longrightarrow> e' = e \<longrightarrow> P c w
          \<longrightarrow> P (fst (snd r)) (snd (snd r))", OF _ ret])
    fix f and nxt' :: "'a source" and e' g c w r
    assume IH: "\<And>nxt' e' g c w r. f nxt' e' g c w = Some r \<Longrightarrow>
        nxt' = nxt \<longrightarrow> e' = e \<longrightarrow> P c w \<longrightarrow> P (fst (snd r)) (snd (snd r))"
      and eq: "(case nxt' g w of
          Done w' \<Rightarrow> Some (Fulfilled, c, w')
        | Pending w' \<Rightarrow> Some (Pending_promise, c, w')
        | Thrown err w' \<Rightarrow> Some (Rejected err, c, w')
        | Yield prompt g' w' \<Rightarrow>
            (case attempt e' prompt c w' of (c', w'') \<Rightarrow> f nxt' e' g' c' w'')) = Some r"
    show "nxt' = nxt \<longrightarrow> e' = e \<longrightarrow> P c w \<longrightarrow> P (fst (snd r)) (snd (snd r))"
    proof (intro impI)
      assume same: "nxt' = nxt" "e' = e" and P: "P c w"
      from src [OF P, of g] have w': "P c (world_of (nxt g w))" .
      show "P (fst (snd r)) (snd (snd r))"
      proof (cases "nxt g w")
        case (Yield p g' w')
        with w' have "P (fst (attempt e p c w')) (snd (attempt e p c w'))"
          by (simp add: body del: attempt_object)
        moreover from eq same Yield
        have "f nxt e g' (fst (attempt e p c w')) (snd (attempt e p c w')) = Some r"
          by (simp add: case_prod_beta del: attempt_object)
        ultimately show ?thesis using IH by blast
      qed (use eq same w' in auto)
    qed
  qed
  with init show ?thesis by simp
qed

section \<open>The sources of the script\<close>

lemma loop_over_chat_loop: "loop_over (next_prompt e) e g c w = Some (chat_loop e g c w)"
proof (induction e g c w rule: chat_loop.induct)
  case (1 e g c w)
  show ?case
  proof (cases "next_prompt e g w")
    case (Yield p g' w')
    with "1.IH" [OF Yield prod.collapse] show ?thesis
      by (subst chat_loop.simps) (simp add: loop_over_Yield case_prod_beta del: attempt_object)
  qed (subst chat_loop.simps, simp add: loop_over_unfold)+
qed

lemma next_prompt_requests [simp]: "requests (world_of (next_prompt e g w)) = requests w"
  by (cases g) (simp_all add: next_prompt.simps(3) question_def Let_def split: list.splits)

section \<open>A loop that never ends\<close>

text \<open>
  The loop is partial in earnest: over a source that yields the same prompt
  for ever, without reading anything, it does not return.
\<close>

lemma loop_over_forever: "loop_over (\<lambda>g w. Yield p g w) e g c w = None"
proof -
  have "loop_over nxt e g c w = Some r \<Longrightarrow> nxt \<noteq> (\<lambda>g w. Yield p g w)" for nxt r
  proof (rule loop_over.raw_induct
      [where P = "\<lambda>nxt e g c w r. nxt \<noteq> (\<lambda>g w. Yield p g w)"])
    fix f and nxt :: "'a source" and e g c w r
    assume IH: "\<And>nxt e g c w r. f nxt e g c w = Some r \<Longrightarrow> nxt \<noteq> (\<lambda>g w. Yield p g w)"
      and eq: "(case nxt g w of
          Done w' \<Rightarrow> Some (Fulfilled, c, w')
        | Pending w' \<Rightarrow> Some (Pending_promise, c, w')
        | Thrown err w' \<Rightarrow> Some (Rejected err, c, w')
        | Yield prompt g' w' \<Rightarrow>
            (case attempt e prompt c w' of (c', w'') \<Rightarrow> f nxt e g' c' w'')) = Some r"
    show "nxt \<noteq> (\<lambda>g w. Yield p g w)"
    proof
      assume nxt: "nxt = (\<lambda>g w. Yield p g w)"
      with eq have "f nxt e g (fst (attempt e p c w)) (snd (attempt e p c w)) = Some r"
        by (simp add: case_prod_beta del: attempt_object)
      from IH [OF this] nxt show False by simp
    qed
  qed
  then show ?thesis by (cases "loop_over (\<lambda>g w. Yield p g w) e g c w") auto
qed

section \<open>Properties of the loop over any source\<close>




text \<open>C23. When the prompt source throws, the loop ends at once: the promise
  of \<^verbatim>\<open>chat()\<close> is rejected with the error of the source, and the rejection
  handler of the script (lines 145--148) prints the error and exits with
  code 1.\<close>

theorem loop_over_source_throws:
  assumes "nxt g w = Thrown err w'"
  shows "map_option settle (loop_over nxt e g c w) = Some (Some 1, console_error_value err w')"
  using assms by (simp add: loop_over_Thrown settle_def)

theorem loop_over_source_throws_witness:
  "map_option settle
     (loop_over (\<lambda>g w. Thrown rate_limited w) demo_env () demo_chat demo_world) =
     Some (Some 1, demo_world\<lparr>console := [ErrorValue rate_limited],
       trace := [Print (ErrorValue rate_limited)]\<rparr>)"
  using loop_over_source_throws
    [of "\<lambda>g w. Thrown rate_limited w" "()" demo_world rate_limited demo_world demo_env demo_chat]
  by (simp add: emit_def perform_def demo_world_def)

text \<open>C24. Over any prompt source that sends no request itself: when the loop
  returns, every request sent carries the credential and the model of the
  object and a non-empty well-formed history that ends with a user message,
  and the history of the object is reachable in the abstract session.\<close>

theorem loop_over_session_inv:
  assumes "loop_over nxt e g c w = Some r"
    and "session_inv k m c w" and "reachable (messages c)"
    and "\<And>g w. requests (world_of (nxt g w)) = requests w"
  shows "session_inv k m (fst (snd r)) (snd (snd r)) \<and> reachable (messages (fst (snd r)))"
proof (rule loop_over_invariant
    [where P = "\<lambda>c w. session_inv k m c w \<and> reachable (messages c)", OF assms(1)])
  from assms(2,3) show "session_inv k m c w \<and> reachable (messages c)" by simp
next
  fix p c w
  assume "session_inv k m c w \<and> reachable (messages c)"
  then show "session_inv k m (fst (attempt e p c w)) (snd (attempt e p c w))
      \<and> reachable (messages (fst (attempt e p c w)))"
    using attempt_session_inv [of k m c w e p] handlePrompt_reachable [of c e p w]
    by simp
next
  fix g c w
  assume "session_inv k m c w \<and> reachable (messages c)"
  with assms(4) [of g w] show "session_inv k m c (world_of (nxt g w))
      \<and> reachable (messages c)"
    by (simp add: session_inv_def)
qed

theorem loop_over_session_inv_witness:
  "session_inv (ascii ''sk-demo'') CHAT_DEFAULT_MODEL
     (fst (snd (chat_loop demo_env Readline demo_chat
        (flaky_world\<lparr>stdin := [ascii ''hello'', ascii ''again'']\<rparr>))))
     (snd (snd (chat_loop demo_env Readline demo_chat
        (flaky_world\<lparr>stdin := [ascii ''hello'', ascii ''again'']\<rparr>))))
   \<and> reachable (messages (fst (snd (chat_loop demo_env Readline demo_chat
        (flaky_world\<lparr>stdin := [ascii ''hello'', ascii ''again'']\<rparr>)))))"
  using loop_over_session_inv [OF loop_over_chat_loop, of "ascii ''sk-demo''" CHAT_DEFAULT_MODEL
      demo_chat "flaky_world\<lparr>stdin := [ascii ''hello'', ascii ''again'']\<rparr>"
      demo_env Readline]
  by (simp add: session_inv_def reachable.initial demo_defs)

end
