(* ===== verification/Spec2Isabelle.thy ===== *)
theory Spec2Isabelle
  imports Await_Steps Generic_Loop
begin

text \<open>
  \<^bold>\<open>A verified model of the command-line chat client \<^verbatim>\<open>src/index.js\<close>.\<close>

  \<^bold>\<open>The program.\<close>  The script checks the credential (lines 11--16), defines the
  class \<^verbatim>\<open>OpenAiChat\<close> (lines 22--117) and two prompt sources (lines 119--127),
  picks the source by the number of arguments (lines 130--132), builds and
  initialises one chat object (lines 134--140) and runs its loop (lines
  142--148).  The loop \<^verbatim>\<open>chat\<close> takes prompts from the source and gives each to
  \<^verbatim>\<open>handlePrompt\<close>, which refuses the empty prompt, saves the transcript of the
  history to a file (\<^verbatim>\<open>save to\<close>), empties the history (\<^verbatim>\<open>reset\<close>), or appends the
  prompt to the history, sends the whole history to the completion service
  and appends and prints the answer.  An error of a prompt is reported by the
  loop, which then goes on.

  \<^bold>\<open>The theories\<close>, in the order of their imports:

  \<^item> \<open>JS_Prelude\<close>: strings as lists of 16-bit code units (\<open>jsstring\<close>, \<open>ascii\<close>),
    truthiness of a string-or-undefined value (\<open>truthy\<close>, \<open>or_else\<close>), the
    iteration of a successor function (\<open>iterate\<close>), which both transition
    systems of the program instantiate, and the fact collections \<open>js_eval\<close>,
    \<open>frame\<close> and \<open>js_string\<close>.
  \<^item> \<open>JS_String\<close>: the library calls of the program after the algorithms of
    ECMAScript: \<open>startsWith\<close>, \<open>substring\<close>, \<open>includes_str\<close> (with its search loop
    \<open>indexOf_from\<close>), \<open>array_slice\<close>, \<open>array_splice\<close>, \<open>join\<close> (with \<open>join_loop\<close>),
    \<open>trim\<close>, and \<open>toString\<close> of a number.  Each is characterised by a list
    function (\<open>prefix\<close>, \<open>drop\<close>, \<open>sublist\<close>, \<open>concat\<close>, \<open>dropWhile\<close>); the search
    is shown to return the first match, \<open>trim\<close> to remove exactly the white
    space at both ends, and \<open>toString\<close> to be read back by \<open>parse_nat\<close>.
  \<^item> \<open>Transcript\<close>: the record \<open>message\<close> and \<^verbatim>\<open>_transcript\<close> (lines 39--46) as
    \<open>transcript_block\<close> and \<open>transcript\<close>, with the line separator \<^verbatim>\<open>os.EOL\<close> as
    an argument.  Lemmas give the shape of a block and of the transcript of
    an extended history.  A reader (\<open>split_on\<close>, \<open>parse_block\<close>,
    \<open>parse_transcript_eol\<close>; \<open>split_at\<close> and \<open>parse_transcript\<close> for a separator
    of one unit), which the program does not have, states the round trip
    for histories whose contents do not contain the line separator, for
    the separators of both platforms; a closed theorem shows that the
    format is ambiguous without that restriction.
  \<^item> \<open>JSON\<close>: \<^verbatim>\<open>JSON.stringify\<close> of a message (lines 86 and 95) with the string
    quoting of ECMAScript over code points; the quoting leaves plain strings
    as they are and lets no control character through, and a reader of JSON
    strings and of message objects (\<open>unquote\<close>, \<open>parse_message\<close>), which the
    program does not have, gets string and message back from the text.
  \<^item> \<open>World\<close>: what is outside the program.  The record \<open>env\<close> holds the
    environment variables read, \<^verbatim>\<open>process.argv\<close> and \<^verbatim>\<open>os.EOL\<close>; the record
    \<open>world\<close> holds the files, an oracle \<open>write_error\<close> for writes that fail, the
    console as the list of events written so far, standard input as the list
    of lines still to be read, the requests sent so far, and the service as
    an oracle \<open>remote\<close> from the requests sent to a result, and the \<open>trace\<close>:
    the list of all effects (\<open>effect\<close>: a line printed, a line read, a
    request sent and its answer received, a file written, a write refused)
    in the order in which they happened.  The primitives \<open>emit\<close>,
    \<open>writeFile\<close> and \<open>createChatCompletion\<close> change the world through
    \<open>perform\<close> only, which applies an effect and records it.  \<open>queries\<close>,
    \<open>error_lines\<close> and \<open>logs_only\<close> observe the console.  Thrown values are
    \<open>js_error\<close>; an operation that can throw returns \<open>Inl\<close> of the error or \<open>Inr\<close>
    of its value, together with the world it left.
  \<^item> \<open>Prompt_Source\<close>: the two async generators as control states
    (\<open>generator\<close>) with \<open>next_prompt\<close> for one step of \<^verbatim>\<open>for await\<close>: a prompt
    and the next state, completion, or waiting for a line that is not there.
    The result type \<open>next_result\<close> is that of any generator and has a fourth
    case, a generator that throws.
  \<^item> \<open>Chat_Session\<close>: the class as the record \<open>OpenAiChat\<close> and its methods as
    functions on object and world: \<open>constructor\<close>, \<open>initialize\<close>, \<open>resetChat\<close>,
    \<open>callOpenaiChatApi\<close> and \<open>handlePrompt\<close> with its branches \<open>save_to\<close> and
    \<open>send_message\<close>.  State changed before a throw stays changed.  \<open>classify\<close>
    names the branch a prompt takes.  The theorems give the full effect of
    every branch on history, files, requests and console, on success and on
    failure, the parts of the state every branch leaves alone, and that
    \<^verbatim>\<open>handlePrompt\<close> writes to standard output only.
  \<^item> \<open>Chat_Loop\<close>: \<^verbatim>\<open>chat\<close> (lines 99--116) as \<open>chat_loop\<close>, a recursive function
    over the generator state, with the loop body \<open>attempt\<close> and the catch
    block \<open>report\<close>; the result carries the state of the promise that
    \<^verbatim>\<open>chat()\<close> returns.  The loop is unfolded for both sources: one
    \<open>attempt\<close> in argument mode, a left fold of \<open>ask_and_attempt\<close> over the
    input lines in interactive mode.  \<open>chat_loop_invariant2\<close> lifts an
    invariant of \<open>handlePrompt\<close> to the loop; the loop reads the whole input
    and reports every failed prompt once.
  \<^item> \<open>Main_Program\<close>: the top-level statements as \<open>main\<close>, from environment
    and world to the exit code, if the program exits, and the world.
  \<^item> \<open>Chat_Spec\<close>: the contract of a session written from the specification:
    \<open>spec_step\<close>, the function on histories that a prompt stands for, the
    step relation \<open>session_step\<close> and the histories \<open>reachable\<close> by it, and the
    invariants \<open>well_formed\<close> and \<open>alternating\<close>.  \<open>handlePrompt\<close> is shown to
    refine \<open>spec_step\<close> and to simulate \<open>session_step\<close>; the invariants are
    proved by rule induction on the abstract side and carried to whole runs
    through the loop.
  \<^item> \<open>Program_Steps\<close>: the run of the script as a transition system.  The
    configurations (\<open>control\<close> and the world) are the points where the script
    can be: before the check of the credential, at the head of the loop, in
    the \<^verbatim>\<open>try\<close> block, in the \<^verbatim>\<open>catch\<close> block, exited, waiting for a line.
    \<open>step\<close> is the transition relation, \<open>next_config\<close> the same as a function
    and \<open>run_for\<close> that function iterated.  The relation is deterministic and
    never stuck; it is well-founded, so every run is finite, and \<open>rank\<close> bounds
    its length; the one final configuration reachable from the start is the
    result of \<open>main\<close>; in every configuration of a run the object is
    configured (\<open>typed\<close>) and the invariant of the session and of the
    requests holds (\<open>config_inv\<close>).
  \<^item> \<open>Effect_Trace\<close>: the order of the interactions of a run.  \<open>since w w'\<close> are
    the effects recorded between two worlds and \<open>replay\<close> performs a list of
    effects; the world after a run is the world before it with the effects
    in between replayed, and console, requests, input and files written
    are projections of the trace (\<open>prints\<close>, \<open>sends\<close>, \<open>reads\<close>, \<open>writes\<close>).  The
    discipline of the program on its interactions is a monitor (\<open>monitor\<close>,
    \<open>run_monitor\<close> over the phases \<open>Idle\<close>, \<open>Asked\<close>, \<open>Sent\<close>, \<open>Got\<close>, \<open>Saved\<close>,
    \<open>Failing\<close>), written from the behaviour the specification describes; \<open>conforms\<close> composes along the
    calls of the program, from the primitives up to \<open>main\<close>.  The requests of
    a run and the files it writes are related to its prompts (\<open>asked_of\<close>,
    \<open>is_say\<close>, \<open>saved_file\<close>).
  \<^item> \<open>Await_Steps\<close>: the run at the level of the \<^verbatim>\<open>await\<close>s.  \<^verbatim>\<open>handlePrompt\<close> is
    cut where it waits for something outside the program: \<open>enter\<close> is the
    method up to its first \<^verbatim>\<open>await\<close> (or to its end), \<open>resume_request\<close> and
    \<open>resume_save\<close> are the rest of it once the answer of the service (line 59)
    or the result of the write (line 73) is there, \<open>begin_request\<close> and
    \<open>end_request\<close> are the two halves of \<^verbatim>\<open>createChatCompletion\<close>.  The relation
    \<open>astep\<close> (as a function: \<open>anext\<close>, iterated: \<open>arun_for\<close>) has the suspended
    configurations \<open>Requesting\<close> and \<open>Saving\<close> next to those of \<open>Program_Steps\<close>.
    It refines \<open>step\<close> under \<open>settled\<close>, which lets a suspended configuration
    stand for the one its resumption leads to, and reaches the result of
    \<open>main\<close>; \<open>await_inv\<close> is what holds while the program is suspended.
    \<open>session\<close> is a run in which the lines of standard input arrive one at
    a time while the program waits at its query; it ends as \<open>main\<close> computes
    from the list of these lines, because the loop body neither reads
    standard input nor depends on it.
  \<^item> \<open>Generic_Loop\<close>: the loop of the class over any prompt source, as the
    constructor takes one: \<open>loop_over\<close> and \<open>chat_over\<close> over a step function
    \<open>'g \<Rightarrow> world \<Rightarrow> 'g next_result\<close>.  The loop is a partial function with
    result \<open>option\<close>, since a source may yield for ever.  It returns when a
    measure decreases with every prompt, keeps the invariants that source
    and loop body keep, and rejects when the source throws, which takes the
    script to its rejection handler and to exit code 1; at the sources of
    the script it is \<open>chat\<close>.
  \<^item> This theory: properties of whole runs of \<open>main\<close> that need all of the
    above, among them the discipline of interactions at every point of a
    run, the suspended ones included (\<open>phase_at\<close>, \<open>phase_in\<close>, \<open>on_track\<close>).

  \<^bold>\<open>Modelling decisions and bounds.\<close>

  \<^item> Standard input is a finite list of lines: the lines that \<^verbatim>\<open>readline\<close>
    hands to the queries of the program, in order.  When lines arrive
    relative to the queries, and what \<^verbatim>\<open>readline\<close> does with a line that
    arrives while no query is pending, is not part of the model.
  \<^item> The interactive loop consumes one line per iteration and the argument
    source has two states left after its start, so \<open>loop_measure\<close> (the lines
    left, or the steps the argument source has left) decreases in every
    iteration and \<open>chat_loop\<close> is total: no fuel is needed, and every theorem
    about \<open>chat\<close> and \<open>main\<close> is about a run that has consumed the whole
    input.  For the transition system \<open>rank\<close> bounds the transitions left by
    three for every prompt still to come plus the start and the exit, so
    \<open>run_for\<close> with \<open>3 * length (stdin w) + 5\<close> transitions or fewer reaches the
    final configuration; the bound is attained.  When the input is exhausted the
    interactive loop is waiting in \<^verbatim>\<open>rl.question\<close>: the promise is pending and
    \<open>main\<close> gives no exit code.
  \<^item> \<open>loop_over\<close> needs no fuel either: it is defined by
    \<^theory_text>\<open>partial_function (option)\<close>, \<open>None\<close> is a loop that does not return, and that
    it returns is a theorem with the measure as its assumption.
  \<^item> A request is recorded with the history as it is at the time of the
    call, which is what the client serialises.
  \<^item> The service is an arbitrary function of the requests sent so far, so a
    theorem with no assumption on \<open>remote\<close> holds for every behaviour of the
    service, failures and answers without a choice included.  A message of
    the service is a role and a content, both strings.
  \<^item> A write fails exactly when the file name is empty or the oracle
    \<open>write_error\<close> gives an error for it; a failed write changes no file.
    The oracle is a function of the file name alone: during one run a name
    can be written always or never.
  \<^item> An effect is recorded when the call that causes it is made: the answer
    of the service directly after the request, because nothing of the
    program runs while it awaits the answer; a line directly after the
    query that it answers.  \<open>Await_Steps\<close> has the configurations in between
    and shows that the only transition from there is the resumption.
    \<open>console\<close> and \<open>requests\<close> are kept next to the trace as the views of it
    that most theorems need, and are shown to be its projections.
  \<^item> A suspension is an \<^verbatim>\<open>await\<close> on something outside the program: the answer
    of the service, the result of the write, a line of input.  An \<^verbatim>\<open>await\<close> on
    a promise that the program itself has settled (lines 104 and 126, and
    a call that throws before it reaches the service) resumes without
    anything outside having happened and is no configuration of its own.
    The write is recorded, and the file changed, when the write is resumed.
  \<^item> Numbers are natural numbers (array lengths, indices, the HTTP status);
    code units are \<open>16 word\<close>, compared as unsigned numbers.
  \<^item> The sample values \<open>demo_env\<close>, \<open>demo_world\<close>, \<open>failing_world\<close>, \<open>flaky_world\<close>,
    \<open>rate_limited\<close> and \<open>demo_chat\<close> are the inputs at which the theorems with
    hypotheses are applied.

  \<^bold>\<open>Not modelled\<close>, and why.

  \<^item> The \<^verbatim>\<open>openai\<close> client and its HTTP transport: a library that the source
    only calls.  The model keeps its interface, the request that leaves and
    the result or error that comes back.
  \<^item> The \<^verbatim>\<open>readline\<close> interface beyond the query it writes and the line it
    hands over: line editing and echo are terminal I/O; what becomes of a
    line that arrives while no query is pending, the end of the input
    stream, and a \<^verbatim>\<open>question\<close> after the interface was closed are decided by
    the library and differ between its versions.  Lines that arrive while
    a query is pending are covered by \<open>session\<close>; a source that throws is
    covered for any source by \<open>Generic_Loop\<close>.
  \<^item> The Node.js runtime: the queue of jobs that resumes an \<^verbatim>\<open>await\<close>, which
    has one job at a time in this program, and what the runtime does with a
    pending promise when nothing is left to wait for: the source has no
    code for either.
  \<^item> Properties of an answer other than role and content, which the program
    passes on unread, and the text that \<^verbatim>\<open>console.error\<close> prints for an error
    object, which is kept as the event \<open>ErrorValue\<close> of that object.
  \<^item> Values outside the types of the interfaces: a prompt that is not a
    string (both sources yield strings only, so the test \<^verbatim>\<open>!prompt\<close> of line
    66 is the test for the empty string), and an answer whose first choice
    has no message or whose message has no string content (the contract of
    the service excludes both; the code would push the value it got and
    fail at line 92).

  Everything else of \<^verbatim>\<open>src/index.js\<close> is modelled; the lines that no
  definition stands for are blank or hold a closing brace.
\<close>

section \<open>Properties of whole runs\<close>

text \<open>Every request that a run of the program sends carries the credential
  of the environment and the configured model (the default model when
  \<^verbatim>\<open>CHAT_OPENAI_MODEL\<close> is unset or empty), and a non-empty, well-formed history
  whose last message is the user message of the prompt being handled.\<close>

lemma main_requests_well_formed:
  assumes "OPENAI_API_KEY e = Some k" and "k \<noteq> []"
    and "list_all (request_ok k (or_else (CHAT_OPENAI_MODEL e) CHAT_DEFAULT_MODEL)) (requests w)"
  shows "list_all (request_ok k (or_else (CHAT_OPENAI_MODEL e) CHAT_DEFAULT_MODEL))
     (requests (snd (main e w)))"
proof -
  let ?m = "or_else (CHAT_OPENAI_MODEL e) CHAT_DEFAULT_MODEL"
  from assms(3) have "session_inv k ?m (new_chat e k) w"
    by (simp add: session_inv_def)
  then have "session_inv k ?m (fst (snd (chat e (new_chat e k) w)))
      (snd (snd (chat e (new_chat e k) w)))"
    by (rule chat_session_inv)
  with assms(1,2) show ?thesis
    by (simp add: main_world session_inv_def)
qed

lemma main_requests_well_formed_example:
  "list_all (request_ok (ascii ''sk-demo'') CHAT_DEFAULT_MODEL)
     (requests (snd (main demo_env
        (flaky_world\<lparr>stdin := [ascii ''hello'', ascii ''again'']\<rparr>))))"
  using main_requests_well_formed [of demo_env "ascii ''sk-demo''"
      "flaky_world\<lparr>stdin := [ascii ''hello'', ascii ''again'']\<rparr>"]
  by (simp add: demo_defs)


section \<open>The discipline of interactions at every point of a run\<close>

text \<open>
  \<open>phase_at\<close> and \<open>phase_in\<close> relate the points where the program can be to the
  phases of the monitor: a request is unanswered exactly while the program
  is suspended at line 59; a line on the error stream can be outstanding only
  in the \<^verbatim>\<open>catch\<close> block; a query is open only when the program waits for a
  line; everywhere else, also while a write is awaited, nothing is
  outstanding.  \<open>on_track w s\<close>: the effects recorded between the world \<open>w\<close>
  and the configuration \<open>s\<close> take the monitor to a phase that fits the point
  of \<open>s\<close>.
\<close>

fun phase_at :: "control \<Rightarrow> phase \<Rightarrow> bool" where
  "phase_at (Catching err g c) ph \<longleftrightarrow> ph = Idle \<or> ph = Failing"
| "phase_at (Waiting c) ph \<longleftrightarrow> ph = Asked"
| "phase_at ctl ph \<longleftrightarrow> ph = Idle"

fun phase_in :: "point \<Rightarrow> phase \<Rightarrow> bool" where
  "phase_in (At ctl) ph \<longleftrightarrow> phase_at ctl ph"
| "phase_in (Requesting g c) ph \<longleftrightarrow> ph = Sent"
| "phase_in (Saving filename data g c) ph \<longleftrightarrow> ph = Idle"

definition on_track :: "world \<Rightarrow> aconfig \<Rightarrow> bool" where
  "on_track w s \<longleftrightarrow> (\<exists>ph. conforms Idle w (snd s) ph \<and> phase_in (fst s) ph)"

lemma on_track_lift:
  "on_track w (lift t) \<longleftrightarrow> (\<exists>ph. conforms Idle w (snd t) ph \<and> phase_at (fst t) ph)"
  by (cases t) (simp add: on_track_def)

lemma phase_in_enter:
  "phase_in (fst (enter e p g c v)) (if is_requesting (fst (enter e p g c v)) then Sent else Idle)"
  by (simp add: enter_def Let_def split: option.splits)

lemma phase_at_resume_request:
  "phase_at (fst (resume_request e g c v))
     (if is_catching (fst (resume_request e g c v)) then Failing else Idle)"
  by (simp add: resume_request_def split: prod.splits sum.splits list.splits)

lemma phase_at_resume_save:
  "phase_at (fst (resume_save f d g c v))
     (if is_catching (fst (resume_save f d g c v)) then Failing else Idle)"
  by (simp add: resume_save_def split: prod.splits sum.splits)

lemma step_on_track:
  assumes "step e s t" and "on_track w (lift s)"
  shows "on_track w (lift t)"
  using assms
proof (induction rule: step.induct)
  case (yielded g v p g' v' c)
  with next_prompt_conforms [of v e g] show ?case
    by (auto simp: on_track_def intro: conforms_trans)
next
  case (completed g v v' c)
  with next_prompt_conforms [of v e g] show ?case
    by (auto simp: on_track_def intro: conforms_trans)
next
  case (pending g v v' c)
  with next_prompt_conforms [of v e g] show ?case
    by (auto simp: on_track_def intro: conforms_trans)
next
  case (returned p c v u c' v' g)
  with handlePrompt_conforms [of v e p c] show ?case
    by (auto simp: on_track_def intro: conforms_trans)
next
  case (threw p c v err c' v' g)
  with handlePrompt_conforms [of v e p c] show ?case
    by (auto simp: on_track_def intro: conforms_trans)
next
  case (reported err g c v)
  then show ?case
    by (auto simp: on_track_def intro: report_conforms)
qed (auto simp: on_track_def intro: conforms_then_emit)

lemma astep_on_track:
  assumes "astep e s t" and "on_track w s"
  shows "on_track w t"
  using assms
proof (induction rule: astep.induct)
  case (outside ctl v t)
  then show ?case by (auto intro: step_on_track [where s = "(ctl, v)"])
next
  case (entered p g c v)
  then have "conforms Idle w v Idle" by (simp add: on_track_def)
  from conforms_trans [OF this enter_conforms [of v e p g c]] phase_in_enter [of e p g c v]
  show ?case unfolding on_track_def by blast
next
  case (answered g c v)
  then have "conforms Idle w v Sent" by (simp add: on_track_def)
  from conforms_trans [OF this resume_request_conforms [of v e g c]]
    phase_at_resume_request [of e g c v]
  show ?case unfolding on_track_lift by blast
next
  case (written filename data g c v)
  then have "conforms Idle w v Idle" by (simp add: on_track_def)
  from conforms_trans [OF this resume_save_conforms [of v filename data g c]]
    phase_at_resume_save [of filename data g c v]
  show ?case unfolding on_track_lift by blast
qed

text \<open>C19. At every point of a run, also while the program is suspended, the
  interactions made so far follow the discipline of the monitor, and the
  phase of the monitor fits the point where the program is: a request is
  unanswered exactly while the program is suspended at line 59, so no second
  request leaves and no line is read until the answer is there; while a
  write is awaited, in the \<^verbatim>\<open>try\<close> block and at the head of the loop nothing
  is outstanding; in the \<^verbatim>\<open>catch\<close> block at most the line of the error is; a
  query is open exactly when the program waits for a line.\<close>

theorem await_on_track:
  assumes "(astep e)\<^sup>*\<^sup>* (At Start, w) s"
  shows "on_track w s"
  using assms
proof (induction rule: rtranclp_induct)
  case base
  show ?case by (simp add: on_track_def)
next
  case (step s t)
  then show ?case by (blast intro: astep_on_track)
qed

theorem await_on_track_witness:
  "on_track (demo_world\<lparr>stdin := [ascii ''hello'']\<rparr>)
     (Requesting Readline
        ((new_chat demo_env (ascii ''sk-demo''))\<lparr>messages := [userMessage (ascii ''hello'')]\<rparr>),
      demo_world\<lparr>console := [Log welcome_line, Question readline_query],
        requests := [(ascii ''sk-demo'', \<lparr>req_model = ascii ''gpt-3.5-turbo'',
          req_messages = [userMessage (ascii ''hello'')]\<rparr>)],
        trace := [Print (Log welcome_line), Print (Question readline_query),
          Read (ascii ''hello''),
          Send (ascii ''sk-demo'', \<lparr>req_model = ascii ''gpt-3.5-turbo'',
            req_messages = [userMessage (ascii ''hello'')]\<rparr>)]\<rparr>)"
  using await_on_track
    [OF arun_for_reaches [of demo_env 3 "(At Start, demo_world\<lparr>stdin := [ascii ''hello'']\<rparr>)"]]
  by (simp add: arun_for_def iterate_numeral js_eval js_string_rec next_prompt.simps(3)
      enter_def begin_request_def userMessage_def)

text \<open>In particular the discipline holds at every configuration of a run of
  \<open>Program_Steps\<close>.\<close>

lemma run_on_track:
  assumes "(step e)\<^sup>*\<^sup>* (Start, w) s"
  shows "on_track w (lift s)"
  using assms
proof (induction rule: rtranclp_induct)
  case base
  show ?case by (simp add: on_track_def)
next
  case (step s t)
  then show ?case by (blast intro: step_on_track)
qed

end
